theory Spec2Isabelle
  imports Complex_Main
begin

section \<open>Data model\<close>

text \<open>
  The component is \<^verbatim>\<open>VRFullScreenUserWidget.cpp\<close>: a widget shown either as a
  full-screen overlay of a viewport or through a post-process material. Every operation
  calls into the host engine. The model keeps three things apart:
  \<^item> the fields of the component's own structs, as records;
  \<^item> the host at the moment of a call, as a record \<open>Host\<close> of the answers the engine
    gives to the queries the code makes (world type, viewport size, loaded modules,
    addresses returned by allocators);
  \<^item> the calls with an effect on the host, appended in program order to a list kept
    beside the fields of the struct that issues them.

  Objects the component creates and owns are held by value, each with the address the
  host allocator gave it, so that a pointer to one of them is comparable. Raw pointers
  are \<open>addr option\<close> with \<open>None\<close> the null pointer. A weak pointer is modelled by
  what \<^verbatim>\<open>Get()\<close>/\<^verbatim>\<open>Pin()\<close> returns: \<open>None\<close> when it is null, reset or stale.
  \<^verbatim>\<open>float\<close> values are only stored, passed on, compared with constants and
  converted to integers by the engine (see \<open>IntPoint\<close>); they are modelled as \<open>real\<close>,
  a constant by the exact value of its \<^verbatim>\<open>float\<close>. \<^verbatim>\<open>int32\<close> values are only
  compared; they are modelled as \<open>int\<close>.
\<close>

type_synonym addr = nat
type_synonym FName = string

datatype EWorldType =
  None_WorldType | Game | Editor | PIE | EditorPreview | GamePreview | GameRPC | Inactive_WorldType

datatype EVRWidgetDisplayType = Inactive | Viewport | PostProcess

datatype EWindowVisibility = Visible_Window | SelfHitTestInvisible_Window

datatype EVisibility = Visible | Collapsed | Hidden | HitTestInvisible | SelfHitTestInvisible

datatype EWidgetBlendMode = Opaque | Masked | Transparent

datatype EObjectFlags = RF_Transient | RF_ArchetypeObject | RF_ClassDefaultObject

record FIntPoint =
  X :: int
  Y :: int

record FVector2D =
  VX :: real
  VY :: real

record FLinearColor =
  R :: real
  G :: real
  B :: real
  A :: real

definition ZeroValue :: FIntPoint where
  "ZeroValue = \<lparr>X = 0, Y = 0\<rparr>"

definition ZeroVector :: FVector2D where
  "ZeroVector = \<lparr>VX = 0, VY = 0\<rparr>"

definition White :: FLinearColor where
  "White = \<lparr>R = 1, G = 1, B = 1, A = 1\<rparr>"

text \<open>
  The engine's \<^verbatim>\<open>SMALL_NUMBER\<close> macro, \<^verbatim>\<open>(1.e-8f)\<close>: a \<^verbatim>\<open>float\<close> literal, whose
  value is the binary32 number nearest to \<open>1 / 10^8\<close>, that is \<open>11258999 / 2^50\<close>,
  slightly below \<open>1 / 10^8\<close>.
\<close>

definition SMALL_NUMBER :: real where
  "SMALL_NUMBER = 11258999 / 1125899906842624"

definition NAME_SlateUI :: FName where
  "NAME_SlateUI = ''SlateUI''"

definition NAME_TintColorAndOpacity :: FName where
  "NAME_TintColorAndOpacity = ''TintColorAndOpacity''"

definition NAME_OpacityFromTexture :: FName where
  "NAME_OpacityFromTexture = ''OpacityFromTexture''"

subsection \<open>The host at the moment of a call\<close>

record Host =
  WITH_EDITOR :: bool
  UE_SERVER :: bool
  GUsingNullRHI :: bool
  IsRunningDedicatedServer :: bool
  SlateApplication_IsInitialized :: bool
  GetMax2DTextureDimension :: int
  IsModuleLoaded_LevelEditor :: bool
  GetFirstActiveLevelViewport :: "addr option"
  GEngine_GetGameViewportWidget :: "addr option"
  WorldType :: "addr \<Rightarrow> EWorldType"
  GetGameViewport :: "addr \<Rightarrow> addr option"
  GetViewportSize :: "addr \<Rightarrow> FVector2D \<Rightarrow> FVector2D"
  FMath_RoundToInt :: "real \<Rightarrow> int"
  IsGameWorld :: "addr \<Rightarrow> bool"
  GetGameInstance :: "addr \<Rightarrow> addr option"
  GetGameViewportClient :: "addr \<Rightarrow> addr option"
  GetGameViewportWidget :: "addr \<Rightarrow> addr option"
  GetWorldSettings :: "addr \<Rightarrow> addr"
  GetSharedActiveViewport :: "addr \<Rightarrow> addr option"
  SceneViewport_GetSize :: "addr \<Rightarrow> FIntPoint"
  LevelViewport_GetViewportWidget :: "addr \<Rightarrow> addr option"
  GetCustomHitTestPath :: "addr \<Rightarrow> addr option"
  IsDesignTime :: "addr \<Rightarrow> bool"
  TakeWidget :: "addr \<Rightarrow> addr"
  NewObject_TextureRenderTarget2D :: addr
  NewObject_PostProcessComponent :: addr
  MaterialInstanceDynamic_Create :: addr
  new_FWidgetRenderer :: addr
  SNew_SVirtualWindow :: addr
  SNew_SConstraintCanvas :: addr
  MakeShared_HitTester :: addr
  CreateWidget :: "addr option"
  GetDPIScaleFactorAtPoint :: real
  GetDefault_UserInterfaceSettings :: bool
  GetDPIScaleBasedOnSize :: "FIntPoint \<Rightarrow> real"
  Uninitialized_FVector2D :: FVector2D

text \<open>
  \<open>GetViewportSize h c v\<close> is the value of the in-out argument after
  \<^verbatim>\<open>c->GetViewportSize(OutSize)\<close> when it held \<open>v\<close> before. The allocator fields are
  the addresses the allocators return during this call. \<open>Uninitialized_FVector2D\<close> is
  the content of a default-constructed \<^verbatim>\<open>FVector2D\<close>, which the engine leaves
  uninitialised.

  \<^verbatim>\<open>FVector2D::IntPoint()\<close> is the engine's
  \<^verbatim>\<open>FIntPoint(FMath::RoundToInt(X), FMath::RoundToInt(Y))\<close>, and \<^verbatim>\<open>FMath::RoundToInt(F)\<close>
  is \<^verbatim>\<open>FloorToInt(F + 0.5f)\<close> or a platform intrinsic for it. On a whole number of
  magnitude below \<open>2^22\<close> every sum involved is exact in \<^verbatim>\<open>float\<close> and each
  implementation returns that number. Elsewhere the result depends on how the platform
  rounds the sum; there it is the host's answer \<open>FMath_RoundToInt h\<close>.
\<close>

definition RoundToInt :: "Host \<Rightarrow> real \<Rightarrow> int" where
  "RoundToInt h F =
     (if F = of_int \<lfloor>F\<rfloor> \<and> \<bar>F\<bar> < 4194304 then \<lfloor>F\<rfloor> else FMath_RoundToInt h F)"

definition IntPoint :: "Host \<Rightarrow> FVector2D \<Rightarrow> FIntPoint" where
  "IntPoint h v = \<lparr>X = RoundToInt h (VX v), Y = RoundToInt h (VY v)\<rparr>"

subsection \<open>Calls with an effect on the host\<close>

datatype HostCall =
    AddViewportWidgetContent addr addr
  | RemoveViewportWidgetContent addr addr
  | AddOverlayWidget addr addr
  | RemoveOverlayWidget addr addr
  | RegisterComponent addr
  | UnregisterComponent addr
  | BeginCleanup addr
  | RegisterVirtualWindow addr
  | UnregisterVirtualWindow addr
  | SetCustomHitTestPath addr "addr option"
  | InitCustomFormat addr int int
  | UpdateResourceImmediate addr
  | DrawWindow "addr option" addr real FIntPoint real
  | SetFlags addr EObjectFlags
  | LevelRemovedFromWorld_AddUObject
  | LevelRemovedFromWorld_RemoveAll

text \<open>
  \<open>InitCustomFormat rt x y\<close> stands for
  \<^verbatim>\<open>rt->InitCustomFormat(x, y, PF_B8G8R8A8, false)\<close>, the only form the code uses, and
  \<open>DrawWindow rt w scale size dt\<close> for
  \<^verbatim>\<open>WidgetRenderer->DrawWindow(rt, w->GetHittestGrid(), w, scale, size, dt)\<close>.
\<close>

subsection \<open>Objects the component creates\<close>

record UTextureRenderTarget2D =
  RenderTarget_Addr :: addr
  RenderTarget_Outer :: addr
  ClearColor :: FLinearColor
  SizeX :: int
  SizeY :: int

record FWidgetRenderer =
  Renderer_Addr :: addr
  bUseGammaCorrection :: bool
  bPrepassNeeded :: bool

record SDPIScaler =
  DPIScale :: real
  ScalerContent :: addr

record SVirtualWindow =
  Window_Addr :: addr
  WindowSize :: FIntPoint
  bIsFocusable :: bool
  Visibility :: EVisibility
  WindowContent :: SDPIScaler
  ParentWidget :: "addr option"

record SConstraintCanvas =
  Canvas_Addr :: addr
  SlotContent :: SDPIScaler

record UMaterialInstanceDynamic =
  MaterialInstance_Addr :: addr
  Parent :: addr
  MaterialInstance_Outer :: addr
  TextureParameterValues :: "FName \<rightharpoonup> addr option"
  VectorParameterValues :: "FName \<rightharpoonup> FLinearColor"
  ScalarParameterValues :: "FName \<rightharpoonup> real"

record FWeightedBlendable =
  Weight :: real
  Object :: "addr option"

record UPostProcessComponent =
  Component_Addr :: addr
  Component_Outer :: addr
  bEnabled :: bool
  bUnbound :: bool
  WeightedBlendables :: "FWeightedBlendable list"

record FVirtualPointerPosition =
  CurrentCursorPosition :: FVector2D
  LastCursorPosition :: FVector2D

record FWidgetAndPointer =
  ArrangedWidget :: addr
  PointerPosition :: "FVirtualPointerPosition option"

subsection \<open>FVRWidgetPostProcessHitTester\<close>

record FVRWidgetPostProcessHitTester =
  HitTester_Addr :: addr
  HitTester_World :: "addr option"
  HitTester_SlateWindow :: "addr option"
  HitTester_WidgetDrawSize :: FIntPoint
  LastLocalHitLocation :: FVector2D

subsection \<open>FVRFullScreenUserWidget_Viewport\<close>

record FVRFullScreenUserWidget_Viewport =
  bAddedToGameViewport :: bool
  FullScreenCanvasWidget :: "SConstraintCanvas option"
  OverlayWidgetLevelViewport :: "addr option"
  Viewport_TargetViewport :: "addr option"
  Viewport_Calls :: "HostCall list"

subsection \<open>FVRFullScreenUserWidget_PostProcess\<close>

record FVRFullScreenUserWidget_PostProcess =
  PostProcessMaterial :: "addr option"
  PostProcessTintColorAndOpacity :: FLinearColor
  PostProcessOpacityFromTexture :: real
  bWidgetDrawSize :: bool
  WidgetDrawSize :: FIntPoint
  bWindowFocusable :: bool
  WindowVisibility :: EWindowVisibility
  bReceiveHardwareInput :: bool
  RenderTargetBackgroundColor :: FLinearColor
  RenderTargetBlendMode :: EWidgetBlendMode
  WidgetRenderTarget :: "UTextureRenderTarget2D option"
  PostProcessComponent :: "UPostProcessComponent option"
  PostProcessMaterialInstance :: "UMaterialInstanceDynamic option"
  WidgetRenderer :: "FWidgetRenderer option"
  SlateWindow :: "SVirtualWindow option"
  ViewportWidget :: "addr option"
  CustomHitTestPath :: "FVRWidgetPostProcessHitTester option"
  CurrentWidgetDrawSize :: FIntPoint
  bRenderToTextureOnly :: bool
  PostProcess_TargetViewport :: "addr option"
  PostProcess_Calls :: "HostCall list"

subsection \<open>UVRFullScreenUserWidget\<close>

record UVRFullScreenUserWidget =
  ObjectFlags :: "EObjectFlags set"
  WidgetClass :: "addr option"
  EditorDisplayType :: EVRWidgetDisplayType
  GameDisplayType :: EVRWidgetDisplayType
  PIEDisplayType :: EVRWidgetDisplayType
  ViewportDisplayType :: FVRFullScreenUserWidget_Viewport
  PostProcessDisplayType :: FVRFullScreenUserWidget_PostProcess
  Widget :: "addr option"
  World :: "addr option"
  CurrentDisplayType :: EVRWidgetDisplayType
  bDisplayRequested :: bool
  TargetViewport :: "addr option"
  Widget_Calls :: "HostCall list"

section \<open>Operations\<close>

subsection \<open>FVRWidgetPostProcessHitTester\<close>

text \<open>
  \<^verbatim>\<open>GetBubblePathAndVirtualCursors\<close>. \<open>Pin\<close> is the result of \<^verbatim>\<open>SlateWindow.Pin()\<close>
  at the call: \<open>None\<close> when the virtual window has expired, otherwise the
  \<^verbatim>\<open>GetBubblePath\<close> of the window's hit-test grid. \<open>AbsoluteToLocal\<close> is that of
  \<^verbatim>\<open>InGeometry\<close>. The member \<^verbatim>\<open>LastLocalHitLocation\<close> is \<^verbatim>\<open>mutable\<close>: the
  function returns the hit tester as it leaves it.
\<close>

definition GetBubblePathAndVirtualCursors ::
  "(FVector2D \<Rightarrow> real \<Rightarrow> bool \<Rightarrow> FWidgetAndPointer list) option \<Rightarrow>
   (FVector2D \<Rightarrow> FVector2D) \<Rightarrow> FVector2D \<Rightarrow> bool \<Rightarrow>
   FVRWidgetPostProcessHitTester \<Rightarrow>
   FWidgetAndPointer list \<times> FVRWidgetPostProcessHitTester" where
  "GetBubblePathAndVirtualCursors Pin AbsoluteToLocal DesktopSpaceCoordinate bIgnoreEnabledStatus this =
     (case Pin of
        None \<Rightarrow> ([], this)
      | Some GetBubblePath \<Rightarrow>
          (let LocalMouseCoordinate = AbsoluteToLocal DesktopSpaceCoordinate;
               CursorRadius = 0;
               ArrangedWidgets = GetBubblePath LocalMouseCoordinate CursorRadius bIgnoreEnabledStatus;
               VirtualMouseCoordinate =
                 \<lparr>CurrentCursorPosition = LocalMouseCoordinate,
                  LastCursorPosition = LastLocalHitLocation this\<rparr>;
               this1 = this\<lparr>LastLocalHitLocation := LocalMouseCoordinate\<rparr>
           in (map (\<lambda>W. W\<lparr>PointerPosition := Some VirtualMouseCoordinate\<rparr>) ArrangedWidgets,
               this1)))"

definition SetWidgetDrawSize ::
  "FIntPoint \<Rightarrow> FVRWidgetPostProcessHitTester \<Rightarrow> FVRWidgetPostProcessHitTester" where
  "SetWidgetDrawSize NewWidgetDrawSize this = this\<lparr>HitTester_WidgetDrawSize := NewWidgetDrawSize\<rparr>"

definition FVRWidgetPostProcessHitTester_ctor ::
  "addr \<Rightarrow> addr option \<Rightarrow> addr option \<Rightarrow> FVRWidgetPostProcessHitTester" where
  "FVRWidgetPostProcessHitTester_ctor a InWorld InSlateWindow =
     \<lparr>HitTester_Addr = a, HitTester_World = InWorld, HitTester_SlateWindow = InSlateWindow,
      HitTester_WidgetDrawSize = ZeroValue, LastLocalHitLocation = ZeroVector\<rparr>"

subsection \<open>FVRFullScreenUserWidget_PostProcess\<close>

definition ConvertWindowVisibilityToVisibility :: "EWindowVisibility \<Rightarrow> EVisibility" where
  "ConvertWindowVisibilityToVisibility visibility =
     (case visibility of
        Visible_Window \<Rightarrow> Visible
      | SelfHitTestInvisible_Window \<Rightarrow> SelfHitTestInvisible)"

definition IsTextureSizeValid :: "Host \<Rightarrow> FIntPoint \<Rightarrow> bool" where
  "IsTextureSizeValid h Size =
     (let MaxAllowedDrawSize = GetMax2DTextureDimension h
      in X Size > 0 \<and> Y Size > 0 \<and> X Size \<le> MaxAllowedDrawSize \<and> Y Size \<le> MaxAllowedDrawSize)"

text \<open>
  \<^verbatim>\<open>CalculateWidgetDrawSize(World)\<close> dereferences \<^verbatim>\<open>World\<close> without a test; both callers
  pass a non-null pointer, so the model takes the address.
\<close>

definition CalculateWidgetDrawSize ::
  "Host \<Rightarrow> addr \<Rightarrow> FVRFullScreenUserWidget_PostProcess \<Rightarrow> FIntPoint" where
  "CalculateWidgetDrawSize h InWorld this =
     (if bWidgetDrawSize this then WidgetDrawSize this
      else if WorldType h InWorld = Game \<or> WorldType h InWorld = PIE then
        (case GetGameViewport h InWorld of
           Some ViewportClient \<Rightarrow>
             (let SmallWidgetSize = 16;
                  OutSize = GetViewportSize h ViewportClient \<lparr>VX = SmallWidgetSize, VY = SmallWidgetSize\<rparr>;
                  OutSize1 = (if VX OutSize < SMALL_NUMBER
                              then \<lparr>VX = SmallWidgetSize, VY = SmallWidgetSize\<rparr> else OutSize)
              in IntPoint h OutSize1)
         | None \<Rightarrow> ZeroValue)
      else if WITH_EDITOR h \<and> IsModuleLoaded_LevelEditor h then
        (let ActiveLevelViewport =
               (if PostProcess_TargetViewport this \<noteq> None then PostProcess_TargetViewport this
                else GetFirstActiveLevelViewport h)
         in case ActiveLevelViewport of
              Some LevelViewport \<Rightarrow>
                (case GetSharedActiveViewport h LevelViewport of
                   Some SharedActiveViewport \<Rightarrow> SceneViewport_GetSize h SharedActiveViewport
                 | None \<Rightarrow> ZeroValue)
            | None \<Rightarrow> ZeroValue)
      else ZeroValue)"

definition ReleasePostProcessComponent ::
  "FVRFullScreenUserWidget_PostProcess \<Rightarrow> FVRFullScreenUserWidget_PostProcess" where
  "ReleasePostProcessComponent this =
     (let this1 = (case PostProcessComponent this of
                     Some C \<Rightarrow> this\<lparr>PostProcess_Calls :=
                                   PostProcess_Calls this @ [UnregisterComponent (Component_Addr C)]\<rparr>
                   | None \<Rightarrow> this)
      in this1\<lparr>PostProcessComponent := None, PostProcessMaterialInstance := None\<rparr>)"

text \<open>\<^verbatim>\<open>TArray::SetNumZeroed\<close>: cut to the new length, or fill up with zeroed elements.\<close>

definition SetNumZeroed :: "nat \<Rightarrow> FWeightedBlendable list \<Rightarrow> FWeightedBlendable list" where
  "SetNumZeroed n xs = take n xs @ replicate (n - length xs) \<lparr>Weight = 0, Object = None\<rparr>"

definition CreatePostProcessComponent ::
  "Host \<Rightarrow> addr option \<Rightarrow> FVRFullScreenUserWidget_PostProcess \<Rightarrow>
   bool \<times> FVRFullScreenUserWidget_PostProcess" where
  "CreatePostProcessComponent h InWorld this =
     (let this1 = ReleasePostProcessComponent this;
          this2 =
            (case (InWorld, PostProcessMaterial this1) of
               (Some W, Some Material) \<Rightarrow>
                 (let WorldSetting = GetWorldSettings h W;
                      C = \<lparr>Component_Addr = NewObject_PostProcessComponent h,
                           Component_Outer = WorldSetting,
                           bEnabled = True, bUnbound = True, WeightedBlendables = []\<rparr>;
                      M0 = \<lparr>MaterialInstance_Addr = MaterialInstanceDynamic_Create h,
                            Parent = Material, MaterialInstance_Outer = W,
                            TextureParameterValues = Map.empty,
                            VectorParameterValues = Map.empty,
                            ScalarParameterValues = Map.empty\<rparr>;
                      M1 = M0\<lparr>TextureParameterValues :=
                                 (TextureParameterValues M0)
                                   (NAME_SlateUI \<mapsto> map_option RenderTarget_Addr (WidgetRenderTarget this1))\<rparr>;
                      M2 = M1\<lparr>VectorParameterValues :=
                                 (VectorParameterValues M1)
                                   (NAME_TintColorAndOpacity \<mapsto> PostProcessTintColorAndOpacity this1)\<rparr>;
                      M3 = M2\<lparr>ScalarParameterValues :=
                                 (ScalarParameterValues M2)
                                   (NAME_OpacityFromTexture \<mapsto> PostProcessOpacityFromTexture this1)\<rparr>;
                      Arr0 = SetNumZeroed 1 (WeightedBlendables C);
                      Arr1 = Arr0[0 := (Arr0 ! 0)\<lparr>Weight := 1\<rparr>];
                      Arr2 = Arr1[0 := (Arr1 ! 0)\<lparr>Object := Some (MaterialInstance_Addr M3)\<rparr>]
                  in this1\<lparr>PostProcessComponent := Some (C\<lparr>WeightedBlendables := Arr2\<rparr>),
                           PostProcessMaterialInstance := Some M3,
                           PostProcess_Calls :=
                             PostProcess_Calls this1 @ [RegisterComponent (Component_Addr C)]\<rparr>)
             | _ \<Rightarrow> this1)
      in (PostProcessComponent this2 \<noteq> None \<and> PostProcessMaterialInstance this2 \<noteq> None, this2))"

definition UnRegisterHitTesterWithViewport ::
  "Host \<Rightarrow> FVRFullScreenUserWidget_PostProcess \<Rightarrow> FVRFullScreenUserWidget_PostProcess" where
  "UnRegisterHitTesterWithViewport h this =
     (let this1 =
            (case SlateWindow this of
               Some Win \<Rightarrow>
                 (if SlateApplication_IsInitialized h
                  then this\<lparr>PostProcess_Calls :=
                              PostProcess_Calls this @ [UnregisterVirtualWindow (Window_Addr Win)]\<rparr>
                  else this)
             | None \<Rightarrow> this);
          this2 =
            (case ViewportWidget this1 of
               Some ViewportWidgetPin \<Rightarrow>
                 (if GetCustomHitTestPath h ViewportWidgetPin
                       = map_option HitTester_Addr (CustomHitTestPath this1)
                  then this1\<lparr>PostProcess_Calls :=
                               PostProcess_Calls this1 @ [SetCustomHitTestPath ViewportWidgetPin None]\<rparr>
                  else this1)
             | None \<Rightarrow> this1)
      in this2\<lparr>ViewportWidget := None, CustomHitTestPath := None\<rparr>)"

definition ReleaseRenderer ::
  "Host \<Rightarrow> FVRFullScreenUserWidget_PostProcess \<Rightarrow> FVRFullScreenUserWidget_PostProcess" where
  "ReleaseRenderer h this =
     (let this1 =
            (case WidgetRenderer this of
               Some Rd \<Rightarrow> this\<lparr>PostProcess_Calls :=
                               PostProcess_Calls this @ [BeginCleanup (Renderer_Addr Rd)],
                             WidgetRenderer := None\<rparr>
             | None \<Rightarrow> this);
          this2 = UnRegisterHitTesterWithViewport h this1
      in this2\<lparr>SlateWindow := None, WidgetRenderTarget := None,
               CurrentWidgetDrawSize := ZeroValue\<rparr>)"

text \<open>
  \<^verbatim>\<open>RegisterHitTesterWithViewport\<close> calls \<^verbatim>\<open>SlateWindow.ToSharedRef()\<close>, which asserts
  that the pointer is set: the model returns \<open>None\<close> where the assertion fails.
\<close>

definition RegisterHitTesterWithViewport ::
  "Host \<Rightarrow> addr \<Rightarrow> FVRFullScreenUserWidget_PostProcess \<Rightarrow>
   FVRFullScreenUserWidget_PostProcess option" where
  "RegisterHitTesterWithViewport h InWorld this =
     (let Registered =
            (if \<not> bReceiveHardwareInput this \<and> SlateApplication_IsInitialized h then
               (case SlateWindow this of
                  Some Win \<Rightarrow> Some (this\<lparr>PostProcess_Calls :=
                                         PostProcess_Calls this @ [RegisterVirtualWindow (Window_Addr Win)]\<rparr>)
                | None \<Rightarrow> None)
             else Some this)
      in case Registered of
           None \<Rightarrow> None
         | Some this1 \<Rightarrow>
             (let EngineViewportWidget =
                    (if WorldType h InWorld = Game \<or> WorldType h InWorld = PIE
                     then GEngine_GetGameViewportWidget h
                     else if WITH_EDITOR h \<and> IsModuleLoaded_LevelEditor h then
                       (let ActiveLevelViewport =
                              (if PostProcess_TargetViewport this1 \<noteq> None
                               then PostProcess_TargetViewport this1
                               else GetFirstActiveLevelViewport h)
                        in case ActiveLevelViewport of
                             Some LevelViewport \<Rightarrow> LevelViewport_GetViewportWidget h LevelViewport
                           | None \<Rightarrow> None)
                     else None)
              in case EngineViewportWidget of
                   Some EV \<Rightarrow>
                     (if bReceiveHardwareInput this1 then
                        (if GetCustomHitTestPath h EV \<noteq> None then Some this1
                         else
                           (let HT = FVRWidgetPostProcessHitTester_ctor (MakeShared_HitTester h)
                                       (Some InWorld) (map_option Window_Addr (SlateWindow this1));
                                HT1 = SetWidgetDrawSize (CurrentWidgetDrawSize this1) HT
                            in Some (this1\<lparr>ViewportWidget := Some EV,
                                           CustomHitTestPath := Some HT1,
                                           PostProcess_Calls :=
                                             PostProcess_Calls this1
                                               @ [SetCustomHitTestPath EV (Some (HitTester_Addr HT1))]\<rparr>)))
                      else Some this1)
                 | None \<Rightarrow> Some this1))"

text \<open>
  \<^verbatim>\<open>CreateRenderer\<close>. The result is \<open>None\<close> where an assertion of the source
  fails, otherwise the returned \<^verbatim>\<open>bool\<close> and the struct as the call leaves it.
\<close>

definition CreateRenderer ::
  "Host \<Rightarrow> addr option \<Rightarrow> addr option \<Rightarrow> real \<Rightarrow> FVRFullScreenUserWidget_PostProcess \<Rightarrow>
   (bool \<times> FVRFullScreenUserWidget_PostProcess) option" where
  "CreateRenderer h InWorld InWidget InDPIScale this =
     (let this1 = ReleaseRenderer h this;
          Created =
            (case (InWorld, InWidget) of
               (Some W, Some Wd) \<Rightarrow>
                 (let CalculatedWidgetSize = CalculateWidgetDrawSize h W this1
                  in if IsTextureSizeValid h CalculatedWidgetSize then
                       (let bApplyGammaCorrection = True;
                            this2 = this1
                              \<lparr>CurrentWidgetDrawSize := CalculatedWidgetSize,
                               WidgetRenderer :=
                                 Some \<lparr>Renderer_Addr = new_FWidgetRenderer h,
                                       bUseGammaCorrection = bApplyGammaCorrection,
                                       bPrepassNeeded = True\<rparr>,
                               SlateWindow :=
                                 Some \<lparr>Window_Addr = SNew_SVirtualWindow h,
                                       WindowSize = CalculatedWidgetSize,
                                       bIsFocusable = bWindowFocusable this1,
                                       Visibility =
                                         ConvertWindowVisibilityToVisibility (WindowVisibility this1),
                                       WindowContent =
                                         \<lparr>DPIScale = InDPIScale, ScalerContent = TakeWidget h Wd\<rparr>,
                                       ParentWidget = None\<rparr>\<rparr>
                        in case RegisterHitTesterWithViewport h W this2 of
                             None \<Rightarrow> None
                           | Some this3 \<Rightarrow>
                               (let GameViewportClient =
                                      (if \<not> IsDesignTime h Wd \<and> IsGameWorld h W then
                                         (case GetGameInstance h W of
                                            Some GameInstance \<Rightarrow> GetGameViewportClient h GameInstance
                                          | None \<Rightarrow> None)
                                       else None);
                                    Parented =
                                      (case GameViewportClient of
                                         Some GVC \<Rightarrow>
                                           (case SlateWindow this3 of
                                              Some Win \<Rightarrow>
                                                Some (this3\<lparr>SlateWindow :=
                                                  Some (Win\<lparr>ParentWidget := GetGameViewportWidget h GVC\<rparr>)\<rparr>)
                                            | None \<Rightarrow> None)
                                       | None \<Rightarrow> Some this3)
                                in case Parented of
                                     None \<Rightarrow> None
                                   | Some this4 \<Rightarrow> Some (
                                    let ActualBackgroundColor =
                                          (case RenderTargetBlendMode this4 of
                                             Opaque \<Rightarrow> (RenderTargetBackgroundColor this4)\<lparr>A := 1\<rparr>
                                           | Masked \<Rightarrow> (RenderTargetBackgroundColor this4)\<lparr>A := 0\<rparr>
                                           | Transparent \<Rightarrow> RenderTargetBackgroundColor this4);
                                        WorldSetting = GetWorldSettings h W;
                                        RT = \<lparr>RenderTarget_Addr = NewObject_TextureRenderTarget2D h,
                                              RenderTarget_Outer = WorldSetting,
                                              ClearColor = ActualBackgroundColor,
                                              SizeX = X (CurrentWidgetDrawSize this4),
                                              SizeY = Y (CurrentWidgetDrawSize this4)\<rparr>;
                                        this5 = this4
                                          \<lparr>WidgetRenderTarget := Some RT,
                                           PostProcess_Calls := PostProcess_Calls this4 @
                                             [InitCustomFormat (RenderTarget_Addr RT)
                                                (X (CurrentWidgetDrawSize this4))
                                                (Y (CurrentWidgetDrawSize this4)),
                                              UpdateResourceImmediate (RenderTarget_Addr RT)]\<rparr>
                                    in (case PostProcessMaterialInstance this5 of
                                          Some MI \<Rightarrow>
                                            (if \<not> bRenderToTextureOnly this5 then
                                               this5\<lparr>PostProcessMaterialInstance :=
                                                 Some (MI\<lparr>TextureParameterValues :=
                                                   (TextureParameterValues MI)
                                                     (NAME_SlateUI \<mapsto>
                                                        map_option RenderTarget_Addr (WidgetRenderTarget this5))\<rparr>)\<rparr>
                                             else this5)
                                        | None \<Rightarrow> this5))))
                     else Some this1)
             | _ \<Rightarrow> Some this1)
      in map_option (\<lambda>t. (WidgetRenderer t \<noteq> None \<and> WidgetRenderTarget t \<noteq> None, t)) Created)"

definition PostProcess_Hide ::
  "Host \<Rightarrow> addr option \<Rightarrow> FVRFullScreenUserWidget_PostProcess \<Rightarrow> FVRFullScreenUserWidget_PostProcess" where
  "PostProcess_Hide h InWorld this =
     (let this1 = (if \<not> bRenderToTextureOnly this then ReleasePostProcessComponent this else this)
      in ReleaseRenderer h this1)"

text \<open>
  \<^verbatim>\<open>TickRenderer\<close>. \<open>None\<close> stands for the failure of \<^verbatim>\<open>check(World)\<close> and for
  the dereference of a null \<^verbatim>\<open>SlateWindow\<close>.
\<close>

definition TickRenderer ::
  "Host \<Rightarrow> addr option \<Rightarrow> real \<Rightarrow> FVRFullScreenUserWidget_PostProcess \<Rightarrow>
   FVRFullScreenUserWidget_PostProcess option" where
  "TickRenderer h InWorld DeltaSeconds this =
     (case InWorld of
        None \<Rightarrow> None
      | Some W \<Rightarrow>
          (case WidgetRenderTarget this of
             None \<Rightarrow> Some this
           | Some RT \<Rightarrow>
               (let DrawScale = 1;
                    NewCalculatedWidgetSize = CalculateWidgetDrawSize h W this;
                    Resized =
                      (if NewCalculatedWidgetSize \<noteq> CurrentWidgetDrawSize this then
                         (if IsTextureSizeValid h NewCalculatedWidgetSize then
                            (case SlateWindow this of
                               None \<Rightarrow> None
                             | Some Win \<Rightarrow>
                                 Some (this
                                   \<lparr>CurrentWidgetDrawSize := NewCalculatedWidgetSize,
                                    WidgetRenderTarget :=
                                      Some (RT\<lparr>SizeX := X NewCalculatedWidgetSize,
                                               SizeY := Y NewCalculatedWidgetSize\<rparr>),
                                    PostProcess_Calls := PostProcess_Calls this @
                                      [InitCustomFormat (RenderTarget_Addr RT)
                                         (X NewCalculatedWidgetSize) (Y NewCalculatedWidgetSize),
                                       UpdateResourceImmediate (RenderTarget_Addr RT)],
                                    SlateWindow := Some (Win\<lparr>WindowSize := NewCalculatedWidgetSize\<rparr>),
                                    CustomHitTestPath :=
                                      map_option (SetWidgetDrawSize NewCalculatedWidgetSize)
                                        (CustomHitTestPath this)\<rparr>))
                          else Some (PostProcess_Hide h (Some W) this))
                       else Some this)
                in case Resized of
                     None \<Rightarrow> None
                   | Some this1 \<Rightarrow>
                       (case WidgetRenderer this1 of
                          None \<Rightarrow> Some this1
                        | Some Rd \<Rightarrow>
                            (case SlateWindow this1 of
                               None \<Rightarrow> None
                             | Some Win \<Rightarrow>
                                 Some (this1\<lparr>PostProcess_Calls := PostProcess_Calls this1 @
                                   [DrawWindow (map_option RenderTarget_Addr (WidgetRenderTarget this1))
                                      (Window_Addr Win) DrawScale
                                      (CurrentWidgetDrawSize this1) DeltaSeconds]\<rparr>))))))"

definition PostProcess_Display ::
  "Host \<Rightarrow> addr option \<Rightarrow> addr option \<Rightarrow> bool \<Rightarrow> real \<Rightarrow> FVRFullScreenUserWidget_PostProcess \<Rightarrow>
   (bool \<times> FVRFullScreenUserWidget_PostProcess) option" where
  "PostProcess_Display h InWorld InWidget bInRenderToTextureOnly InDPIScale this =
     (let this1 = this\<lparr>bRenderToTextureOnly := bInRenderToTextureOnly\<rparr>
      in case CreateRenderer h InWorld InWidget InDPIScale this1 of
           None \<Rightarrow> None
         | Some (bOk, this2) \<Rightarrow>
             (if \<not> bRenderToTextureOnly this2 then
                (let (bCreated, this3) = CreatePostProcessComponent h InWorld this2
                 in Some (bOk \<and> bCreated, this3))
              else Some (bOk, this2)))"

definition PostProcess_Tick ::
  "Host \<Rightarrow> addr option \<Rightarrow> real \<Rightarrow> FVRFullScreenUserWidget_PostProcess \<Rightarrow>
   FVRFullScreenUserWidget_PostProcess option" where
  "PostProcess_Tick h InWorld DeltaSeconds this = TickRenderer h InWorld DeltaSeconds this"

definition FVRFullScreenUserWidget_PostProcess_ctor ::
  "bool \<Rightarrow> FVRFullScreenUserWidget_PostProcess" where
  "FVRFullScreenUserWidget_PostProcess_ctor bUninitialized =
     \<lparr>PostProcessMaterial = None,
      PostProcessTintColorAndOpacity = White,
      PostProcessOpacityFromTexture = 1,
      bWidgetDrawSize = False,
      WidgetDrawSize = \<lparr>X = 640, Y = 360\<rparr>,
      bWindowFocusable = True,
      WindowVisibility = SelfHitTestInvisible_Window,
      bReceiveHardwareInput = False,
      RenderTargetBackgroundColor = \<lparr>R = 0, G = 0, B = 0, A = 1\<rparr>,
      RenderTargetBlendMode = Masked,
      WidgetRenderTarget = None,
      PostProcessComponent = None,
      PostProcessMaterialInstance = None,
      WidgetRenderer = None,
      SlateWindow = None,
      ViewportWidget = None,
      CustomHitTestPath = None,
      CurrentWidgetDrawSize = ZeroValue,
      bRenderToTextureOnly = bUninitialized,
      PostProcess_TargetViewport = None,
      PostProcess_Calls = []\<rparr>"

subsection \<open>FVRFullScreenUserWidget_Viewport\<close>

definition FVRFullScreenUserWidget_Viewport_ctor :: FVRFullScreenUserWidget_Viewport where
  "FVRFullScreenUserWidget_Viewport_ctor =
     \<lparr>bAddedToGameViewport = False, FullScreenCanvasWidget = None,
      OverlayWidgetLevelViewport = None, Viewport_TargetViewport = None, Viewport_Calls = []\<rparr>"

text \<open>
  \<^verbatim>\<open>FVRFullScreenUserWidget_Viewport::Display\<close>. \<open>None\<close> stands for the failure of
  \<^verbatim>\<open>check(ActiveLevelViewport.IsValid())\<close>.
\<close>

definition Viewport_Display ::
  "Host \<Rightarrow> addr option \<Rightarrow> addr option \<Rightarrow> real \<Rightarrow> FVRFullScreenUserWidget_Viewport \<Rightarrow>
   (bool \<times> FVRFullScreenUserWidget_Viewport) option" where
  "Viewport_Display h InWorld InWidget InDPIScale this =
     (let FullScreenWidgetPinned = FullScreenCanvasWidget this
      in case (InWidget, InWorld) of
           (Some Wd, Some W) \<Rightarrow>
             (if FullScreenWidgetPinned \<noteq> None then Some (False, this)
              else
                (let ViewportClient =
                       (if WorldType h W = Game \<or> WorldType h W = PIE then GetGameViewport h W
                        else None);
                     ActiveLevelViewport =
                       (if WorldType h W = Game \<or> WorldType h W = PIE then None
                        else if WITH_EDITOR h \<and> IsModuleLoaded_LevelEditor h then
                          (if Viewport_TargetViewport this \<noteq> None then Viewport_TargetViewport this
                           else GetFirstActiveLevelViewport h)
                        else None);
                     bResult =
                       (if WorldType h W = Game \<or> WorldType h W = PIE then ViewportClient \<noteq> None
                        else if WITH_EDITOR h \<and> IsModuleLoaded_LevelEditor h
                        then ActiveLevelViewport \<noteq> None
                        else False)
                 in if bResult then
                      (let FullScreenCanvas =
                             \<lparr>Canvas_Addr = SNew_SConstraintCanvas h,
                              SlotContent = \<lparr>DPIScale = InDPIScale, ScalerContent = TakeWidget h Wd\<rparr>\<rparr>;
                           this1 = this\<lparr>FullScreenCanvasWidget := Some FullScreenCanvas\<rparr>
                       in case ViewportClient of
                            Some VC \<Rightarrow>
                              Some (bResult,
                                    this1\<lparr>Viewport_Calls := Viewport_Calls this1 @
                                      [AddViewportWidgetContent VC (Canvas_Addr FullScreenCanvas)]\<rparr>)
                          | None \<Rightarrow>
                              (if WITH_EDITOR h then
                                 (case ActiveLevelViewport of
                                    Some LV \<Rightarrow>
                                      Some (bResult,
                                            this1\<lparr>Viewport_Calls := Viewport_Calls this1 @
                                                     [AddOverlayWidget LV (Canvas_Addr FullScreenCanvas)],
                                                   OverlayWidgetLevelViewport := ActiveLevelViewport\<rparr>)
                                  | None \<Rightarrow> None)
                               else Some (bResult, this1)))
                    else Some (bResult, this)))
         | _ \<Rightarrow> Some (False, this))"

definition Viewport_Hide ::
  "Host \<Rightarrow> addr option \<Rightarrow> FVRFullScreenUserWidget_Viewport \<Rightarrow> FVRFullScreenUserWidget_Viewport" where
  "Viewport_Hide h InWorld this =
     (case FullScreenCanvasWidget this of
        Some FullScreenWidgetPinned \<Rightarrow>
          (let ViewportClient = (case InWorld of Some W \<Rightarrow> GetGameViewport h W | None \<Rightarrow> None);
               this1 =
                 (case ViewportClient of
                    Some VC \<Rightarrow>
                      this\<lparr>Viewport_Calls := Viewport_Calls this @
                        [RemoveViewportWidgetContent VC (Canvas_Addr FullScreenWidgetPinned)]\<rparr>
                  | None \<Rightarrow> this);
               this2 =
                 (if WITH_EDITOR h then
                    (case OverlayWidgetLevelViewport this1 of
                       Some LV \<Rightarrow>
                         this1\<lparr>Viewport_Calls := Viewport_Calls this1 @
                           [RemoveOverlayWidget LV (Canvas_Addr FullScreenWidgetPinned)]\<rparr>
                     | None \<Rightarrow> this1)\<lparr>OverlayWidgetLevelViewport := None\<rparr>
                  else this1)
           in this2\<lparr>FullScreenCanvasWidget := None\<rparr>)
      | None \<Rightarrow> this)"

definition Viewport_Tick ::
  "Host \<Rightarrow> addr option \<Rightarrow> real \<Rightarrow> FVRFullScreenUserWidget_Viewport \<Rightarrow> FVRFullScreenUserWidget_Viewport" where
  "Viewport_Tick h InWorld DeltaSeconds this = this"

subsection \<open>UVRFullScreenUserWidget\<close>

text \<open>
  The constructor. The header that declares the members is not among the sources: the
  values it gives to \<^verbatim>\<open>WidgetClass\<close>, the three display types and
  \<^verbatim>\<open>bRenderToTextureOnly\<close> are arguments, with the object's flags and the material the
  object finder returns.
\<close>

definition UVRFullScreenUserWidget_ctor ::
  "EObjectFlags set \<Rightarrow> addr option \<Rightarrow> EVRWidgetDisplayType \<Rightarrow> EVRWidgetDisplayType \<Rightarrow>
   EVRWidgetDisplayType \<Rightarrow> addr option \<Rightarrow> bool \<Rightarrow> UVRFullScreenUserWidget" where
  "UVRFullScreenUserWidget_ctor Flags Class InEditor InGame InPIE PostProcessMaterial_Finder bUninitialized =
     \<lparr>ObjectFlags = Flags,
      WidgetClass = Class,
      EditorDisplayType = InEditor,
      GameDisplayType = InGame,
      PIEDisplayType = InPIE,
      ViewportDisplayType = FVRFullScreenUserWidget_Viewport_ctor,
      PostProcessDisplayType =
        (FVRFullScreenUserWidget_PostProcess_ctor bUninitialized)
          \<lparr>PostProcessMaterial := PostProcessMaterial_Finder\<rparr>,
      Widget = None,
      World = None,
      CurrentDisplayType = Inactive,
      bDisplayRequested = False,
      TargetViewport = None,
      Widget_Calls = []\<rparr>"

definition HasAnyFlags :: "EObjectFlags set \<Rightarrow> UVRFullScreenUserWidget \<Rightarrow> bool" where
  "HasAnyFlags FlagsToCheck this = (ObjectFlags this \<inter> FlagsToCheck \<noteq> {})"

definition GetDisplayType ::
  "Host \<Rightarrow> addr option \<Rightarrow> UVRFullScreenUserWidget \<Rightarrow> EVRWidgetDisplayType" where
  "GetDisplayType h InWorld this =
     (case InWorld of
        Some W \<Rightarrow>
          (if WorldType h W = Game then GameDisplayType this
           else if WITH_EDITOR h \<and> WorldType h W = PIE then PIEDisplayType this
           else if WITH_EDITOR h \<and> WorldType h W = Editor then EditorDisplayType this
           else Inactive)
      | None \<Rightarrow> Inactive)"

definition ShouldDisplay :: "Host \<Rightarrow> addr option \<Rightarrow> UVRFullScreenUserWidget \<Rightarrow> bool" where
  "ShouldDisplay h InWorld this =
     (if UE_SERVER h then False
      else if GUsingNullRHI h \<or> HasAnyFlags {RF_ArchetypeObject, RF_ClassDefaultObject} this
              \<or> IsRunningDedicatedServer h
      then False
      else GetDisplayType h InWorld this \<noteq> Inactive)"

definition IsDisplayed :: "UVRFullScreenUserWidget \<Rightarrow> bool" where
  "IsDisplayed this = (CurrentDisplayType this \<noteq> Inactive)"

definition FindSceneViewportSize :: "Host \<Rightarrow> UVRFullScreenUserWidget \<Rightarrow> FVector2D" where
  "FindSceneViewportSize h this =
     (let OutSize = Uninitialized_FVector2D h;
          CurrentWorld = World this;
          bGame = (case CurrentWorld of
                     Some W \<Rightarrow> WorldType h W = Game \<or> WorldType h W = PIE
                   | None \<Rightarrow> False)
      in if bGame then
           (case Option.bind CurrentWorld (GetGameViewport h) of
              Some ViewportClient \<Rightarrow> GetViewportSize h ViewportClient OutSize
            | None \<Rightarrow> OutSize)
         else if WITH_EDITOR h \<and> IsModuleLoaded_LevelEditor h then
           (let ActiveLevelViewport =
                  (if TargetViewport this \<noteq> None then TargetViewport this
                   else GetFirstActiveLevelViewport h)
            in case ActiveLevelViewport of
                 Some LevelViewport \<Rightarrow>
                   (case GetSharedActiveViewport h LevelViewport of
                      Some SharedActiveViewport \<Rightarrow>
                        \<lparr>VX = real_of_int (X (SceneViewport_GetSize h SharedActiveViewport)),
                         VY = real_of_int (Y (SceneViewport_GetSize h SharedActiveViewport))\<rparr>
                    | None \<Rightarrow> OutSize)
               | None \<Rightarrow> OutSize)
         else OutSize)"

definition GetViewportDPIScale :: "Host \<Rightarrow> UVRFullScreenUserWidget \<Rightarrow> real" where
  "GetViewportDPIScale h this =
     (let UIScale = 1;
          PlatformScale = GetDPIScaleFactorAtPoint h;
          CurrentWorld = World this;
          bGame = (case CurrentWorld of
                     Some W \<Rightarrow> WorldType h W = Game \<or> WorldType h W = PIE
                   | None \<Rightarrow> False)
      in if CurrentDisplayType this = Viewport \<and> bGame then PlatformScale
         else
           (let ViewportSize = IntPoint h (FindSceneViewportSize h this)
            in if GetDefault_UserInterfaceSettings h then GetDPIScaleBasedOnSize h ViewportSize
               else UIScale))"

text \<open>
  \<^verbatim>\<open>InitWidget\<close>. \<open>None\<close> stands for the failure of \<^verbatim>\<open>check(World.Get())\<close> and for
  the dereference of a null result of \<^verbatim>\<open>CreateWidget\<close>.
\<close>

definition InitWidget :: "Host \<Rightarrow> UVRFullScreenUserWidget \<Rightarrow> UVRFullScreenUserWidget option" where
  "InitWidget h this =
     (if SlateApplication_IsInitialized h then
        (if WidgetClass this \<noteq> None \<and> Widget this = None then
           (case World this of
              None \<Rightarrow> None
            | Some W \<Rightarrow>
                (case CreateWidget h of
                   None \<Rightarrow> None
                 | Some Wd \<Rightarrow>
                     Some (this\<lparr>Widget := Some Wd,
                                Widget_Calls := Widget_Calls this @ [SetFlags Wd RF_Transient]\<rparr>)))
         else Some this)
      else Some this)"

definition ReleaseWidget :: "UVRFullScreenUserWidget \<Rightarrow> UVRFullScreenUserWidget" where
  "ReleaseWidget this = this\<lparr>Widget := None\<rparr>"

text \<open>
  \<^verbatim>\<open>UVRFullScreenUserWidget::Display\<close>. \<open>None\<close> where an assertion of a callee
  fails, otherwise the returned \<^verbatim>\<open>bool\<close> and the object as the call leaves it.
\<close>

definition Display ::
  "Host \<Rightarrow> addr option \<Rightarrow> UVRFullScreenUserWidget \<Rightarrow> (bool \<times> UVRFullScreenUserWidget) option" where
  "Display h InWorld this =
     (let this1 = this\<lparr>bDisplayRequested := True, World := InWorld\<rparr>
      in if InWorld \<noteq> None \<and> WidgetClass this1 \<noteq> None \<and> ShouldDisplay h InWorld this1
            \<and> CurrentDisplayType this1 = Inactive
         then
           (let this2 = this1\<lparr>CurrentDisplayType := GetDisplayType h InWorld this1\<rparr>
            in case InitWidget h this2 of
                 None \<Rightarrow> None
               | Some this3 \<Rightarrow>
                   (let DPIScale = GetViewportDPIScale h this3;
                        Added =
                          (if CurrentDisplayType this3 = Viewport then
                             (case Viewport_Display h InWorld (Widget this3) DPIScale
                                     (ViewportDisplayType this3) of
                                None \<Rightarrow> None
                              | Some (b, VP) \<Rightarrow> Some (b, this3\<lparr>ViewportDisplayType := VP\<rparr>))
                           else if CurrentDisplayType this3 = PostProcess then
                             (case PostProcess_Display h InWorld (Widget this3) False DPIScale
                                     (PostProcessDisplayType this3) of
                                None \<Rightarrow> None
                              | Some (b, PP) \<Rightarrow> Some (b, this3\<lparr>PostProcessDisplayType := PP\<rparr>))
                           else Some (False, this3))
                    in case Added of
                         None \<Rightarrow> None
                       | Some (bWasAdded, this4) \<Rightarrow>
                           Some (bWasAdded,
                                 if bWasAdded
                                 then this4\<lparr>Widget_Calls :=
                                        Widget_Calls this4 @ [LevelRemovedFromWorld_AddUObject]\<rparr>
                                 else this4)))
         else Some (False, this1))"

definition Hide :: "Host \<Rightarrow> UVRFullScreenUserWidget \<Rightarrow> UVRFullScreenUserWidget" where
  "Hide h this =
     (let this1 = this\<lparr>bDisplayRequested := False\<rparr>;
          this2 =
            (if CurrentDisplayType this1 \<noteq> Inactive then
               (let this3 = ReleaseWidget this1;
                    this4 = this3\<lparr>Widget_Calls :=
                              Widget_Calls this3 @ [LevelRemovedFromWorld_RemoveAll]\<rparr>;
                    this5 =
                      (if CurrentDisplayType this4 = Viewport then
                         this4\<lparr>ViewportDisplayType :=
                           Viewport_Hide h (World this4) (ViewportDisplayType this4)\<rparr>
                       else if CurrentDisplayType this4 = PostProcess then
                         this4\<lparr>PostProcessDisplayType :=
                           PostProcess_Hide h (World this4) (PostProcessDisplayType this4)\<rparr>
                       else this4)
                in this5\<lparr>CurrentDisplayType := Inactive\<rparr>)
             else this1)
      in this2\<lparr>World := None\<rparr>)"

definition BeginDestroy :: "Host \<Rightarrow> UVRFullScreenUserWidget \<Rightarrow> UVRFullScreenUserWidget" where
  "BeginDestroy h this = Hide h this"

definition Tick :: "Host \<Rightarrow> real \<Rightarrow> UVRFullScreenUserWidget \<Rightarrow> UVRFullScreenUserWidget option" where
  "Tick h DeltaSeconds this =
     (if CurrentDisplayType this \<noteq> Inactive then
        (case World this of
           None \<Rightarrow> Some (Hide h this)
         | Some CurrentWorld \<Rightarrow>
             (if CurrentDisplayType this = Viewport then
                Some (this\<lparr>ViewportDisplayType :=
                  Viewport_Tick h (Some CurrentWorld) DeltaSeconds (ViewportDisplayType this)\<rparr>)
              else if CurrentDisplayType this = PostProcess then
                (case PostProcess_Tick h (Some CurrentWorld) DeltaSeconds (PostProcessDisplayType this) of
                   None \<Rightarrow> None
                 | Some PP \<Rightarrow> Some (this\<lparr>PostProcessDisplayType := PP\<rparr>))
              else Some this))
      else Some this)"

definition SetDisplayTypes ::
  "EVRWidgetDisplayType \<Rightarrow> EVRWidgetDisplayType \<Rightarrow> EVRWidgetDisplayType \<Rightarrow>
   UVRFullScreenUserWidget \<Rightarrow> UVRFullScreenUserWidget" where
  "SetDisplayTypes InEditorDisplayType InGameDisplayType InPIEDisplayType this =
     this\<lparr>EditorDisplayType := InEditorDisplayType,
          GameDisplayType := InGameDisplayType,
          PIEDisplayType := InPIEDisplayType\<rparr>"

definition OnLevelRemovedFromWorld ::
  "Host \<Rightarrow> addr option \<Rightarrow> addr option \<Rightarrow> UVRFullScreenUserWidget \<Rightarrow> UVRFullScreenUserWidget" where
  "OnLevelRemovedFromWorld h InLevel InWorld this =
     (if InLevel = None \<and> InWorld \<noteq> None \<and> InWorld = World this then Hide h this else this)"

definition SetAllTargetViewports ::
  "addr option \<Rightarrow> UVRFullScreenUserWidget \<Rightarrow> UVRFullScreenUserWidget" where
  "SetAllTargetViewports InTargetViewport this =
     this\<lparr>TargetViewport := InTargetViewport,
          ViewportDisplayType :=
            (ViewportDisplayType this)\<lparr>Viewport_TargetViewport := InTargetViewport\<rparr>,
          PostProcessDisplayType :=
            (PostProcessDisplayType this)\<lparr>PostProcess_TargetViewport := InTargetViewport\<rparr>\<rparr>"

definition ResetAllTargetViewports :: "UVRFullScreenUserWidget \<Rightarrow> UVRFullScreenUserWidget" where
  "ResetAllTargetViewports this =
     this\<lparr>TargetViewport := None,
          ViewportDisplayType := (ViewportDisplayType this)\<lparr>Viewport_TargetViewport := None\<rparr>,
          PostProcessDisplayType :=
            (PostProcessDisplayType this)\<lparr>PostProcess_TargetViewport := None\<rparr>\<rparr>"

text \<open>
  \<^verbatim>\<open>PostEditChangeProperty\<close>, for the editor build. \<open>MemberProperty\<close> is the name of the
  changed member property (\<open>None\<close> for a null \<^verbatim>\<open>MemberProperty\<close>), \<open>bInteractive\<close>
  tells whether the change type is \<^verbatim>\<open>EPropertyChangeType::Interactive\<close>.
\<close>

definition RedisplayProperties :: "FName list" where
  "RedisplayProperties =
     [''WidgetClass'', ''EditorDisplayType'', ''PostProcessMaterial'', ''WidgetDrawSize'',
      ''bWindowFocusable'', ''WindowVisibility'', ''bReceiveHardwareInput'',
      ''RenderTargetBackgroundColor'', ''RenderTargetBlendMode'',
      ''PostProcessTintColorAndOpacity'', ''PostProcessOpacityFromTexture'']"

definition PostEditChangeProperty ::
  "Host \<Rightarrow> FName option \<Rightarrow> bool \<Rightarrow> UVRFullScreenUserWidget \<Rightarrow> UVRFullScreenUserWidget option" where
  "PostEditChangeProperty h MemberProperty bInteractive this =
     (case MemberProperty of
        Some PropertyName \<Rightarrow>
          (if \<not> bInteractive \<and> PropertyName \<in> set RedisplayProperties then
             (let bWasRequestedDisplay = bDisplayRequested this;
                  CurrentWorld = World this;
                  this1 = Hide h this
              in if bWasRequestedDisplay \<and> CurrentWorld \<noteq> None
                 then map_option snd (Display h CurrentWorld this1)
                 else Some this1)
           else Some this)
      | None \<Rightarrow> Some this)"

section \<open>Runs of the component\<close>

text \<open>
  Between two calls the host and the user act on the object without going through its
  functions: an object behind a weak pointer is destroyed, so that the pointer reads as
  null from then on; the engine calls the hit tester it was given, which moves
  \<^verbatim>\<open>LastLocalHitLocation\<close>; the user edits the properties. \<open>EnvironmentStep s s'\<close>
  holds when \<open>s'\<close> differs from \<open>s\<close> in such ways only: the members that only the
  component's own code writes are the same.
\<close>

definition Expired :: "'a option \<Rightarrow> 'a option \<Rightarrow> bool" where
  "Expired p p' = (p' = p \<or> p' = None)"

definition Viewport_EnvironmentStep ::
  "FVRFullScreenUserWidget_Viewport \<Rightarrow> FVRFullScreenUserWidget_Viewport \<Rightarrow> bool" where
  "Viewport_EnvironmentStep s s' =
     (bAddedToGameViewport s' = bAddedToGameViewport s
      \<and> Viewport_Calls s' = Viewport_Calls s
      \<and> Expired (FullScreenCanvasWidget s) (FullScreenCanvasWidget s')
      \<and> Expired (OverlayWidgetLevelViewport s) (OverlayWidgetLevelViewport s')
      \<and> Expired (Viewport_TargetViewport s) (Viewport_TargetViewport s'))"

definition HitTester_EnvironmentStep ::
  "FVRWidgetPostProcessHitTester option \<Rightarrow> FVRWidgetPostProcessHitTester option \<Rightarrow> bool" where
  "HitTester_EnvironmentStep p p' =
     (case (p, p') of
        (None, None) \<Rightarrow> True
      | (Some t, Some t') \<Rightarrow>
          HitTester_Addr t' = HitTester_Addr t
          \<and> HitTester_WidgetDrawSize t' = HitTester_WidgetDrawSize t
          \<and> Expired (HitTester_World t) (HitTester_World t')
          \<and> Expired (HitTester_SlateWindow t) (HitTester_SlateWindow t')
      | _ \<Rightarrow> False)"

definition PostProcess_EnvironmentStep ::
  "FVRFullScreenUserWidget_PostProcess \<Rightarrow> FVRFullScreenUserWidget_PostProcess \<Rightarrow> bool" where
  "PostProcess_EnvironmentStep s s' =
     (WidgetRenderTarget s' = WidgetRenderTarget s
      \<and> PostProcessComponent s' = PostProcessComponent s
      \<and> PostProcessMaterialInstance s' = PostProcessMaterialInstance s
      \<and> WidgetRenderer s' = WidgetRenderer s
      \<and> SlateWindow s' = SlateWindow s
      \<and> CurrentWidgetDrawSize s' = CurrentWidgetDrawSize s
      \<and> bRenderToTextureOnly s' = bRenderToTextureOnly s
      \<and> PostProcess_Calls s' = PostProcess_Calls s
      \<and> Expired (ViewportWidget s) (ViewportWidget s')
      \<and> Expired (PostProcess_TargetViewport s) (PostProcess_TargetViewport s')
      \<and> HitTester_EnvironmentStep (CustomHitTestPath s) (CustomHitTestPath s'))"

definition EnvironmentStep :: "UVRFullScreenUserWidget \<Rightarrow> UVRFullScreenUserWidget \<Rightarrow> bool" where
  "EnvironmentStep s s' =
     (ObjectFlags s' = ObjectFlags s
      \<and> Widget s' = Widget s
      \<and> CurrentDisplayType s' = CurrentDisplayType s
      \<and> bDisplayRequested s' = bDisplayRequested s
      \<and> Widget_Calls s' = Widget_Calls s
      \<and> Expired (World s) (World s')
      \<and> Expired (TargetViewport s) (TargetViewport s')
      \<and> Viewport_EnvironmentStep (ViewportDisplayType s) (ViewportDisplayType s')
      \<and> PostProcess_EnvironmentStep (PostProcessDisplayType s) (PostProcessDisplayType s'))"

text \<open>
  The states an object goes through: built by the constructor, then any sequence of
  calls of its functions that return, and of steps of the environment, under any hosts.
\<close>

inductive reachable :: "UVRFullScreenUserWidget \<Rightarrow> bool" where
  reachable_ctor:
    "reachable (UVRFullScreenUserWidget_ctor Flags Class InEditor InGame InPIE Material bUninitialized)"
| reachable_Display:
    "reachable s \<Longrightarrow> Display h InWorld s = Some (bWasAdded, s') \<Longrightarrow> reachable s'"
| reachable_Hide:
    "reachable s \<Longrightarrow> reachable (Hide h s)"
| reachable_Tick:
    "reachable s \<Longrightarrow> Tick h DeltaSeconds s = Some s' \<Longrightarrow> reachable s'"
| reachable_SetDisplayTypes:
    "reachable s \<Longrightarrow> reachable (SetDisplayTypes InEditor InGame InPIE s)"
| reachable_OnLevelRemovedFromWorld:
    "reachable s \<Longrightarrow> reachable (OnLevelRemovedFromWorld h InLevel InWorld s)"
| reachable_BeginDestroy:
    "reachable s \<Longrightarrow> reachable (BeginDestroy h s)"
| reachable_SetAllTargetViewports:
    "reachable s \<Longrightarrow> reachable (SetAllTargetViewports InTargetViewport s)"
| reachable_ResetAllTargetViewports:
    "reachable s \<Longrightarrow> reachable (ResetAllTargetViewports s)"
| reachable_PostEditChangeProperty:
    "reachable s \<Longrightarrow> PostEditChangeProperty h MemberProperty bInteractive s = Some s' \<Longrightarrow> reachable s'"
| reachable_EnvironmentStep:
    "reachable s \<Longrightarrow> EnvironmentStep s s' \<Longrightarrow> reachable s'"

text \<open>The calls a function issued: what it appended to the list of calls.\<close>

definition NewCalls :: "HostCall list \<Rightarrow> HostCall list \<Rightarrow> HostCall list" where
  "NewCalls before after = drop (length before) after"

text \<open>
  What the calls of the viewport path have left in the viewports: the canvases added to
  a game viewport or overlaid on a level viewport and not removed from it since, oldest
  first, each as the call that placed it. A viewport keeps a shared reference to a canvas
  it was given, so a canvas stays in it until it is removed; what the engine removes on
  its own is not recorded here.
\<close>

fun OverlayStep :: "HostCall list \<Rightarrow> HostCall \<Rightarrow> HostCall list" where
  "OverlayStep shown (AddViewportWidgetContent VC c) = shown @ [AddViewportWidgetContent VC c]"
| "OverlayStep shown (RemoveViewportWidgetContent VC c) =
     removeAll (AddViewportWidgetContent VC c) shown"
| "OverlayStep shown (AddOverlayWidget LV c) = shown @ [AddOverlayWidget LV c]"
| "OverlayStep shown (RemoveOverlayWidget LV c) = removeAll (AddOverlayWidget LV c) shown"
| "OverlayStep shown _ = shown"



definition ViewportHolds :: "FVRFullScreenUserWidget_Viewport \<Rightarrow> bool" where
  "ViewportHolds s = (FullScreenCanvasWidget s \<noteq> None)"

definition PostProcessPresented :: "FVRFullScreenUserWidget_PostProcess \<Rightarrow> bool" where
  "PostProcessPresented s =
     (WidgetRenderer s \<noteq> None \<or> WidgetRenderTarget s \<noteq> None \<or> SlateWindow s \<noteq> None
      \<or> CustomHitTestPath s \<noteq> None
      \<or> PostProcessComponent s \<noteq> None \<or> PostProcessMaterialInstance s \<noteq> None)"

section \<open>Auxiliary definitions\<close>

text \<open>The sizes of the \<^verbatim>\<open>InitCustomFormat\<close> calls of a list of calls, in order.\<close>

fun InitSizes :: "HostCall list \<Rightarrow> FIntPoint list" where
  "InitSizes [] = []"
| "InitSizes (InitCustomFormat a x y # cs) = \<lparr>X = x, Y = y\<rparr> # InitSizes cs"
| "InitSizes (c # cs) = InitSizes cs"

text \<open>
  The three blocks of \<^verbatim>\<open>CreateRenderer\<close> that follow the size test: the renderer and
  the window, the parent of the window, the render target. \<open>CreateRenderer_unfold\<close>
  shows that \<open>CreateRenderer\<close> is their composition.
\<close>

definition CreateRenderer_Window ::
  "Host \<Rightarrow> addr \<Rightarrow> real \<Rightarrow> FIntPoint \<Rightarrow> FVRFullScreenUserWidget_PostProcess \<Rightarrow>
   FVRFullScreenUserWidget_PostProcess" where
  "CreateRenderer_Window h Wd InDPIScale CalculatedWidgetSize this1 =
     this1
      \<lparr>CurrentWidgetDrawSize := CalculatedWidgetSize,
       WidgetRenderer :=
         Some \<lparr>Renderer_Addr = new_FWidgetRenderer h,
               bUseGammaCorrection = True,
               bPrepassNeeded = True\<rparr>,
       SlateWindow :=
         Some \<lparr>Window_Addr = SNew_SVirtualWindow h,
               WindowSize = CalculatedWidgetSize,
               bIsFocusable = bWindowFocusable this1,
               Visibility = ConvertWindowVisibilityToVisibility (WindowVisibility this1),
               WindowContent = \<lparr>DPIScale = InDPIScale, ScalerContent = TakeWidget h Wd\<rparr>,
               ParentWidget = None\<rparr>\<rparr>"

definition CreateRenderer_Parent ::
  "Host \<Rightarrow> addr \<Rightarrow> addr \<Rightarrow> FVRFullScreenUserWidget_PostProcess \<Rightarrow>
   FVRFullScreenUserWidget_PostProcess option" where
  "CreateRenderer_Parent h W Wd this3 =
     (case (if \<not> IsDesignTime h Wd \<and> IsGameWorld h W then
              (case GetGameInstance h W of
                 Some GameInstance \<Rightarrow> GetGameViewportClient h GameInstance
               | None \<Rightarrow> None)
            else None) of
        Some GVC \<Rightarrow>
          (case SlateWindow this3 of
             Some Win \<Rightarrow>
               Some (this3\<lparr>SlateWindow :=
                 Some (Win\<lparr>ParentWidget := GetGameViewportWidget h GVC\<rparr>)\<rparr>)
           | None \<Rightarrow> None)
      | None \<Rightarrow> Some this3)"

definition CreateRenderer_Target ::
  "Host \<Rightarrow> addr \<Rightarrow> FVRFullScreenUserWidget_PostProcess \<Rightarrow> FVRFullScreenUserWidget_PostProcess" where
  "CreateRenderer_Target h W this4 =
     (let ActualBackgroundColor =
            (case RenderTargetBlendMode this4 of
               Opaque \<Rightarrow> (RenderTargetBackgroundColor this4)\<lparr>A := 1\<rparr>
             | Masked \<Rightarrow> (RenderTargetBackgroundColor this4)\<lparr>A := 0\<rparr>
             | Transparent \<Rightarrow> RenderTargetBackgroundColor this4);
          WorldSetting = GetWorldSettings h W;
          RT = \<lparr>RenderTarget_Addr = NewObject_TextureRenderTarget2D h,
                RenderTarget_Outer = WorldSetting,
                ClearColor = ActualBackgroundColor,
                SizeX = X (CurrentWidgetDrawSize this4),
                SizeY = Y (CurrentWidgetDrawSize this4)\<rparr>;
          this5 = this4
            \<lparr>WidgetRenderTarget := Some RT,
             PostProcess_Calls := PostProcess_Calls this4 @
               [InitCustomFormat (RenderTarget_Addr RT)
                  (X (CurrentWidgetDrawSize this4))
                  (Y (CurrentWidgetDrawSize this4)),
                UpdateResourceImmediate (RenderTarget_Addr RT)]\<rparr>
      in (case PostProcessMaterialInstance this5 of
            Some MI \<Rightarrow>
              (if \<not> bRenderToTextureOnly this5 then
                 this5\<lparr>PostProcessMaterialInstance :=
                   Some (MI\<lparr>TextureParameterValues :=
                     (TextureParameterValues MI)
                       (NAME_SlateUI \<mapsto>
                          map_option RenderTarget_Addr (WidgetRenderTarget this5))\<rparr>)\<rparr>
               else this5)
          | None \<Rightarrow> this5))"

text \<open>The \<^verbatim>\<open>DrawWindow\<close> calls of a list of calls, in order.\<close>

fun DrawCalls :: "HostCall list \<Rightarrow> HostCall list" where
  "DrawCalls [] = []"
| "DrawCalls (DrawWindow rt w scale sz dt # cs) = DrawWindow rt w scale sz dt # DrawCalls cs"
| "DrawCalls (c # cs) = DrawCalls cs"

section \<open>Example inputs\<close>

text \<open>
  A host of an editor build with a Game world 5 (with a game viewport of size 1280x720),
  a PIE world 6 without a game viewport and an Editor world 7, and an object set to
  display through the post-process material in Game and Editor worlds.
\<close>

definition ExampleHost :: Host where
  "ExampleHost =
     \<lparr>WITH_EDITOR = True, UE_SERVER = False, GUsingNullRHI = False,
      IsRunningDedicatedServer = False, SlateApplication_IsInitialized = True,
      GetMax2DTextureDimension = 16384, IsModuleLoaded_LevelEditor = True,
      GetFirstActiveLevelViewport = Some 20, GEngine_GetGameViewportWidget = Some 30,
      WorldType = (\<lambda>W. if W = 5 then Game else if W = 6 then PIE else Editor),
      GetGameViewport = (\<lambda>W. if W = 5 then Some 10 else None),
      GetViewportSize = (\<lambda>C V. \<lparr>VX = 1280, VY = 720\<rparr>),
      FMath_RoundToInt = (\<lambda>F. \<lfloor>F + 1 / 2\<rfloor>),
      IsGameWorld = (\<lambda>W. W = 5 \<or> W = 6),
      GetGameInstance = (\<lambda>W. if W = 5 then Some 11 else None),
      GetGameViewportClient = (\<lambda>G. Some 10),
      GetGameViewportWidget = (\<lambda>C. Some 30),
      GetWorldSettings = (\<lambda>W. W + 100),
      GetSharedActiveViewport = (\<lambda>L. Some 21),
      SceneViewport_GetSize = (\<lambda>V. \<lparr>X = 800, Y = 600\<rparr>),
      LevelViewport_GetViewportWidget = (\<lambda>L. Some 31),
      GetCustomHitTestPath = (\<lambda>V. None),
      IsDesignTime = (\<lambda>Wd. False),
      TakeWidget = (\<lambda>Wd. Wd + 1000),
      NewObject_TextureRenderTarget2D = 40,
      NewObject_PostProcessComponent = 41,
      MaterialInstanceDynamic_Create = 42,
      new_FWidgetRenderer = 43,
      SNew_SVirtualWindow = 44,
      SNew_SConstraintCanvas = 45,
      MakeShared_HitTester = 46,
      CreateWidget = Some 47,
      GetDPIScaleFactorAtPoint = 1,
      GetDefault_UserInterfaceSettings = True,
      GetDPIScaleBasedOnSize = (\<lambda>S. 1),
      Uninitialized_FVector2D = \<lparr>VX = 0, VY = 0\<rparr>\<rparr>"

definition ExampleWidget :: UVRFullScreenUserWidget where
  "ExampleWidget =
     UVRFullScreenUserWidget_ctor {} (Some 3) PostProcess PostProcess Viewport (Some 4) False"

definition ExamplePostProcess :: FVRFullScreenUserWidget_PostProcess where
  "ExamplePostProcess = PostProcessDisplayType ExampleWidget"

definition DisplayedPostProcess :: FVRFullScreenUserWidget_PostProcess where
  "DisplayedPostProcess =
     ExamplePostProcess
      \<lparr>WidgetRenderTarget :=
         Some \<lparr>RenderTarget_Addr = 40, RenderTarget_Outer = 105,
               ClearColor = \<lparr>R = 0, G = 0, B = 0, A = 0\<rparr>, SizeX = 1280, SizeY = 720\<rparr>,
       PostProcessComponent :=
         Some \<lparr>Component_Addr = 41, Component_Outer = 105, bEnabled = True, bUnbound = True,
               WeightedBlendables = [\<lparr>Weight = 1, Object = Some 42\<rparr>]\<rparr>,
       PostProcessMaterialInstance :=
         Some \<lparr>MaterialInstance_Addr = 42, Parent = 4, MaterialInstance_Outer = 5,
               TextureParameterValues = [NAME_SlateUI \<mapsto> Some 40],
               VectorParameterValues = [NAME_TintColorAndOpacity \<mapsto> White],
               ScalarParameterValues = [NAME_OpacityFromTexture \<mapsto> 1]\<rparr>,
       WidgetRenderer := Some \<lparr>Renderer_Addr = 43, bUseGammaCorrection = True, bPrepassNeeded = True\<rparr>,
       SlateWindow :=
         Some \<lparr>Window_Addr = 44, WindowSize = \<lparr>X = 1280, Y = 720\<rparr>, bIsFocusable = True,
               Visibility = SelfHitTestInvisible,
               WindowContent = \<lparr>DPIScale = 1, ScalerContent = 1047\<rparr>,
               ParentWidget = Some 30\<rparr>,
       CurrentWidgetDrawSize := \<lparr>X = 1280, Y = 720\<rparr>,
       PostProcess_Calls :=
         [RegisterVirtualWindow 44, InitCustomFormat 40 1280 720,
          UpdateResourceImmediate 40, RegisterComponent 41]\<rparr>"

text \<open>The cascade of claim C1, in the words of the claim.\<close>

definition CalculateWidgetDrawSize_claimed ::
  "Host \<Rightarrow> addr \<Rightarrow> FVRFullScreenUserWidget_PostProcess \<Rightarrow> FIntPoint" where
  "CalculateWidgetDrawSize_claimed h W this =
     (if bWidgetDrawSize this then WidgetDrawSize this
      else if (WorldType h W = Game \<or> WorldType h W = PIE) \<and> GetGameViewport h W \<noteq> None then
        (let OutSize = GetViewportSize h (the (GetGameViewport h W)) \<lparr>VX = 16, VY = 16\<rparr>
         in if VX OutSize < SMALL_NUMBER then \<lparr>X = 16, Y = 16\<rparr> else IntPoint h OutSize)
      else if WITH_EDITOR h \<and> IsModuleLoaded_LevelEditor h
              \<and> (if PostProcess_TargetViewport this \<noteq> None then PostProcess_TargetViewport this
                  else GetFirstActiveLevelViewport h) \<noteq> None
      then
        (case GetSharedActiveViewport h
                (the (if PostProcess_TargetViewport this \<noteq> None then PostProcess_TargetViewport this
                      else GetFirstActiveLevelViewport h)) of
           Some SharedActiveViewport \<Rightarrow> SceneViewport_GetSize h SharedActiveViewport
         | None \<Rightarrow> \<lparr>X = 0, Y = 0\<rparr>)
      else \<lparr>X = 0, Y = 0\<rparr>)"

definition ActiveLevelViewport_of ::
  "Host \<Rightarrow> FVRFullScreenUserWidget_PostProcess \<Rightarrow> addr option" where
  "ActiveLevelViewport_of h this =
     (if PostProcess_TargetViewport this \<noteq> None then PostProcess_TargetViewport this
      else GetFirstActiveLevelViewport h)"

definition ExampleHitTester :: FVRWidgetPostProcessHitTester where
  "ExampleHitTester = FVRWidgetPostProcessHitTester_ctor 46 (Some 5) (Some 44)"

definition ExampleGeometry :: "FVector2D \<Rightarrow> FVector2D" where
  "ExampleGeometry v = \<lparr>VX = VX v - 100, VY = VY v - 50\<rparr>"

definition ExampleGrid :: "FVector2D \<Rightarrow> real \<Rightarrow> bool \<Rightarrow> FWidgetAndPointer list" where
  "ExampleGrid v r b =
     (if 0 \<le> VX v \<and> 0 \<le> VY v
      then [\<lparr>ArrangedWidget = 44, PointerPosition = None\<rparr>,
            \<lparr>ArrangedWidget = 1047, PointerPosition = None\<rparr>]
      else [])"

definition ResizedHost :: Host where
  "ResizedHost = ExampleHost\<lparr>GetViewportSize := \<lambda>C V. \<lparr>VX = 1920, VY = 1080\<rparr>\<rparr>"

definition NoViewportHost :: Host where
  "NoViewportHost = ExampleHost\<lparr>GetGameViewport := \<lambda>W. None\<rparr>"

definition ExampleRenderTarget :: UTextureRenderTarget2D where
  "ExampleRenderTarget =
     \<lparr>RenderTarget_Addr = 40, RenderTarget_Outer = 105,
      ClearColor = \<lparr>R = 0, G = 0, B = 0, A = 0\<rparr>, SizeX = 1280, SizeY = 720\<rparr>"

definition ExampleWindow :: SVirtualWindow where
  "ExampleWindow =
     \<lparr>Window_Addr = 44, WindowSize = \<lparr>X = 1280, Y = 720\<rparr>, bIsFocusable = True,
      Visibility = SelfHitTestInvisible,
      WindowContent = \<lparr>DPIScale = 1, ScalerContent = 1047\<rparr>,
      ParentWidget = Some 30\<rparr>"

definition ExampleRenderer :: FWidgetRenderer where
  "ExampleRenderer = \<lparr>Renderer_Addr = 43, bUseGammaCorrection = True, bPrepassNeeded = True\<rparr>"

text \<open>
  What every reachable state satisfies: a render target or a renderer only with a
  virtual window; a path holds a presentation only when \<open>CurrentDisplayType\<close> records
  it; a created widget only while displayed.
\<close>

definition RendererConsistent :: "FVRFullScreenUserWidget_PostProcess \<Rightarrow> bool" where
  "RendererConsistent s =
     ((WidgetRenderTarget s \<noteq> None \<longrightarrow> SlateWindow s \<noteq> None)
      \<and> (WidgetRenderer s \<noteq> None \<longrightarrow> SlateWindow s \<noteq> None))"

definition Invariant :: "UVRFullScreenUserWidget \<Rightarrow> bool" where
  "Invariant s =
     ((CurrentDisplayType s \<noteq> Viewport \<longrightarrow> \<not> ViewportHolds (ViewportDisplayType s))
      \<and> (CurrentDisplayType s \<noteq> PostProcess \<longrightarrow> \<not> PostProcessPresented (PostProcessDisplayType s))
      \<and> (CurrentDisplayType s = PostProcess \<longrightarrow> \<not> bRenderToTextureOnly (PostProcessDisplayType s))
      \<and> (Widget s \<noteq> None \<longrightarrow> CurrentDisplayType s \<noteq> Inactive)
      \<and> RendererConsistent (PostProcessDisplayType s))"

text \<open>The test of \<^verbatim>\<open>Display\<close>, and the two updates around the call of a path.\<close>

definition DisplayGuard :: "Host \<Rightarrow> addr option \<Rightarrow> UVRFullScreenUserWidget \<Rightarrow> bool" where
  "DisplayGuard h InWorld s =
     (InWorld \<noteq> None \<and> WidgetClass s \<noteq> None \<and> ShouldDisplay h InWorld s
      \<and> CurrentDisplayType s = Inactive)"

definition DisplayRequested :: "Host \<Rightarrow> addr option \<Rightarrow> UVRFullScreenUserWidget \<Rightarrow> UVRFullScreenUserWidget" where
  "DisplayRequested h InWorld s =
     s\<lparr>bDisplayRequested := True, World := InWorld,
       CurrentDisplayType := GetDisplayType h InWorld s\<rparr>"

definition Registered :: "bool \<Rightarrow> UVRFullScreenUserWidget \<Rightarrow> UVRFullScreenUserWidget" where
  "Registered bWasAdded s =
     (if bWasAdded then s\<lparr>Widget_Calls := Widget_Calls s @ [LevelRemovedFromWorld_AddUObject]\<rparr>
      else s)"

definition DisplayedWidget :: UVRFullScreenUserWidget where
  "DisplayedWidget =
     ExampleWidget
      \<lparr>PostProcessDisplayType := DisplayedPostProcess,
       Widget := Some 47, World := Some 5,
       CurrentDisplayType := PostProcess, bDisplayRequested := True,
       Widget_Calls := [SetFlags 47 RF_Transient, LevelRemovedFromWorld_AddUObject]\<rparr>"

definition WorldDestroyedWidget :: UVRFullScreenUserWidget where
  "WorldDestroyedWidget = DisplayedWidget\<lparr>World := None\<rparr>"






section \<open>Lemmas\<close>

lemma InitSizes_append: "InitSizes (xs @ ys) = InitSizes xs @ InitSizes ys"
  by (induction xs rule: InitSizes.induct) simp_all

lemma NewCalls_append: "NewCalls xs (xs @ ys) = ys"
  by (simp add: NewCalls_def)

lemma IsTextureSizeValid_iff:
  "IsTextureSizeValid h Size \<longleftrightarrow>
     0 < X Size \<and> 0 < Y Size \<and> X Size \<le> GetMax2DTextureDimension h \<and> Y Size \<le> GetMax2DTextureDimension h"
  by (simp add: IsTextureSizeValid_def Let_def)

lemma ReleasePostProcessComponent_Calls:
  "\<exists>cs. PostProcess_Calls (ReleasePostProcessComponent s) = PostProcess_Calls s @ cs \<and> InitSizes cs = []"
  by (simp add: ReleasePostProcessComponent_def Let_def split: option.splits)

lemma UnRegisterHitTesterWithViewport_Calls:
  "\<exists>cs. PostProcess_Calls (UnRegisterHitTesterWithViewport h s) = PostProcess_Calls s @ cs \<and> InitSizes cs = []"
  by (simp add: UnRegisterHitTesterWithViewport_def Let_def split: option.splits)

lemma ReleaseRenderer_Calls:
  "\<exists>cs. PostProcess_Calls (ReleaseRenderer h s) = PostProcess_Calls s @ cs \<and> InitSizes cs = []"
proof -
  obtain t where t: "t = (case WidgetRenderer s of
               Some Rd \<Rightarrow> s\<lparr>PostProcess_Calls :=
                               PostProcess_Calls s @ [BeginCleanup (Renderer_Addr Rd)],
                             WidgetRenderer := None\<rparr>
             | None \<Rightarrow> s)" by simp
  then obtain c1 where c1: "PostProcess_Calls t = PostProcess_Calls s @ c1" "InitSizes c1 = []"
    by (cases "WidgetRenderer s") auto
  obtain c2 where c2: "PostProcess_Calls (UnRegisterHitTesterWithViewport h t) = PostProcess_Calls t @ c2" "InitSizes c2 = []"
    using UnRegisterHitTesterWithViewport_Calls by blast
  have "PostProcess_Calls (ReleaseRenderer h s) = PostProcess_Calls (UnRegisterHitTesterWithViewport h t)"
    by (simp add: ReleaseRenderer_def Let_def t)
  with c1 c2 show ?thesis by (simp add: InitSizes_append)
qed

lemma ReleaseRenderer_fields [simp]:
  "WidgetRenderer (ReleaseRenderer h s) = None"
  "WidgetRenderTarget (ReleaseRenderer h s) = None"
  "SlateWindow (ReleaseRenderer h s) = None"
  "CustomHitTestPath (ReleaseRenderer h s) = None"
  "ViewportWidget (ReleaseRenderer h s) = None"
  "CurrentWidgetDrawSize (ReleaseRenderer h s) = ZeroValue"
  "PostProcessComponent (ReleaseRenderer h s) = PostProcessComponent s"
  "PostProcessMaterialInstance (ReleaseRenderer h s) = PostProcessMaterialInstance s"
  "bRenderToTextureOnly (ReleaseRenderer h s) = bRenderToTextureOnly s"
  "PostProcess_TargetViewport (ReleaseRenderer h s) = PostProcess_TargetViewport s"
  "bWidgetDrawSize (ReleaseRenderer h s) = bWidgetDrawSize s"
  "WidgetDrawSize (ReleaseRenderer h s) = WidgetDrawSize s"
  "PostProcessMaterial (ReleaseRenderer h s) = PostProcessMaterial s"
  by (simp_all add: ReleaseRenderer_def UnRegisterHitTesterWithViewport_def Let_def split: option.splits)

lemma RegisterHitTesterWithViewport_Calls:
  "RegisterHitTesterWithViewport h W s = Some s' \<Longrightarrow>
   \<exists>cs. PostProcess_Calls s' = PostProcess_Calls s @ cs \<and> InitSizes cs = []"
  by (auto simp add: RegisterHitTesterWithViewport_def Let_def split: option.splits if_splits)

lemma RegisterHitTesterWithViewport_fields:
  "RegisterHitTesterWithViewport h W s = Some s' \<Longrightarrow>
     SlateWindow s' = SlateWindow s \<and> WidgetRenderer s' = WidgetRenderer s
   \<and> WidgetRenderTarget s' = WidgetRenderTarget s \<and> CurrentWidgetDrawSize s' = CurrentWidgetDrawSize s
   \<and> PostProcessComponent s' = PostProcessComponent s
   \<and> PostProcessMaterialInstance s' = PostProcessMaterialInstance s
   \<and> bRenderToTextureOnly s' = bRenderToTextureOnly s"
  by (auto simp add: RegisterHitTesterWithViewport_def Let_def split: option.splits if_splits)

lemma CalculateWidgetDrawSize_cong:
  "bWidgetDrawSize s' = bWidgetDrawSize s \<Longrightarrow> WidgetDrawSize s' = WidgetDrawSize s \<Longrightarrow>
   PostProcess_TargetViewport s' = PostProcess_TargetViewport s \<Longrightarrow>
   CalculateWidgetDrawSize h W s' = CalculateWidgetDrawSize h W s"
  by (simp add: CalculateWidgetDrawSize_def)

lemma CreateRenderer_unfold:
  "CreateRenderer h InWorld InWidget InDPIScale this =
     (let this1 = ReleaseRenderer h this;
          Created =
            (case (InWorld, InWidget) of
               (Some W, Some Wd) \<Rightarrow>
                 (if IsTextureSizeValid h (CalculateWidgetDrawSize h W this1) then
                    (case RegisterHitTesterWithViewport h W
                            (CreateRenderer_Window h Wd InDPIScale (CalculateWidgetDrawSize h W this1) this1) of
                       None \<Rightarrow> None
                     | Some this3 \<Rightarrow>
                         (case CreateRenderer_Parent h W Wd this3 of
                            None \<Rightarrow> None
                          | Some this4 \<Rightarrow> Some (CreateRenderer_Target h W this4)))
                  else Some this1)
             | _ \<Rightarrow> Some this1)
      in map_option (\<lambda>t. (WidgetRenderer t \<noteq> None \<and> WidgetRenderTarget t \<noteq> None, t)) Created)"
  unfolding CreateRenderer_def CreateRenderer_Window_def CreateRenderer_Parent_def
    CreateRenderer_Target_def Let_def
  by (rule refl)

lemma CreateRenderer_Window_fields [simp]:
  "CurrentWidgetDrawSize (CreateRenderer_Window h Wd dpi Size s) = Size"
  "WidgetRenderer (CreateRenderer_Window h Wd dpi Size s) \<noteq> None"
  "map_option WindowSize (SlateWindow (CreateRenderer_Window h Wd dpi Size s)) = Some Size"
  "WidgetRenderTarget (CreateRenderer_Window h Wd dpi Size s) = WidgetRenderTarget s"
  "PostProcessComponent (CreateRenderer_Window h Wd dpi Size s) = PostProcessComponent s"
  "PostProcessMaterialInstance (CreateRenderer_Window h Wd dpi Size s) = PostProcessMaterialInstance s"
  "bRenderToTextureOnly (CreateRenderer_Window h Wd dpi Size s) = bRenderToTextureOnly s"
  "PostProcess_Calls (CreateRenderer_Window h Wd dpi Size s) = PostProcess_Calls s"
  by (simp_all add: CreateRenderer_Window_def)

lemma CreateRenderer_Parent_fields:
  "CreateRenderer_Parent h W Wd s = Some s' \<Longrightarrow>
     CurrentWidgetDrawSize s' = CurrentWidgetDrawSize s
   \<and> WidgetRenderer s' = WidgetRenderer s
   \<and> WidgetRenderTarget s' = WidgetRenderTarget s
   \<and> PostProcessComponent s' = PostProcessComponent s
   \<and> PostProcessMaterialInstance s' = PostProcessMaterialInstance s
   \<and> bRenderToTextureOnly s' = bRenderToTextureOnly s
   \<and> PostProcess_Calls s' = PostProcess_Calls s
   \<and> map_option WindowSize (SlateWindow s') = map_option WindowSize (SlateWindow s)"
  by (auto simp add: CreateRenderer_Parent_def split: option.splits if_splits)

lemma CreateRenderer_Target_fields [simp]:
  "CurrentWidgetDrawSize (CreateRenderer_Target h W s) = CurrentWidgetDrawSize s"
  "WidgetRenderer (CreateRenderer_Target h W s) = WidgetRenderer s"
  "SlateWindow (CreateRenderer_Target h W s) = SlateWindow s"
  "PostProcessComponent (CreateRenderer_Target h W s) = PostProcessComponent s"
  "bRenderToTextureOnly (CreateRenderer_Target h W s) = bRenderToTextureOnly s"
  "(PostProcessMaterialInstance (CreateRenderer_Target h W s) = None) = (PostProcessMaterialInstance s = None)"
  by (simp_all add: CreateRenderer_Target_def Let_def split: option.splits)

lemma CreateRenderer_Target_target:
  "\<exists>RT. WidgetRenderTarget (CreateRenderer_Target h W s) = Some RT
        \<and> SizeX RT = X (CurrentWidgetDrawSize s) \<and> SizeY RT = Y (CurrentWidgetDrawSize s)"
  by (simp add: CreateRenderer_Target_def Let_def split: option.splits)

lemma CreateRenderer_Target_Calls:
  "\<exists>a. PostProcess_Calls (CreateRenderer_Target h W s) =
     PostProcess_Calls s @ [InitCustomFormat a (X (CurrentWidgetDrawSize s)) (Y (CurrentWidgetDrawSize s)),
                            UpdateResourceImmediate a]"
  by (simp add: CreateRenderer_Target_def Let_def split: option.splits)

lemma CreateRenderer_Target_not_None [simp]:
  "WidgetRenderTarget (CreateRenderer_Target h W s) \<noteq> None"
  using CreateRenderer_Target_target [of h W s] by auto

lemma CreateRenderer_Renderer_not_None:
  assumes "RegisterHitTesterWithViewport h W (CreateRenderer_Window h Wd dpi Size s) = Some s3"
    and "CreateRenderer_Parent h W Wd s3 = Some s4"
  shows "WidgetRenderer s4 \<noteq> None"
  using RegisterHitTesterWithViewport_fields [OF assms(1)] CreateRenderer_Parent_fields [OF assms(2)]
  by simp

lemma CreateRenderer_fails:
  "CreateRenderer h InWorld InWidget dpi s = Some (False, s') \<Longrightarrow> s' = ReleaseRenderer h s"
  by (auto simp add: CreateRenderer_unfold Let_def split: option.splits if_splits
           dest: CreateRenderer_Renderer_not_None)

lemma CreateRenderer_succeeds:
  assumes "CreateRenderer h InWorld InWidget dpi s = Some (True, s')"
  shows "\<exists>W Wd RT Win Rd cs.
           InWorld = Some W \<and> InWidget = Some Wd
         \<and> IsTextureSizeValid h (CalculateWidgetDrawSize h W s)
         \<and> CurrentWidgetDrawSize s' = CalculateWidgetDrawSize h W s
         \<and> WidgetRenderTarget s' = Some RT
         \<and> SizeX RT = X (CurrentWidgetDrawSize s') \<and> SizeY RT = Y (CurrentWidgetDrawSize s')
         \<and> SlateWindow s' = Some Win \<and> WindowSize Win = CurrentWidgetDrawSize s'
         \<and> WidgetRenderer s' = Some Rd
         \<and> PostProcessComponent s' = PostProcessComponent s
         \<and> (PostProcessMaterialInstance s' = None) = (PostProcessMaterialInstance s = None)
         \<and> bRenderToTextureOnly s' = bRenderToTextureOnly s
         \<and> PostProcess_Calls s' = PostProcess_Calls s @ cs
         \<and> InitSizes cs = [CurrentWidgetDrawSize s']"
proof -
  obtain c0 where c0: "PostProcess_Calls (ReleaseRenderer h s) = PostProcess_Calls s @ c0" "InitSizes c0 = []"
    using ReleaseRenderer_Calls by blast
  have calc: "\<And>W. CalculateWidgetDrawSize h W (ReleaseRenderer h s) = CalculateWidgetDrawSize h W s"
    by (rule CalculateWidgetDrawSize_cong) simp_all
  from assms obtain W Wd s3 s4 where
    in1: "InWorld = Some W" "InWidget = Some Wd"
    and valid: "IsTextureSizeValid h (CalculateWidgetDrawSize h W s)"
    and r: "RegisterHitTesterWithViewport h W
              (CreateRenderer_Window h Wd dpi (CalculateWidgetDrawSize h W s) (ReleaseRenderer h s)) = Some s3"
    and p: "CreateRenderer_Parent h W Wd s3 = Some s4"
    and s': "s' = CreateRenderer_Target h W s4"
    by (auto simp add: CreateRenderer_unfold Let_def calc split: option.splits if_splits)
  let ?w = "CreateRenderer_Window h Wd dpi (CalculateWidgetDrawSize h W s) (ReleaseRenderer h s)"
  note f3 = RegisterHitTesterWithViewport_fields [OF r]
  note f4 = CreateRenderer_Parent_fields [OF p]
  obtain c1 where c1: "PostProcess_Calls s3 = PostProcess_Calls ?w @ c1" "InitSizes c1 = []"
    using RegisterHitTesterWithViewport_Calls [OF r] by blast
  obtain a where c2: "PostProcess_Calls s' = PostProcess_Calls s4 @
      [InitCustomFormat a (X (CurrentWidgetDrawSize s4)) (Y (CurrentWidgetDrawSize s4)), UpdateResourceImmediate a]"
    using CreateRenderer_Target_Calls [of h W s4] s' by blast
  have size: "CurrentWidgetDrawSize s' = CalculateWidgetDrawSize h W s"
    using s' f3 f4 by simp
  obtain RT where rt: "WidgetRenderTarget s' = Some RT" "SizeX RT = X (CurrentWidgetDrawSize s')"
      "SizeY RT = Y (CurrentWidgetDrawSize s')"
    using CreateRenderer_Target_target [of h W s4] s' by auto
  have "map_option WindowSize (SlateWindow s') = Some (CalculateWidgetDrawSize h W s)"
    using s' f3 f4 by simp
  then obtain Win where win: "SlateWindow s' = Some Win" "WindowSize Win = CurrentWidgetDrawSize s'"
    using size by auto
  have "WidgetRenderer s' \<noteq> None" using s' f3 f4 by simp
  then obtain Rd where rd: "WidgetRenderer s' = Some Rd" by auto
  have comp: "PostProcessComponent s' = PostProcessComponent s"
    "(PostProcessMaterialInstance s' = None) = (PostProcessMaterialInstance s = None)"
    "bRenderToTextureOnly s' = bRenderToTextureOnly s"
    using s' f3 f4 by simp_all
  have calls: "PostProcess_Calls s' = PostProcess_Calls s @ (c0 @ c1 @
      [InitCustomFormat a (X (CurrentWidgetDrawSize s4)) (Y (CurrentWidgetDrawSize s4)), UpdateResourceImmediate a])"
    using c2 f4 c1 c0 by simp
  have "CurrentWidgetDrawSize s4 = CurrentWidgetDrawSize s'" using s' by simp
  then have "InitSizes (c0 @ c1 @
      [InitCustomFormat a (X (CurrentWidgetDrawSize s4)) (Y (CurrentWidgetDrawSize s4)), UpdateResourceImmediate a])
      = [CurrentWidgetDrawSize s']"
    using c0 c1 by (simp add: InitSizes_append)
  then have "\<exists>cs. PostProcess_Calls s' = PostProcess_Calls s @ cs \<and> InitSizes cs = [CurrentWidgetDrawSize s']"
    using calls by blast
  with in1 valid size rt win rd comp show ?thesis by simp
qed

lemma RoundToInt_of_int: "\<bar>a\<bar> < 4194304 \<Longrightarrow> RoundToInt h (of_int a) = a"
proof -
  assume "\<bar>a\<bar> < 4194304"
  then have "\<bar>real_of_int a\<bar> < 4194304" by linarith
  then show ?thesis by (simp add: RoundToInt_def)
qed

lemma IntPoint_sixteen: "IntPoint h \<lparr>VX = 16, VY = 16\<rparr> = \<lparr>X = 16, Y = 16\<rparr>"
  by (simp add: IntPoint_def RoundToInt_def)

lemma FIntPoint_eta [simp]: "\<lparr>X = X p, Y = Y p\<rparr> = (p :: FIntPoint)"
  by (cases p) simp


lemma DrawCalls_append: "DrawCalls (xs @ ys) = DrawCalls xs @ DrawCalls ys"
  by (induction xs rule: DrawCalls.induct) simp_all

lemma ReleasePostProcessComponent_fields [simp]:
  "PostProcessComponent (ReleasePostProcessComponent s) = None"
  "PostProcessMaterialInstance (ReleasePostProcessComponent s) = None"
  "WidgetRenderer (ReleasePostProcessComponent s) = WidgetRenderer s"
  "WidgetRenderTarget (ReleasePostProcessComponent s) = WidgetRenderTarget s"
  "SlateWindow (ReleasePostProcessComponent s) = SlateWindow s"
  "CustomHitTestPath (ReleasePostProcessComponent s) = CustomHitTestPath s"
  "ViewportWidget (ReleasePostProcessComponent s) = ViewportWidget s"
  "CurrentWidgetDrawSize (ReleasePostProcessComponent s) = CurrentWidgetDrawSize s"
  "bRenderToTextureOnly (ReleasePostProcessComponent s) = bRenderToTextureOnly s"
  "PostProcess_TargetViewport (ReleasePostProcessComponent s) = PostProcess_TargetViewport s"
  "bWidgetDrawSize (ReleasePostProcessComponent s) = bWidgetDrawSize s"
  "WidgetDrawSize (ReleasePostProcessComponent s) = WidgetDrawSize s"
  "PostProcessMaterial (ReleasePostProcessComponent s) = PostProcessMaterial s"
  "PostProcessTintColorAndOpacity (ReleasePostProcessComponent s) = PostProcessTintColorAndOpacity s"
  "PostProcessOpacityFromTexture (ReleasePostProcessComponent s) = PostProcessOpacityFromTexture s"
  by (simp_all add: ReleasePostProcessComponent_def Let_def split: option.splits)

lemma ReleasePostProcessComponent_DrawCalls:
  "\<exists>cs. PostProcess_Calls (ReleasePostProcessComponent s) = PostProcess_Calls s @ cs
        \<and> InitSizes cs = [] \<and> DrawCalls cs = []"
  by (simp add: ReleasePostProcessComponent_def Let_def split: option.splits)

lemma UnRegisterHitTesterWithViewport_DrawCalls:
  "\<exists>cs. PostProcess_Calls (UnRegisterHitTesterWithViewport h s) = PostProcess_Calls s @ cs
        \<and> InitSizes cs = [] \<and> DrawCalls cs = []"
  by (simp add: UnRegisterHitTesterWithViewport_def Let_def split: option.splits)

lemma ReleaseRenderer_DrawCalls:
  "\<exists>cs. PostProcess_Calls (ReleaseRenderer h s) = PostProcess_Calls s @ cs
        \<and> InitSizes cs = [] \<and> DrawCalls cs = []"
proof -
  define t where "t = (case WidgetRenderer s of
               Some Rd \<Rightarrow> s\<lparr>PostProcess_Calls :=
                               PostProcess_Calls s @ [BeginCleanup (Renderer_Addr Rd)],
                             WidgetRenderer := None\<rparr>
             | None \<Rightarrow> s)"
  obtain c1 where c1: "PostProcess_Calls t = PostProcess_Calls s @ c1" "InitSizes c1 = []" "DrawCalls c1 = []"
    unfolding t_def by (cases "WidgetRenderer s") auto
  obtain c2 where c2: "PostProcess_Calls (UnRegisterHitTesterWithViewport h t) = PostProcess_Calls t @ c2"
      "InitSizes c2 = []" "DrawCalls c2 = []"
    using UnRegisterHitTesterWithViewport_DrawCalls by blast
  have "PostProcess_Calls (ReleaseRenderer h s) = PostProcess_Calls (UnRegisterHitTesterWithViewport h t)"
    by (simp add: ReleaseRenderer_def Let_def t_def)
  with c1 c2 show ?thesis by (simp add: InitSizes_append DrawCalls_append)
qed

lemma PostProcess_Hide_DrawCalls:
  "\<exists>cs. PostProcess_Calls (PostProcess_Hide h W s) = PostProcess_Calls s @ cs
        \<and> InitSizes cs = [] \<and> DrawCalls cs = []"
proof -
  define t where "t = (if \<not> bRenderToTextureOnly s then ReleasePostProcessComponent s else s)"
  obtain c1 where c1: "PostProcess_Calls t = PostProcess_Calls s @ c1" "InitSizes c1 = []" "DrawCalls c1 = []"
    unfolding t_def using ReleasePostProcessComponent_DrawCalls [of s] by (cases "bRenderToTextureOnly s") auto
  obtain c2 where c2: "PostProcess_Calls (ReleaseRenderer h t) = PostProcess_Calls t @ c2"
      "InitSizes c2 = []" "DrawCalls c2 = []"
    using ReleaseRenderer_DrawCalls by blast
  have "PostProcess_Hide h W s = ReleaseRenderer h t"
    by (simp add: PostProcess_Hide_def Let_def t_def)
  with c1 c2 show ?thesis by (simp add: InitSizes_append DrawCalls_append)
qed

lemma PostProcess_Hide_fields [simp]:
  "WidgetRenderer (PostProcess_Hide h W s) = None"
  "WidgetRenderTarget (PostProcess_Hide h W s) = None"
  "SlateWindow (PostProcess_Hide h W s) = None"
  "CustomHitTestPath (PostProcess_Hide h W s) = None"
  "ViewportWidget (PostProcess_Hide h W s) = None"
  "CurrentWidgetDrawSize (PostProcess_Hide h W s) = ZeroValue"
  "bRenderToTextureOnly (PostProcess_Hide h W s) = bRenderToTextureOnly s"
  "\<not> bRenderToTextureOnly s \<Longrightarrow> PostProcessComponent (PostProcess_Hide h W s) = None"
  "\<not> bRenderToTextureOnly s \<Longrightarrow> PostProcessMaterialInstance (PostProcess_Hide h W s) = None"
  "bRenderToTextureOnly s \<Longrightarrow> PostProcessComponent (PostProcess_Hide h W s) = PostProcessComponent s"
  "bRenderToTextureOnly s \<Longrightarrow> PostProcessMaterialInstance (PostProcess_Hide h W s) = PostProcessMaterialInstance s"
  by (simp_all add: PostProcess_Hide_def Let_def)


lemma TickRenderer_hides:
  assumes "WidgetRenderTarget s = Some RT"
    and "CalculateWidgetDrawSize h W s \<noteq> CurrentWidgetDrawSize s"
    and "\<not> IsTextureSizeValid h (CalculateWidgetDrawSize h W s)"
  shows "TickRenderer h (Some W) dt s = Some (PostProcess_Hide h (Some W) s)"
  using assms by (simp add: TickRenderer_def Let_def)

lemma TickRenderer_resizes:
  assumes "WidgetRenderTarget s = Some RT" and "SlateWindow s = Some Win"
    and "CalculateWidgetDrawSize h W s \<noteq> CurrentWidgetDrawSize s"
    and "IsTextureSizeValid h (CalculateWidgetDrawSize h W s)"
  shows "TickRenderer h (Some W) dt s =
     Some (s\<lparr>CurrentWidgetDrawSize := CalculateWidgetDrawSize h W s,
             WidgetRenderTarget := Some (RT\<lparr>SizeX := X (CalculateWidgetDrawSize h W s),
                                            SizeY := Y (CalculateWidgetDrawSize h W s)\<rparr>),
             SlateWindow := Some (Win\<lparr>WindowSize := CalculateWidgetDrawSize h W s\<rparr>),
             CustomHitTestPath :=
               map_option (SetWidgetDrawSize (CalculateWidgetDrawSize h W s)) (CustomHitTestPath s),
             PostProcess_Calls := PostProcess_Calls s @
               [InitCustomFormat (RenderTarget_Addr RT)
                  (X (CalculateWidgetDrawSize h W s)) (Y (CalculateWidgetDrawSize h W s)),
                UpdateResourceImmediate (RenderTarget_Addr RT)] @
               (case WidgetRenderer s of
                  Some Rd \<Rightarrow> [DrawWindow (Some (RenderTarget_Addr RT)) (Window_Addr Win) 1
                                (CalculateWidgetDrawSize h W s) dt]
                | None \<Rightarrow> [])\<rparr>)"
  using assms by (simp add: TickRenderer_def Let_def split: option.splits)

lemma TickRenderer_same_size:
  assumes "WidgetRenderTarget s = Some RT"
    and "CalculateWidgetDrawSize h W s = CurrentWidgetDrawSize s"
    and "WidgetRenderer s \<noteq> None \<longrightarrow> SlateWindow s \<noteq> None"
  shows "TickRenderer h (Some W) dt s =
     Some (s\<lparr>PostProcess_Calls := PostProcess_Calls s @
               (case (WidgetRenderer s, SlateWindow s) of
                  (Some Rd, Some Win) \<Rightarrow>
                     [DrawWindow (Some (RenderTarget_Addr RT)) (Window_Addr Win) 1
                        (CurrentWidgetDrawSize s) dt]
                | _ \<Rightarrow> [])\<rparr>)"
  using assms by (auto simp add: TickRenderer_def Let_def split: option.splits)

lemmas Example_defs =
  ExampleHost_def ExampleWidget_def ExamplePostProcess_def DisplayedPostProcess_def
  UVRFullScreenUserWidget_ctor_def FVRFullScreenUserWidget_PostProcess_ctor_def
  FVRFullScreenUserWidget_Viewport_ctor_def IntPoint_def RoundToInt_def ZeroValue_def ZeroVector_def
  White_def SMALL_NUMBER_def

lemma CalculateWidgetDrawSize_Example:
  "CalculateWidgetDrawSize ExampleHost 5 ExamplePostProcess = \<lparr>X = 1280, Y = 720\<rparr>"
  by (simp add: CalculateWidgetDrawSize_def Example_defs)

lemma DisplayedPostProcess_is_displayed:
  "PostProcess_Display ExampleHost (Some 5) (Some 47) False 1 ExamplePostProcess
     = Some (True, DisplayedPostProcess)"
  by (simp add: PostProcess_Display_def CreateRenderer_def CreatePostProcessComponent_def
      ReleaseRenderer_def UnRegisterHitTesterWithViewport_def ReleasePostProcessComponent_def
      RegisterHitTesterWithViewport_def CalculateWidgetDrawSize_def IsTextureSizeValid_def
      ConvertWindowVisibilityToVisibility_def SetNumZeroed_def Let_def Example_defs)

lemma ReleaseRenderer_config [simp]:
  "PostProcessTintColorAndOpacity (ReleaseRenderer h s) = PostProcessTintColorAndOpacity s"
  "PostProcessOpacityFromTexture (ReleaseRenderer h s) = PostProcessOpacityFromTexture s"
  by (simp_all add: ReleaseRenderer_def UnRegisterHitTesterWithViewport_def Let_def split: option.splits)

lemma RegisterHitTesterWithViewport_config:
  "RegisterHitTesterWithViewport h W s = Some s' \<Longrightarrow>
     PostProcessMaterial s' = PostProcessMaterial s
   \<and> PostProcessTintColorAndOpacity s' = PostProcessTintColorAndOpacity s
   \<and> PostProcessOpacityFromTexture s' = PostProcessOpacityFromTexture s"
  by (auto simp add: RegisterHitTesterWithViewport_def Let_def split: option.splits if_splits)

lemma CreateRenderer_Window_config [simp]:
  "PostProcessMaterial (CreateRenderer_Window h Wd dpi Size s) = PostProcessMaterial s"
  "PostProcessTintColorAndOpacity (CreateRenderer_Window h Wd dpi Size s) = PostProcessTintColorAndOpacity s"
  "PostProcessOpacityFromTexture (CreateRenderer_Window h Wd dpi Size s) = PostProcessOpacityFromTexture s"
  by (simp_all add: CreateRenderer_Window_def)

lemma CreateRenderer_Parent_config:
  "CreateRenderer_Parent h W Wd s = Some s' \<Longrightarrow>
     PostProcessMaterial s' = PostProcessMaterial s
   \<and> PostProcessTintColorAndOpacity s' = PostProcessTintColorAndOpacity s
   \<and> PostProcessOpacityFromTexture s' = PostProcessOpacityFromTexture s"
  by (auto simp add: CreateRenderer_Parent_def split: option.splits if_splits)

lemma CreateRenderer_Target_config [simp]:
  "PostProcessMaterial (CreateRenderer_Target h W s) = PostProcessMaterial s"
  "PostProcessTintColorAndOpacity (CreateRenderer_Target h W s) = PostProcessTintColorAndOpacity s"
  "PostProcessOpacityFromTexture (CreateRenderer_Target h W s) = PostProcessOpacityFromTexture s"
  by (simp_all add: CreateRenderer_Target_def Let_def split: option.splits)

lemma CreateRenderer_config:
  assumes "CreateRenderer h InWorld InWidget dpi s = Some (bOk, s')"
  shows "PostProcessMaterial s' = PostProcessMaterial s
       \<and> PostProcessTintColorAndOpacity s' = PostProcessTintColorAndOpacity s
       \<and> PostProcessOpacityFromTexture s' = PostProcessOpacityFromTexture s"
  using assms
  by (auto simp add: CreateRenderer_unfold Let_def split: option.splits if_splits
           dest!: RegisterHitTesterWithViewport_config CreateRenderer_Parent_config)

lemma CreateRenderer_bRenderToTextureOnly:
  assumes "CreateRenderer h InWorld InWidget dpi s = Some (bOk, s')"
  shows "bRenderToTextureOnly s' = bRenderToTextureOnly s"
proof (cases bOk)
  case True
  with CreateRenderer_succeeds [of h InWorld InWidget dpi s s'] assms show ?thesis by auto
next
  case False
  with CreateRenderer_fails [of h InWorld InWidget dpi s s'] assms show ?thesis by auto
qed

lemma CreatePostProcessComponent_created:
  assumes "PostProcessMaterial s = Some M"
  shows "CreatePostProcessComponent h (Some W) s
           = (True, (ReleasePostProcessComponent s)
                \<lparr>PostProcessComponent :=
                   Some \<lparr>Component_Addr = NewObject_PostProcessComponent h,
                         Component_Outer = GetWorldSettings h W, bEnabled = True, bUnbound = True,
                         WeightedBlendables =
                           [\<lparr>Weight = 1, Object = Some (MaterialInstanceDynamic_Create h)\<rparr>]\<rparr>,
                 PostProcessMaterialInstance :=
                   Some \<lparr>MaterialInstance_Addr = MaterialInstanceDynamic_Create h,
                         Parent = M, MaterialInstance_Outer = W,
                         TextureParameterValues =
                           [NAME_SlateUI \<mapsto> map_option RenderTarget_Addr (WidgetRenderTarget s)],
                         VectorParameterValues =
                           [NAME_TintColorAndOpacity \<mapsto> PostProcessTintColorAndOpacity s],
                         ScalarParameterValues =
                           [NAME_OpacityFromTexture \<mapsto> PostProcessOpacityFromTexture s]\<rparr>,
                 PostProcess_Calls :=
                   PostProcess_Calls (ReleasePostProcessComponent s)
                     @ [RegisterComponent (NewObject_PostProcessComponent h)]\<rparr>)"
  using assms by (simp add: CreatePostProcessComponent_def Let_def SetNumZeroed_def)

lemma CreatePostProcessComponent_not_created:
  assumes "InWorld = None \<or> PostProcessMaterial s = None"
  shows "CreatePostProcessComponent h InWorld s = (False, ReleasePostProcessComponent s)"
  using assms by (auto simp add: CreatePostProcessComponent_def Let_def split: option.splits)

lemma TickRenderer_cases:
  assumes "TickRenderer h InWorld dt s = Some s'"
  obtains
    (no_target) W where "InWorld = Some W" "WidgetRenderTarget s = None" "s' = s"
  | (hides) W RT where "InWorld = Some W" "WidgetRenderTarget s = Some RT"
      "CalculateWidgetDrawSize h W s \<noteq> CurrentWidgetDrawSize s"
      "\<not> IsTextureSizeValid h (CalculateWidgetDrawSize h W s)"
      "s' = PostProcess_Hide h (Some W) s"
  | (resizes) W RT Win where "InWorld = Some W" "WidgetRenderTarget s = Some RT"
      "SlateWindow s = Some Win"
      "CalculateWidgetDrawSize h W s \<noteq> CurrentWidgetDrawSize s"
      "IsTextureSizeValid h (CalculateWidgetDrawSize h W s)"
  | (same_size) W RT where "InWorld = Some W" "WidgetRenderTarget s = Some RT"
      "CalculateWidgetDrawSize h W s = CurrentWidgetDrawSize s"
      "WidgetRenderer s \<noteq> None \<longrightarrow> SlateWindow s \<noteq> None"
proof -
  from assms obtain W where w: "InWorld = Some W"
    by (cases InWorld) (simp_all add: TickRenderer_def)
  show ?thesis
  proof (cases "WidgetRenderTarget s")
    case None
    with assms w show ?thesis by (intro no_target [of W]) (simp_all add: TickRenderer_def)
  next
    case (Some RT)
    show ?thesis
    proof (cases "CalculateWidgetDrawSize h W s = CurrentWidgetDrawSize s")
      case True
      have "WidgetRenderer s \<noteq> None \<longrightarrow> SlateWindow s \<noteq> None"
        using assms w Some True by (auto simp add: TickRenderer_def Let_def split: option.splits)
      with w Some True show ?thesis by (intro same_size [of W RT]) simp_all
    next
      case False
      show ?thesis
      proof (cases "IsTextureSizeValid h (CalculateWidgetDrawSize h W s)")
        case True
        have "SlateWindow s \<noteq> None"
          using assms w Some False True by (auto simp add: TickRenderer_def Let_def split: option.splits)
        then obtain Win where "SlateWindow s = Some Win" by auto
        with w Some False True show ?thesis by (intro resizes [of W RT Win]) simp_all
      next
        case invalid: False
        from TickRenderer_hides [OF Some False invalid, of dt] assms w
        have "s' = PostProcess_Hide h (Some W) s" by simp
        with w Some False invalid show ?thesis by (intro hides [of W RT]) simp_all
      qed
    qed
  qed
qed

lemma TickRenderer_InitSizes:
  assumes "TickRenderer h InWorld dt s = Some s'"
  shows "\<exists>cs. PostProcess_Calls s' = PostProcess_Calls s @ cs
            \<and> (\<forall>Sz \<in> set (InitSizes cs). IsTextureSizeValid h Sz)"
  using assms
proof (cases rule: TickRenderer_cases)
  case (no_target W)
  then show ?thesis by simp
next
  case (hides W RT)
  with PostProcess_Hide_DrawCalls [of h "Some W" s] show ?thesis by auto
next
  case (resizes W RT Win)
  let ?N = "CalculateWidgetDrawSize h W s"
  let ?cs = "[InitCustomFormat (RenderTarget_Addr RT) (X ?N) (Y ?N),
              UpdateResourceImmediate (RenderTarget_Addr RT)] @
             (case WidgetRenderer s of
                Some Rd \<Rightarrow> [DrawWindow (Some (RenderTarget_Addr RT)) (Window_Addr Win) 1 ?N dt]
              | None \<Rightarrow> [])"
  from TickRenderer_resizes [OF resizes(2-5), of dt] assms resizes(1)
  have "PostProcess_Calls s' = PostProcess_Calls s @ ?cs" by auto
  moreover have "InitSizes ?cs = [?N]"
    by (simp split: option.splits)
  ultimately show ?thesis using resizes(5) by auto
next
  case (same_size W RT)
  let ?cs = "(case (WidgetRenderer s, SlateWindow s) of
                  (Some Rd, Some Win) \<Rightarrow>
                     [DrawWindow (Some (RenderTarget_Addr RT)) (Window_Addr Win) 1
                        (CurrentWidgetDrawSize s) dt]
                | _ \<Rightarrow> [])"
  from TickRenderer_same_size [OF same_size(2-4), of dt] assms same_size(1)
  have "PostProcess_Calls s' = PostProcess_Calls s @ ?cs" by auto
  moreover have "InitSizes ?cs = []"
    by (simp split: option.splits)
  ultimately show ?thesis by auto
qed

lemma TickRenderer_target:
  assumes "TickRenderer h InWorld dt s = Some s'" and "WidgetRenderTarget s' = Some RT"
  shows "WidgetRenderTarget s = Some RT \<or> IsTextureSizeValid h \<lparr>X = SizeX RT, Y = SizeY RT\<rparr>"
  using assms(1)
proof (cases rule: TickRenderer_cases)
  case (no_target W)
  then show ?thesis using assms(2) by simp
next
  case (hides W RT)
  then show ?thesis using assms(2) by simp
next
  case (resizes W RT0 Win)
  from TickRenderer_resizes [OF resizes(2-5), of dt] assms resizes(1)
  have "RT = RT0\<lparr>SizeX := X (CalculateWidgetDrawSize h W s), SizeY := Y (CalculateWidgetDrawSize h W s)\<rparr>"
    by auto
  then have "\<lparr>X = SizeX RT, Y = SizeY RT\<rparr> = CalculateWidgetDrawSize h W s" by simp
  with resizes(5) show ?thesis by simp
next
  case (same_size W RT0)
  from TickRenderer_same_size [OF same_size(2-4), of dt] assms same_size(1)
  show ?thesis by auto
qed

lemma DisplayedPostProcess_fields:
  "WidgetRenderTarget DisplayedPostProcess = Some ExampleRenderTarget"
  "SlateWindow DisplayedPostProcess = Some ExampleWindow"
  "WidgetRenderer DisplayedPostProcess = Some ExampleRenderer"
  "CurrentWidgetDrawSize DisplayedPostProcess = \<lparr>X = 1280, Y = 720\<rparr>"
  "CustomHitTestPath DisplayedPostProcess = None"
  "\<not> bRenderToTextureOnly DisplayedPostProcess"
  "PostProcess_Calls DisplayedPostProcess =
     [RegisterVirtualWindow 44, InitCustomFormat 40 1280 720,
      UpdateResourceImmediate 40, RegisterComponent 41]"
  by (simp_all add: Example_defs ExampleRenderTarget_def ExampleWindow_def ExampleRenderer_def)

lemma CalculateWidgetDrawSize_Displayed:
  "CalculateWidgetDrawSize ExampleHost 5 DisplayedPostProcess = \<lparr>X = 1280, Y = 720\<rparr>"
  "CalculateWidgetDrawSize ResizedHost 5 DisplayedPostProcess = \<lparr>X = 1920, Y = 1080\<rparr>"
  "CalculateWidgetDrawSize NoViewportHost 5 DisplayedPostProcess = \<lparr>X = 0, Y = 0\<rparr>"
  by (simp_all add: CalculateWidgetDrawSize_def ResizedHost_def NoViewportHost_def Example_defs)

lemma CreateRenderer_Example:
  "CreateRenderer ExampleHost (Some 5) (Some 47) 1 ExamplePostProcess
     = Some (True, DisplayedPostProcess
               \<lparr>PostProcessComponent := None, PostProcessMaterialInstance := None,
                PostProcess_Calls := [RegisterVirtualWindow 44, InitCustomFormat 40 1280 720,
                                      UpdateResourceImmediate 40]\<rparr>)"
  by (simp add: CreateRenderer_def
      ReleaseRenderer_def UnRegisterHitTesterWithViewport_def
      RegisterHitTesterWithViewport_def CalculateWidgetDrawSize_def IsTextureSizeValid_def
      ConvertWindowVisibilityToVisibility_def Let_def Example_defs)

lemma TickRenderer_Resized:
  "TickRenderer ResizedHost (Some 5) (1 / 60) DisplayedPostProcess
     = Some (DisplayedPostProcess
              \<lparr>CurrentWidgetDrawSize := \<lparr>X = 1920, Y = 1080\<rparr>,
               WidgetRenderTarget := Some (ExampleRenderTarget\<lparr>SizeX := 1920, SizeY := 1080\<rparr>),
               SlateWindow := Some (ExampleWindow\<lparr>WindowSize := \<lparr>X = 1920, Y = 1080\<rparr>\<rparr>),
               PostProcess_Calls :=
                 [RegisterVirtualWindow 44, InitCustomFormat 40 1280 720,
                  UpdateResourceImmediate 40, RegisterComponent 41,
                  InitCustomFormat 40 1920 1080, UpdateResourceImmediate 40,
                  DrawWindow (Some 40) 44 1 \<lparr>X = 1920, Y = 1080\<rparr> (1 / 60)]\<rparr>)"
proof -
  have v: "IsTextureSizeValid ResizedHost (CalculateWidgetDrawSize ResizedHost 5 DisplayedPostProcess)"
    unfolding CalculateWidgetDrawSize_Displayed
    by (simp add: IsTextureSizeValid_def ResizedHost_def ExampleHost_def)
  have n: "CalculateWidgetDrawSize ResizedHost 5 DisplayedPostProcess
             \<noteq> CurrentWidgetDrawSize DisplayedPostProcess"
    by (simp add: CalculateWidgetDrawSize_Displayed DisplayedPostProcess_fields)
  from TickRenderer_resizes [OF DisplayedPostProcess_fields(1,2) n v, of "1 / 60"]
  show ?thesis
    by (simp add: CalculateWidgetDrawSize_Displayed DisplayedPostProcess_fields
        ExampleRenderTarget_def ExampleWindow_def)
qed


lemma CreatePostProcessComponent_fields:
  assumes "CreatePostProcessComponent h InWorld s = (b, s')"
  shows "WidgetRenderTarget s' = WidgetRenderTarget s \<and> WidgetRenderer s' = WidgetRenderer s
       \<and> SlateWindow s' = SlateWindow s \<and> CustomHitTestPath s' = CustomHitTestPath s
       \<and> bRenderToTextureOnly s' = bRenderToTextureOnly s
       \<and> CurrentWidgetDrawSize s' = CurrentWidgetDrawSize s"
proof (cases "InWorld = None \<or> PostProcessMaterial s = None")
  case True
  from CreatePostProcessComponent_not_created [OF True, of h] assms show ?thesis by auto
next
  case False
  then obtain W M where wm: "InWorld = Some W" "PostProcessMaterial s = Some M" by auto
  from CreatePostProcessComponent_created [OF wm(2), of h W] assms wm(1) show ?thesis by auto
qed

lemma CreateRenderer_RendererConsistent:
  assumes "CreateRenderer h InWorld InWidget dpi s = Some (bOk, s')"
  shows "RendererConsistent s'"
proof (cases bOk)
  case True
  with CreateRenderer_succeeds [of h InWorld InWidget dpi s s'] assms show ?thesis
    by (auto simp add: RendererConsistent_def)
next
  case False
  with CreateRenderer_fails [of h InWorld InWidget dpi s s'] assms show ?thesis
    by (auto simp add: RendererConsistent_def)
qed

lemma PostProcess_Display_result:
  assumes "PostProcess_Display h InWorld InWidget False dpi s = Some (bOk, s')"
  shows "\<not> bRenderToTextureOnly s' \<and> RendererConsistent s'"
proof -
  from assms obtain b1 s1 b2 where
    cr: "CreateRenderer h InWorld InWidget dpi (s\<lparr>bRenderToTextureOnly := False\<rparr>) = Some (b1, s1)"
    and cp: "CreatePostProcessComponent h InWorld s1 = (b2, s')"
    by (auto simp add: PostProcess_Display_def Let_def split: option.splits prod.splits if_splits
             dest: CreateRenderer_bRenderToTextureOnly)
  from CreateRenderer_bRenderToTextureOnly [OF cr] have "\<not> bRenderToTextureOnly s1" by simp
  moreover note CreateRenderer_RendererConsistent [OF cr] CreatePostProcessComponent_fields [OF cp]
  ultimately show ?thesis by (simp add: RendererConsistent_def)
qed

lemma TickRenderer_RendererConsistent:
  assumes "TickRenderer h InWorld dt s = Some s'" and "RendererConsistent s"
  shows "RendererConsistent s' \<and> bRenderToTextureOnly s' = bRenderToTextureOnly s"
  using assms(1)
proof (cases rule: TickRenderer_cases)
  case (no_target W)
  then show ?thesis using assms(2) by simp
next
  case (hides W RT)
  then show ?thesis by (simp add: RendererConsistent_def)
next
  case (resizes W RT Win)
  from TickRenderer_resizes [OF resizes(2-5), of dt] assms(1) resizes(1)
  show ?thesis by (auto simp add: RendererConsistent_def)
next
  case (same_size W RT)
  from TickRenderer_same_size [OF same_size(2-4), of dt] assms same_size(1)
  show ?thesis by (auto simp add: RendererConsistent_def)
qed


lemma Viewport_Hide_fields [simp]:
  "FullScreenCanvasWidget (Viewport_Hide h InWorld s) = None"
  by (simp add: Viewport_Hide_def Let_def split: option.splits)

lemma PostProcess_Hide_not_presented:
  "\<not> bRenderToTextureOnly s \<Longrightarrow> \<not> PostProcessPresented (PostProcess_Hide h InWorld s)"
  by (simp add: PostProcessPresented_def)

lemma InitWidget_fields:
  assumes "InitWidget h s = Some s'"
  shows "CurrentDisplayType s' = CurrentDisplayType s \<and> World s' = World s
       \<and> bDisplayRequested s' = bDisplayRequested s
       \<and> ViewportDisplayType s' = ViewportDisplayType s
       \<and> PostProcessDisplayType s' = PostProcessDisplayType s
       \<and> WidgetClass s' = WidgetClass s \<and> ObjectFlags s' = ObjectFlags s
       \<and> TargetViewport s' = TargetViewport s"
  using assms by (auto simp add: InitWidget_def split: if_splits option.splits)

lemma GetDisplayType_cong:
  "GameDisplayType s' = GameDisplayType s \<Longrightarrow> PIEDisplayType s' = PIEDisplayType s \<Longrightarrow>
   EditorDisplayType s' = EditorDisplayType s \<Longrightarrow>
   GetDisplayType h InWorld s' = GetDisplayType h InWorld s"
  by (simp add: GetDisplayType_def split: option.splits)

lemma ShouldDisplay_cong:
  "GameDisplayType s' = GameDisplayType s \<Longrightarrow> PIEDisplayType s' = PIEDisplayType s \<Longrightarrow>
   EditorDisplayType s' = EditorDisplayType s \<Longrightarrow> ObjectFlags s' = ObjectFlags s \<Longrightarrow>
   ShouldDisplay h InWorld s' = ShouldDisplay h InWorld s"
  by (simp add: ShouldDisplay_def HasAnyFlags_def GetDisplayType_cong [of s' s])

lemma ShouldDisplay_not_Inactive:
  "ShouldDisplay h InWorld s \<Longrightarrow> GetDisplayType h InWorld s \<noteq> Inactive"
  by (simp add: ShouldDisplay_def split: if_splits)

lemma Display_guard_fails:
  assumes "\<not> DisplayGuard h InWorld s"
  shows "Display h InWorld s = Some (False, s\<lparr>bDisplayRequested := True, World := InWorld\<rparr>)"
proof -
  have "ShouldDisplay h InWorld (s\<lparr>bDisplayRequested := True, World := InWorld\<rparr>)
          = ShouldDisplay h InWorld s"
    by (rule ShouldDisplay_cong) simp_all
  with assms show ?thesis
    by (auto simp add: Display_def DisplayGuard_def Let_def)
qed

lemma Display_guard_holds:
  assumes "DisplayGuard h InWorld s"
  shows "Display h InWorld s =
     (case InitWidget h (DisplayRequested h InWorld s) of
        None \<Rightarrow> None
      | Some s3 \<Rightarrow>
          (if GetDisplayType h InWorld s = Viewport then
             (case Viewport_Display h InWorld (Widget s3) (GetViewportDPIScale h s3)
                     (ViewportDisplayType s) of
                None \<Rightarrow> None
              | Some (b, VP) \<Rightarrow> Some (b, Registered b (s3\<lparr>ViewportDisplayType := VP\<rparr>)))
           else
             (case PostProcess_Display h InWorld (Widget s3) False (GetViewportDPIScale h s3)
                     (PostProcessDisplayType s) of
                None \<Rightarrow> None
              | Some (b, PP) \<Rightarrow> Some (b, Registered b (s3\<lparr>PostProcessDisplayType := PP\<rparr>)))))"
proof -
  have sd: "ShouldDisplay h InWorld (s\<lparr>bDisplayRequested := True, World := InWorld\<rparr>)
          = ShouldDisplay h InWorld s"
    by (rule ShouldDisplay_cong) simp_all
  have gd: "GetDisplayType h InWorld (s\<lparr>bDisplayRequested := True, World := InWorld\<rparr>)
          = GetDisplayType h InWorld s"
    by (rule GetDisplayType_cong) simp_all
  from assms have ni: "GetDisplayType h InWorld s \<noteq> Inactive"
    by (simp add: DisplayGuard_def ShouldDisplay_not_Inactive)
  have dr: "s\<lparr>bDisplayRequested := True, World := InWorld,
              CurrentDisplayType := GetDisplayType h InWorld s\<rparr> = DisplayRequested h InWorld s"
    by (simp add: DisplayRequested_def)
  have pp: "GetDisplayType h InWorld s \<noteq> Viewport \<Longrightarrow> GetDisplayType h InWorld s = PostProcess"
    using ni by (cases "GetDisplayType h InWorld s") simp_all
  show ?thesis
  proof (cases "InitWidget h (DisplayRequested h InWorld s)")
    case None
    with assms sd gd dr show ?thesis
      by (simp add: Display_def DisplayGuard_def Let_def)
  next
    case (Some s3)
    from InitWidget_fields [OF Some]
    have f: "CurrentDisplayType s3 = GetDisplayType h InWorld s"
      "ViewportDisplayType s3 = ViewportDisplayType s"
      "PostProcessDisplayType s3 = PostProcessDisplayType s"
      by (simp_all add: DisplayRequested_def)
    from assms sd gd dr Some f pp show ?thesis
      by (auto simp add: Display_def DisplayGuard_def Let_def Registered_def
               split: option.splits prod.splits)
  qed
qed

lemma Hide_fields:
  "CurrentDisplayType (Hide h s) = Inactive"
  "bDisplayRequested (Hide h s) = False"
  "World (Hide h s) = None"
  "Widget (Hide h s) = (if CurrentDisplayType s \<noteq> Inactive then None else Widget s)"
  "ViewportDisplayType (Hide h s) =
     (if CurrentDisplayType s = Viewport
      then Viewport_Hide h (World s) (ViewportDisplayType s) else ViewportDisplayType s)"
  "PostProcessDisplayType (Hide h s) =
     (if CurrentDisplayType s = PostProcess
      then PostProcess_Hide h (World s) (PostProcessDisplayType s) else PostProcessDisplayType s)"
  by (simp_all add: Hide_def Let_def ReleaseWidget_def)

lemma Registered_fields [simp]:
  "CurrentDisplayType (Registered b s) = CurrentDisplayType s"
  "Widget (Registered b s) = Widget s"
  "World (Registered b s) = World s"
  "bDisplayRequested (Registered b s) = bDisplayRequested s"
  "ViewportDisplayType (Registered b s) = ViewportDisplayType s"
  "PostProcessDisplayType (Registered b s) = PostProcessDisplayType s"
  by (simp_all add: Registered_def)

lemma Invariant_ctor:
  "Invariant (UVRFullScreenUserWidget_ctor Flags Class InEditor InGame InPIE Material bUninitialized)"
  by (simp add: Invariant_def UVRFullScreenUserWidget_ctor_def FVRFullScreenUserWidget_Viewport_ctor_def
      FVRFullScreenUserWidget_PostProcess_ctor_def ViewportHolds_def PostProcessPresented_def
      RendererConsistent_def)

lemma Invariant_Hide:
  assumes "Invariant s"
  shows "Invariant (Hide h s)"
proof -
  have vp: "\<not> ViewportHolds (ViewportDisplayType (Hide h s))"
    using assms by (simp add: Hide_fields Invariant_def ViewportHolds_def)
  have pp: "\<not> PostProcessPresented (PostProcessDisplayType (Hide h s))"
    using assms by (simp add: Hide_fields Invariant_def PostProcess_Hide_not_presented)
  have w: "Widget (Hide h s) = None"
    using assms by (auto simp add: Hide_fields Invariant_def)
  from pp have "RendererConsistent (PostProcessDisplayType (Hide h s))"
    by (simp add: PostProcessPresented_def RendererConsistent_def)
  with vp pp w show ?thesis
    by (simp add: Invariant_def Hide_fields(1))
qed

lemma Invariant_Display:
  assumes "Invariant s" and "Display h InWorld s = Some (bWasAdded, s')"
  shows "Invariant s'"
proof (cases "DisplayGuard h InWorld s")
  case False
  from Display_guard_fails [OF False] assms show ?thesis
    by (auto simp add: Invariant_def)
next
  case True
  then have inactive: "CurrentDisplayType s = Inactive" by (simp add: DisplayGuard_def)
  from True have ni: "GetDisplayType h InWorld s \<noteq> Inactive"
    by (simp add: DisplayGuard_def ShouldDisplay_not_Inactive)
  from assms(2) obtain s3 where iw: "InitWidget h (DisplayRequested h InWorld s) = Some s3"
    by (auto simp add: Display_guard_holds [OF True] split: option.splits)
  from InitWidget_fields [OF iw]
  have f: "CurrentDisplayType s3 = GetDisplayType h InWorld s"
    "ViewportDisplayType s3 = ViewportDisplayType s"
    "PostProcessDisplayType s3 = PostProcessDisplayType s"
    by (simp_all add: DisplayRequested_def)
  show ?thesis
  proof (cases "GetDisplayType h InWorld s = Viewport")
    case vp: True
    with assms(2) iw obtain VP where
      "s' = Registered bWasAdded (s3\<lparr>ViewportDisplayType := VP\<rparr>)"
      by (auto simp add: Display_guard_holds [OF True] split: option.splits)
    with assms(1) inactive f vp show ?thesis
      by (simp add: Invariant_def)
  next
    case nvp: False
    with ni have ppt: "GetDisplayType h InWorld s = PostProcess"
      by (cases "GetDisplayType h InWorld s") simp_all
    from assms(2) iw nvp obtain PP where
      pd: "PostProcess_Display h InWorld (Widget s3) False (GetViewportDPIScale h s3)
             (PostProcessDisplayType s) = Some (bWasAdded, PP)"
      and s': "s' = Registered bWasAdded (s3\<lparr>PostProcessDisplayType := PP\<rparr>)"
      by (auto simp add: Display_guard_holds [OF True] split: option.splits)
    from PostProcess_Display_result [OF pd] s' assms(1) inactive f ppt show ?thesis
      by (simp add: Invariant_def)
  qed
qed

lemma Invariant_Tick:
  assumes "Invariant s" and "Tick h dt s = Some s'"
  shows "Invariant s'"
proof (cases "CurrentDisplayType s = Inactive \<or> World s = None")
  case True
  with assms(2) have "s' = s \<or> s' = Hide h s"
    by (auto simp add: Tick_def split: if_splits)
  with assms(1) Invariant_Hide show ?thesis by auto
next
  case False
  then obtain W where w: "World s = Some W" by auto
  show ?thesis
  proof (cases "CurrentDisplayType s")
    case Inactive
    with False show ?thesis by simp
  next
    case Viewport
    with assms w show ?thesis
      by (auto simp add: Tick_def Viewport_Tick_def Invariant_def)
  next
    case PostProcess
    with assms(2) w obtain PP where
      t: "TickRenderer h (Some W) dt (PostProcessDisplayType s) = Some PP"
      and s': "s' = s\<lparr>PostProcessDisplayType := PP\<rparr>"
      by (auto simp add: Tick_def PostProcess_Tick_def split: option.splits)
    from assms(1) have "RendererConsistent (PostProcessDisplayType s)"
      by (simp add: Invariant_def)
    from TickRenderer_RendererConsistent [OF t this] s' assms(1) PostProcess show ?thesis
      by (simp add: Invariant_def)
  qed
qed

lemma Invariant_EnvironmentStep:
  assumes "Invariant s" and "EnvironmentStep s s'"
  shows "Invariant s'"
proof -
  from assms(2) have vp: "ViewportHolds (ViewportDisplayType s') \<longrightarrow>
      ViewportHolds (ViewportDisplayType s)"
    by (auto simp add: EnvironmentStep_def Viewport_EnvironmentStep_def Expired_def ViewportHolds_def)
  from assms(2) have pp: "PostProcessPresented (PostProcessDisplayType s')
      = PostProcessPresented (PostProcessDisplayType s)"
    by (auto simp add: EnvironmentStep_def PostProcess_EnvironmentStep_def HitTester_EnvironmentStep_def
        PostProcessPresented_def split: option.splits)
  from assms(2) have rc: "RendererConsistent (PostProcessDisplayType s')
      = RendererConsistent (PostProcessDisplayType s)"
    by (simp add: EnvironmentStep_def PostProcess_EnvironmentStep_def RendererConsistent_def)
  from assms(2) have f: "CurrentDisplayType s' = CurrentDisplayType s" "Widget s' = Widget s"
    "bRenderToTextureOnly (PostProcessDisplayType s') = bRenderToTextureOnly (PostProcessDisplayType s)"
    by (simp_all add: EnvironmentStep_def PostProcess_EnvironmentStep_def)
  from assms(1) vp pp rc f show ?thesis
    by (auto simp add: Invariant_def)
qed

lemma Invariant_PostEditChangeProperty:
  assumes "Invariant s" and "PostEditChangeProperty h MemberProperty bInteractive s = Some s'"
  shows "Invariant s'"
proof -
  from assms(2) have "s' = s \<or> s' = Hide h s
      \<or> (\<exists>b W. Display h W (Hide h s) = Some (b, s'))"
    by (auto simp add: PostEditChangeProperty_def Let_def split: option.splits if_splits)
  with assms(1) Invariant_Hide [OF assms(1), of h] Invariant_Display show ?thesis
    by blast
qed

lemma reachable_Invariant:
  assumes "reachable s"
  shows "Invariant s"
  using assms
proof (induction rule: reachable.induct)
  case (reachable_ctor Flags Class InEditor InGame InPIE Material bUninitialized)
  show ?case by (rule Invariant_ctor)
next
  case (reachable_Display s h InWorld bWasAdded s')
  then show ?case using Invariant_Display by blast
next
  case (reachable_Hide s h)
  then show ?case by (simp add: Invariant_Hide)
next
  case (reachable_Tick s h DeltaSeconds s')
  then show ?case using Invariant_Tick by blast
next
  case (reachable_SetDisplayTypes s InEditor InGame InPIE)
  then show ?case by (simp add: Invariant_def SetDisplayTypes_def)
next
  case (reachable_OnLevelRemovedFromWorld s h InLevel InWorld)
  then show ?case by (simp add: OnLevelRemovedFromWorld_def Invariant_Hide)
next
  case (reachable_BeginDestroy s h)
  then show ?case by (simp add: BeginDestroy_def Invariant_Hide)
next
  case (reachable_SetAllTargetViewports s InTargetViewport)
  then show ?case
    by (simp add: Invariant_def SetAllTargetViewports_def ViewportHolds_def
        PostProcessPresented_def RendererConsistent_def)
next
  case (reachable_ResetAllTargetViewports s)
  then show ?case
    by (simp add: Invariant_def ResetAllTargetViewports_def ViewportHolds_def
        PostProcessPresented_def RendererConsistent_def)
next
  case (reachable_PostEditChangeProperty s h MemberProperty bInteractive s')
  then show ?case using Invariant_PostEditChangeProperty by blast
next
  case (reachable_EnvironmentStep s s')
  then show ?case using Invariant_EnvironmentStep by blast
qed

lemma ExampleWidget_fields:
  "PostProcessDisplayType ExampleWidget = ExamplePostProcess"
  "ViewportDisplayType ExampleWidget = FVRFullScreenUserWidget_Viewport_ctor"
  "CurrentDisplayType ExampleWidget = Inactive"
  "WidgetClass ExampleWidget = Some 3"
  "Widget ExampleWidget = None"
  "GameDisplayType ExampleWidget = PostProcess"
  "ObjectFlags ExampleWidget = {}"
  by (simp_all add: ExampleWidget_def ExamplePostProcess_def UVRFullScreenUserWidget_ctor_def)

lemma GetDisplayType_Example:
  "GetDisplayType ExampleHost (Some 5) ExampleWidget = PostProcess"
  by (simp add: GetDisplayType_def ExampleWidget_fields ExampleHost_def)

lemma DisplayGuard_Example: "DisplayGuard ExampleHost (Some 5) ExampleWidget"
  by (simp add: DisplayGuard_def ShouldDisplay_def HasAnyFlags_def GetDisplayType_Example
      ExampleWidget_fields) (simp add: ExampleHost_def)

lemma Display_Example:
  "Display ExampleHost (Some 5) ExampleWidget = Some (True, DisplayedWidget)"
proof -
  have iw: "InitWidget ExampleHost (DisplayRequested ExampleHost (Some 5) ExampleWidget)
      = Some (ExampleWidget\<lparr>bDisplayRequested := True, World := Some 5,
                CurrentDisplayType := PostProcess, Widget := Some 47,
                Widget_Calls := [SetFlags 47 RF_Transient]\<rparr>)"
    unfolding DisplayRequested_def GetDisplayType_Example
    by (simp add: InitWidget_def ExampleWidget_def UVRFullScreenUserWidget_ctor_def)
       (simp add: ExampleHost_def)
  have dpi: "GetViewportDPIScale ExampleHost
               (ExampleWidget\<lparr>bDisplayRequested := True, World := Some 5,
                  CurrentDisplayType := PostProcess, Widget := Some 47,
                  Widget_Calls := [SetFlags 47 RF_Transient]\<rparr>) = 1"
    by (simp add: GetViewportDPIScale_def Let_def) (simp add: ExampleHost_def)
  show ?thesis
    unfolding Display_guard_holds [OF DisplayGuard_Example] iw GetDisplayType_Example
    by (simp add: dpi ExampleWidget_fields DisplayedPostProcess_is_displayed Registered_def
        DisplayedWidget_def)
qed

lemma reachable_DisplayedWidget: "reachable DisplayedWidget"
proof -
  have "reachable ExampleWidget"
    unfolding ExampleWidget_def by (rule reachable_ctor)
  from reachable_Display [OF this Display_Example] show ?thesis .
qed

lemma Expired_refl [simp]: "Expired p p" and Expired_None [simp]: "Expired p None"
  by (simp_all add: Expired_def)

lemma EnvironmentStep_world_destroyed: "EnvironmentStep s (s\<lparr>World := None\<rparr>)"
  by (simp add: EnvironmentStep_def Viewport_EnvironmentStep_def PostProcess_EnvironmentStep_def
      HitTester_EnvironmentStep_def split: option.splits)

lemma reachable_WorldDestroyedWidget: "reachable WorldDestroyedWidget"
  unfolding WorldDestroyedWidget_def
  by (rule reachable_EnvironmentStep [OF reachable_DisplayedWidget EnvironmentStep_world_destroyed])












lemma Viewport_Display_untouched:
  assumes "Viewport_Display h InWorld InWidget dpi vp = Some (False, vp')"
  shows "vp' = vp"
proof (cases "InWidget = None \<or> InWorld = None \<or> FullScreenCanvasWidget vp \<noteq> None")
  case True
  with assms show ?thesis
    by (auto simp add: Viewport_Display_def split: option.splits)
next
  case False
  then obtain Wd W where a: "InWidget = Some Wd" "InWorld = Some W" "FullScreenCanvasWidget vp = None"
    by auto
  show ?thesis
  proof (cases "WorldType h W = Game \<or> WorldType h W = PIE")
    case True
    with assms show ?thesis
      unfolding Viewport_Display_def a
      by (cases "GetGameViewport h W") (auto simp add: Let_def)
  next
    case False
    with assms show ?thesis
      unfolding Viewport_Display_def a
      by (cases "WITH_EDITOR h \<and> IsModuleLoaded_LevelEditor h";
          cases "Viewport_TargetViewport vp"; cases "GetFirstActiveLevelViewport h")
         (auto simp add: Let_def)
  qed
qed


lemma Viewport_Hide_not_held:
  "FullScreenCanvasWidget vp = None \<Longrightarrow> Viewport_Hide h InWorld vp = vp"
  by (simp add: Viewport_Hide_def)
















lemma OverlayStep_removed:
  "AddViewportWidgetContent VC c \<notin> set (OverlayStep shown (RemoveViewportWidgetContent VC c))"
  "AddOverlayWidget LV c \<notin> set (OverlayStep shown (RemoveOverlayWidget LV c))"
  "x \<notin> set shown \<Longrightarrow> x \<notin> set (OverlayStep shown (RemoveViewportWidgetContent VC c))"
  "x \<notin> set shown \<Longrightarrow> x \<notin> set (OverlayStep shown (RemoveOverlayWidget LV c))"
  by simp_all


section \<open>The claims\<close>

subsection \<open>C1: the widget draw size\<close>

text \<open>
  Claim C1 reads the function as a cascade: the manual override; otherwise a Game or PIE
  world with a game viewport; otherwise the editor with an active level viewport;
  otherwise (0,0). \<open>CalculateWidgetDrawSize_claimed\<close> is that cascade. The source
  attaches the editor branch as the \<^verbatim>\<open>else\<close> of the test of the world type alone, so
  a PIE world that has no game viewport gets (0,0) even when the level editor is loaded
  and has an active level viewport of size 800x600: there the claim as stated fails.
\<close>

theorem CalculateWidgetDrawSize_PIE_without_viewport:
  "\<not> bWidgetDrawSize ExamplePostProcess
   \<and> WorldType ExampleHost 6 = PIE
   \<and> GetGameViewport ExampleHost 6 = None
   \<and> WITH_EDITOR ExampleHost \<and> IsModuleLoaded_LevelEditor ExampleHost
   \<and> PostProcess_TargetViewport ExamplePostProcess = None
   \<and> GetFirstActiveLevelViewport ExampleHost = Some 20
   \<and> GetSharedActiveViewport ExampleHost 20 = Some 21
   \<and> SceneViewport_GetSize ExampleHost 21 = \<lparr>X = 800, Y = 600\<rparr>
   \<and> CalculateWidgetDrawSize_claimed ExampleHost 6 ExamplePostProcess = \<lparr>X = 800, Y = 600\<rparr>
   \<and> CalculateWidgetDrawSize ExampleHost 6 ExamplePostProcess = \<lparr>X = 0, Y = 0\<rparr>
   \<and> CalculateWidgetDrawSize ExampleHost 6 ExamplePostProcess
       \<noteq> CalculateWidgetDrawSize_claimed ExampleHost 6 ExamplePostProcess"
  by (simp add: CalculateWidgetDrawSize_def CalculateWidgetDrawSize_claimed_def Example_defs)

text \<open>
  Claim C1, amended. \<open>CalculateWidgetDrawSize\<close> returns the manual override
  \<open>WidgetDrawSize\<close> whenever \<open>bWidgetDrawSize\<close> is set. Otherwise, for a Game or PIE
  world: with a game viewport it returns the size that viewport reports, converted by
  \<^verbatim>\<open>IntPoint\<close> (the size itself when its components are whole numbers of magnitude
  below \<open>2^22\<close>), and the fallback 16x16 when the X component of that size is below
  \<open>SMALL_NUMBER\<close>; without a game viewport it returns (0,0). Otherwise, for a world
  that is neither Game nor PIE: in an editor build with the level editor module loaded,
  an active level viewport (the target viewport when set, else the first active one)
  and a shared scene viewport of it, it returns that scene viewport's size; in every
  remaining case it returns (0,0).
\<close>

theorem CalculateWidgetDrawSize_cases:
  "(bWidgetDrawSize s \<longrightarrow> CalculateWidgetDrawSize h W s = WidgetDrawSize s)
   \<and> (\<not> bWidgetDrawSize s \<and> (WorldType h W = Game \<or> WorldType h W = PIE)
        \<and> GetGameViewport h W = Some VC
        \<and> \<not> VX (GetViewportSize h VC \<lparr>VX = 16, VY = 16\<rparr>) < SMALL_NUMBER
      \<longrightarrow> CalculateWidgetDrawSize h W s = IntPoint h (GetViewportSize h VC \<lparr>VX = 16, VY = 16\<rparr>))
   \<and> (\<not> bWidgetDrawSize s \<and> (WorldType h W = Game \<or> WorldType h W = PIE)
        \<and> GetGameViewport h W = Some VC
        \<and> GetViewportSize h VC \<lparr>VX = 16, VY = 16\<rparr> = \<lparr>VX = of_int a, VY = of_int b\<rparr>
        \<and> 0 < a \<and> a < 4194304 \<and> \<bar>b\<bar> < 4194304
      \<longrightarrow> CalculateWidgetDrawSize h W s = \<lparr>X = a, Y = b\<rparr>)
   \<and> (\<not> bWidgetDrawSize s \<and> (WorldType h W = Game \<or> WorldType h W = PIE)
        \<and> GetGameViewport h W = Some VC
        \<and> VX (GetViewportSize h VC \<lparr>VX = 16, VY = 16\<rparr>) < SMALL_NUMBER
      \<longrightarrow> CalculateWidgetDrawSize h W s = \<lparr>X = 16, Y = 16\<rparr>)
   \<and> (\<not> bWidgetDrawSize s \<and> (WorldType h W = Game \<or> WorldType h W = PIE)
        \<and> GetGameViewport h W = None
      \<longrightarrow> CalculateWidgetDrawSize h W s = \<lparr>X = 0, Y = 0\<rparr>)
   \<and> (\<not> bWidgetDrawSize s \<and> WorldType h W \<noteq> Game \<and> WorldType h W \<noteq> PIE
        \<and> WITH_EDITOR h \<and> IsModuleLoaded_LevelEditor h
        \<and> ActiveLevelViewport_of h s = Some LV \<and> GetSharedActiveViewport h LV = Some SV
      \<longrightarrow> CalculateWidgetDrawSize h W s = SceneViewport_GetSize h SV)
   \<and> (\<not> bWidgetDrawSize s \<and> WorldType h W \<noteq> Game \<and> WorldType h W \<noteq> PIE
        \<and> (\<not> WITH_EDITOR h \<or> \<not> IsModuleLoaded_LevelEditor h
            \<or> ActiveLevelViewport_of h s = None
            \<or> Option.bind (ActiveLevelViewport_of h s) (GetSharedActiveViewport h) = None)
      \<longrightarrow> CalculateWidgetDrawSize h W s = \<lparr>X = 0, Y = 0\<rparr>)"
proof -
  have whole: "\<not> of_int a < SMALL_NUMBER" if "0 < a"
  proof -
    from that have "(1 :: real) \<le> of_int a" by simp
    then show ?thesis by (simp add: SMALL_NUMBER_def)
  qed
  have c3: "CalculateWidgetDrawSize h W s = \<lparr>X = a, Y = b\<rparr>"
    if "\<not> bWidgetDrawSize s" "WorldType h W = Game \<or> WorldType h W = PIE"
      "GetGameViewport h W = Some VC"
      "GetViewportSize h VC \<lparr>VX = 16, VY = 16\<rparr> = \<lparr>VX = of_int a, VY = of_int b\<rparr>"
      "0 < a" "a < 4194304" "\<bar>b\<bar> < 4194304"
    using that whole [OF that(5)]
    by (auto simp add: CalculateWidgetDrawSize_def Let_def IntPoint_def RoundToInt_of_int)
  have rest: "(bWidgetDrawSize s \<longrightarrow> CalculateWidgetDrawSize h W s = WidgetDrawSize s)
   \<and> (\<not> bWidgetDrawSize s \<and> (WorldType h W = Game \<or> WorldType h W = PIE)
        \<and> GetGameViewport h W = Some VC
        \<and> \<not> VX (GetViewportSize h VC \<lparr>VX = 16, VY = 16\<rparr>) < SMALL_NUMBER
      \<longrightarrow> CalculateWidgetDrawSize h W s = IntPoint h (GetViewportSize h VC \<lparr>VX = 16, VY = 16\<rparr>))
   \<and> (\<not> bWidgetDrawSize s \<and> (WorldType h W = Game \<or> WorldType h W = PIE)
        \<and> GetGameViewport h W = Some VC
        \<and> VX (GetViewportSize h VC \<lparr>VX = 16, VY = 16\<rparr>) < SMALL_NUMBER
      \<longrightarrow> CalculateWidgetDrawSize h W s = \<lparr>X = 16, Y = 16\<rparr>)
   \<and> (\<not> bWidgetDrawSize s \<and> (WorldType h W = Game \<or> WorldType h W = PIE)
        \<and> GetGameViewport h W = None
      \<longrightarrow> CalculateWidgetDrawSize h W s = \<lparr>X = 0, Y = 0\<rparr>)
   \<and> (\<not> bWidgetDrawSize s \<and> WorldType h W \<noteq> Game \<and> WorldType h W \<noteq> PIE
        \<and> WITH_EDITOR h \<and> IsModuleLoaded_LevelEditor h
        \<and> ActiveLevelViewport_of h s = Some LV \<and> GetSharedActiveViewport h LV = Some SV
      \<longrightarrow> CalculateWidgetDrawSize h W s = SceneViewport_GetSize h SV)
   \<and> (\<not> bWidgetDrawSize s \<and> WorldType h W \<noteq> Game \<and> WorldType h W \<noteq> PIE
        \<and> (\<not> WITH_EDITOR h \<or> \<not> IsModuleLoaded_LevelEditor h
            \<or> ActiveLevelViewport_of h s = None
            \<or> Option.bind (ActiveLevelViewport_of h s) (GetSharedActiveViewport h) = None)
      \<longrightarrow> CalculateWidgetDrawSize h W s = \<lparr>X = 0, Y = 0\<rparr>)"
    by (auto simp add: CalculateWidgetDrawSize_def ActiveLevelViewport_of_def ZeroValue_def Let_def
             IntPoint_sixteen split: option.splits)
  from rest c3 show ?thesis by blast
qed

theorem CalculateWidgetDrawSize_cases_witness:
  "CalculateWidgetDrawSize ExampleHost 5 (ExamplePostProcess\<lparr>bWidgetDrawSize := True\<rparr>)
     = \<lparr>X = 640, Y = 360\<rparr>
   \<and> CalculateWidgetDrawSize ExampleHost 5 ExamplePostProcess = \<lparr>X = 1280, Y = 720\<rparr>
   \<and> CalculateWidgetDrawSize
        (ExampleHost\<lparr>GetViewportSize := \<lambda>C V. \<lparr>VX = 0, VY = 0\<rparr>\<rparr>) 5 ExamplePostProcess
     = \<lparr>X = 16, Y = 16\<rparr>
   \<and> CalculateWidgetDrawSize
        (ExampleHost\<lparr>GetViewportSize := \<lambda>C V. \<lparr>VX = 1 / 100000000, VY = 720\<rparr>\<rparr>) 5
        ExamplePostProcess
     = \<lparr>X = 0, Y = 720\<rparr>
   \<and> CalculateWidgetDrawSize
        (ExampleHost\<lparr>GetViewportSize := \<lambda>C V. \<lparr>VX = SMALL_NUMBER, VY = 720\<rparr>\<rparr>) 5
        ExamplePostProcess
     = \<lparr>X = 0, Y = 720\<rparr>
   \<and> CalculateWidgetDrawSize
        (ExampleHost\<lparr>GetViewportSize := \<lambda>C V. \<lparr>VX = 11258998 / 1125899906842624, VY = 720\<rparr>\<rparr>)
        5 ExamplePostProcess
     = \<lparr>X = 16, Y = 16\<rparr>
   \<and> CalculateWidgetDrawSize ExampleHost 6 ExamplePostProcess = \<lparr>X = 0, Y = 0\<rparr>
   \<and> CalculateWidgetDrawSize ExampleHost 7 ExamplePostProcess = \<lparr>X = 800, Y = 600\<rparr>
   \<and> CalculateWidgetDrawSize (ExampleHost\<lparr>IsModuleLoaded_LevelEditor := False\<rparr>) 7 ExamplePostProcess
     = \<lparr>X = 0, Y = 0\<rparr>"
proof -
  have 1: "CalculateWidgetDrawSize ExampleHost 5 (ExamplePostProcess\<lparr>bWidgetDrawSize := True\<rparr>)
     = \<lparr>X = 640, Y = 360\<rparr>"
    using CalculateWidgetDrawSize_cases
      [where s = "ExamplePostProcess\<lparr>bWidgetDrawSize := True\<rparr>" and h = ExampleHost and W = 5]
    by (simp add: Example_defs)
  have 2: "CalculateWidgetDrawSize ExampleHost 5 ExamplePostProcess = \<lparr>X = 1280, Y = 720\<rparr>"
    using CalculateWidgetDrawSize_cases
      [where s = ExamplePostProcess and h = ExampleHost and W = 5 and VC = 10
         and a = 1280 and b = 720]
    by (simp add: Example_defs)
  have 3: "CalculateWidgetDrawSize
        (ExampleHost\<lparr>GetViewportSize := \<lambda>C V. \<lparr>VX = 0, VY = 0\<rparr>\<rparr>) 5 ExamplePostProcess
     = \<lparr>X = 16, Y = 16\<rparr>"
    using CalculateWidgetDrawSize_cases
      [where s = ExamplePostProcess
         and h = "ExampleHost\<lparr>GetViewportSize := \<lambda>C V. \<lparr>VX = 0, VY = 0\<rparr>\<rparr>"
         and W = 5 and VC = 10]
    by (simp add: Example_defs)
  have 4: "CalculateWidgetDrawSize
        (ExampleHost\<lparr>GetViewportSize := \<lambda>C V. \<lparr>VX = 1 / 100000000, VY = 720\<rparr>\<rparr>) 5
        ExamplePostProcess
     = \<lparr>X = 0, Y = 720\<rparr>"
    using CalculateWidgetDrawSize_cases
      [where s = ExamplePostProcess
         and h = "ExampleHost\<lparr>GetViewportSize := \<lambda>C V. \<lparr>VX = 1 / 100000000, VY = 720\<rparr>\<rparr>"
         and W = 5 and VC = 10]
    by (simp add: Example_defs)
  have 5: "CalculateWidgetDrawSize
        (ExampleHost\<lparr>GetViewportSize := \<lambda>C V. \<lparr>VX = SMALL_NUMBER, VY = 720\<rparr>\<rparr>) 5
        ExamplePostProcess
     = \<lparr>X = 0, Y = 720\<rparr>"
    using CalculateWidgetDrawSize_cases
      [where s = ExamplePostProcess
         and h = "ExampleHost\<lparr>GetViewportSize := \<lambda>C V. \<lparr>VX = SMALL_NUMBER, VY = 720\<rparr>\<rparr>"
         and W = 5 and VC = 10]
    by (simp add: Example_defs)
  have 9: "CalculateWidgetDrawSize
        (ExampleHost\<lparr>GetViewportSize := \<lambda>C V. \<lparr>VX = 11258998 / 1125899906842624, VY = 720\<rparr>\<rparr>)
        5 ExamplePostProcess
     = \<lparr>X = 16, Y = 16\<rparr>"
    using CalculateWidgetDrawSize_cases
      [where s = ExamplePostProcess
         and h = "ExampleHost
                   \<lparr>GetViewportSize := \<lambda>C V. \<lparr>VX = 11258998 / 1125899906842624, VY = 720\<rparr>\<rparr>"
         and W = 5 and VC = 10]
    by (simp add: Example_defs)
  have 6: "CalculateWidgetDrawSize ExampleHost 6 ExamplePostProcess = \<lparr>X = 0, Y = 0\<rparr>"
    using CalculateWidgetDrawSize_cases [where s = ExamplePostProcess and h = ExampleHost and W = 6]
    by (simp add: Example_defs)
  have 7: "CalculateWidgetDrawSize ExampleHost 7 ExamplePostProcess = \<lparr>X = 800, Y = 600\<rparr>"
    using CalculateWidgetDrawSize_cases
      [where s = ExamplePostProcess and h = ExampleHost and W = 7 and LV = 20 and SV = 21]
    by (simp add: Example_defs ActiveLevelViewport_of_def)
  have 8: "CalculateWidgetDrawSize (ExampleHost\<lparr>IsModuleLoaded_LevelEditor := False\<rparr>) 7 ExamplePostProcess
     = \<lparr>X = 0, Y = 0\<rparr>"
    using CalculateWidgetDrawSize_cases
      [where s = ExamplePostProcess and h = "ExampleHost\<lparr>IsModuleLoaded_LevelEditor := False\<rparr>"
         and W = 7]
    by (simp add: Example_defs)
  from 1 2 3 4 5 6 7 8 9 show ?thesis by simp
qed

subsection \<open>C2: the hit tester\<close>

text \<open>
  Claim C2. With a live virtual window, \<open>GetBubblePathAndVirtualCursors\<close> converts the
  desktop coordinate with \<open>AbsoluteToLocal\<close>, queries the window's hit-test grid at the
  local coordinate with cursor radius 0, returns the widgets of that bubble path, each
  with the same pointer position (current: the local coordinate; last: the stored last
  hit location), and stores the local coordinate as the last hit location, so that the
  next call reports it as the last position. With an expired window it returns the
  empty array and leaves the hit tester as it was.
\<close>

theorem GetBubblePathAndVirtualCursors_spec:
  assumes "GetBubblePathAndVirtualCursors (Some Grid) A2L D b t = (ws, t')"
    and "GetBubblePathAndVirtualCursors Pin2 A2L2 D2 b2 t' = (ws2, t2)"
  shows "map ArrangedWidget ws = map ArrangedWidget (Grid (A2L D) 0 b)
       \<and> (\<forall>w \<in> set ws. PointerPosition w =
             Some \<lparr>CurrentCursorPosition = A2L D, LastCursorPosition = LastLocalHitLocation t\<rparr>)
       \<and> t' = t\<lparr>LastLocalHitLocation := A2L D\<rparr>
       \<and> (\<forall>w \<in> set ws2. map_option LastCursorPosition (PointerPosition w) = Some (A2L D))
       \<and> GetBubblePathAndVirtualCursors None A2L D b t = ([], t)"
  using assms
  by (cases Pin2) (auto simp add: GetBubblePathAndVirtualCursors_def Let_def comp_def)

theorem GetBubblePathAndVirtualCursors_spec_witness:
  "GetBubblePathAndVirtualCursors (Some ExampleGrid) ExampleGeometry \<lparr>VX = 300, VY = 200\<rparr> False
     ExampleHitTester
   = ([\<lparr>ArrangedWidget = 44,
        PointerPosition = Some \<lparr>CurrentCursorPosition = \<lparr>VX = 200, VY = 150\<rparr>,
                                LastCursorPosition = \<lparr>VX = 0, VY = 0\<rparr>\<rparr>\<rparr>,
       \<lparr>ArrangedWidget = 1047,
        PointerPosition = Some \<lparr>CurrentCursorPosition = \<lparr>VX = 200, VY = 150\<rparr>,
                                LastCursorPosition = \<lparr>VX = 0, VY = 0\<rparr>\<rparr>\<rparr>],
      ExampleHitTester\<lparr>LastLocalHitLocation := \<lparr>VX = 200, VY = 150\<rparr>\<rparr>)
   \<and> GetBubblePathAndVirtualCursors (Some ExampleGrid) ExampleGeometry \<lparr>VX = 400, VY = 100\<rparr> False
       (ExampleHitTester\<lparr>LastLocalHitLocation := \<lparr>VX = 200, VY = 150\<rparr>\<rparr>)
   = ([\<lparr>ArrangedWidget = 44,
        PointerPosition = Some \<lparr>CurrentCursorPosition = \<lparr>VX = 300, VY = 50\<rparr>,
                                LastCursorPosition = \<lparr>VX = 200, VY = 150\<rparr>\<rparr>\<rparr>,
       \<lparr>ArrangedWidget = 1047,
        PointerPosition = Some \<lparr>CurrentCursorPosition = \<lparr>VX = 300, VY = 50\<rparr>,
                                LastCursorPosition = \<lparr>VX = 200, VY = 150\<rparr>\<rparr>\<rparr>],
      ExampleHitTester\<lparr>LastLocalHitLocation := \<lparr>VX = 300, VY = 50\<rparr>\<rparr>)
   \<and> ExampleHitTester\<lparr>LastLocalHitLocation := \<lparr>VX = 200, VY = 150\<rparr>\<rparr>
       = ExampleHitTester\<lparr>LastLocalHitLocation := ExampleGeometry \<lparr>VX = 300, VY = 200\<rparr>\<rparr>
   \<and> GetBubblePathAndVirtualCursors None ExampleGeometry \<lparr>VX = 300, VY = 200\<rparr> False ExampleHitTester
       = ([], ExampleHitTester)"
proof -
  have e1: "GetBubblePathAndVirtualCursors (Some ExampleGrid) ExampleGeometry \<lparr>VX = 300, VY = 200\<rparr> False
             ExampleHitTester
     = ([\<lparr>ArrangedWidget = 44,
        PointerPosition = Some \<lparr>CurrentCursorPosition = \<lparr>VX = 200, VY = 150\<rparr>,
                                LastCursorPosition = \<lparr>VX = 0, VY = 0\<rparr>\<rparr>\<rparr>,
       \<lparr>ArrangedWidget = 1047,
        PointerPosition = Some \<lparr>CurrentCursorPosition = \<lparr>VX = 200, VY = 150\<rparr>,
                                LastCursorPosition = \<lparr>VX = 0, VY = 0\<rparr>\<rparr>\<rparr>],
      ExampleHitTester\<lparr>LastLocalHitLocation := \<lparr>VX = 200, VY = 150\<rparr>\<rparr>)"
    by (simp add: GetBubblePathAndVirtualCursors_def Let_def ExampleGrid_def ExampleGeometry_def
        ExampleHitTester_def FVRWidgetPostProcessHitTester_ctor_def ZeroVector_def)
  have e2: "GetBubblePathAndVirtualCursors (Some ExampleGrid) ExampleGeometry \<lparr>VX = 400, VY = 100\<rparr> False
       (ExampleHitTester\<lparr>LastLocalHitLocation := \<lparr>VX = 200, VY = 150\<rparr>\<rparr>)
   = ([\<lparr>ArrangedWidget = 44,
        PointerPosition = Some \<lparr>CurrentCursorPosition = \<lparr>VX = 300, VY = 50\<rparr>,
                                LastCursorPosition = \<lparr>VX = 200, VY = 150\<rparr>\<rparr>\<rparr>,
       \<lparr>ArrangedWidget = 1047,
        PointerPosition = Some \<lparr>CurrentCursorPosition = \<lparr>VX = 300, VY = 50\<rparr>,
                                LastCursorPosition = \<lparr>VX = 200, VY = 150\<rparr>\<rparr>\<rparr>],
      ExampleHitTester\<lparr>LastLocalHitLocation := \<lparr>VX = 300, VY = 50\<rparr>\<rparr>)"
    by (simp add: GetBubblePathAndVirtualCursors_def Let_def ExampleGrid_def ExampleGeometry_def
        ExampleHitTester_def FVRWidgetPostProcessHitTester_ctor_def ZeroVector_def)
  from GetBubblePathAndVirtualCursors_spec [OF e1 e2] e1 e2 show ?thesis
    by simp
qed

subsection \<open>C3: the tick follows the viewport size\<close>



subsection \<open>C4: the draw of each tick\<close>

text \<open>
  Claim C4, as stated, fails. The post-process display of the example is active, with
  a valid render target, renderer and window. On a tick at which the game viewport of
  its world is gone, the calculated size is (0,0): the display hides itself and the
  tick issues no \<^verbatim>\<open>DrawWindow\<close>.
\<close>

theorem TickRenderer_skips_draw_when_hiding:
  "PostProcess_Display ExampleHost (Some 5) (Some 47) False 1 ExamplePostProcess
     = Some (True, DisplayedPostProcess)
   \<and> WidgetRenderTarget DisplayedPostProcess = Some ExampleRenderTarget
   \<and> WidgetRenderer DisplayedPostProcess = Some ExampleRenderer
   \<and> SlateWindow DisplayedPostProcess = Some ExampleWindow
   \<and> TickRenderer NoViewportHost (Some 5) (1 / 60) DisplayedPostProcess
       = Some (PostProcess_Hide NoViewportHost (Some 5) DisplayedPostProcess)
   \<and> NewCalls (PostProcess_Calls DisplayedPostProcess)
        (PostProcess_Calls (PostProcess_Hide NoViewportHost (Some 5) DisplayedPostProcess))
       = [UnregisterComponent 41, BeginCleanup 43, UnregisterVirtualWindow 44]
   \<and> DrawCalls (NewCalls (PostProcess_Calls DisplayedPostProcess)
        (PostProcess_Calls (PostProcess_Hide NoViewportHost (Some 5) DisplayedPostProcess)))
       = []"
proof -
  have n: "CalculateWidgetDrawSize NoViewportHost 5 DisplayedPostProcess
             \<noteq> CurrentWidgetDrawSize DisplayedPostProcess"
    unfolding CalculateWidgetDrawSize_Displayed DisplayedPostProcess_fields by simp
  have v: "\<not> IsTextureSizeValid NoViewportHost (CalculateWidgetDrawSize NoViewportHost 5 DisplayedPostProcess)"
    unfolding CalculateWidgetDrawSize_Displayed by (simp add: IsTextureSizeValid_def)
  have c: "PostProcess_Calls (PostProcess_Hide NoViewportHost (Some 5) DisplayedPostProcess)
     = PostProcess_Calls DisplayedPostProcess
         @ [UnregisterComponent 41, BeginCleanup 43, UnregisterVirtualWindow 44]"
    by (simp add: PostProcess_Hide_def ReleasePostProcessComponent_def ReleaseRenderer_def
        UnRegisterHitTesterWithViewport_def Let_def NoViewportHost_def Example_defs)
  from TickRenderer_hides [OF DisplayedPostProcess_fields(1) n v, of "1 / 60"]
    DisplayedPostProcess_is_displayed DisplayedPostProcess_fields(1,2,3) c
  show ?thesis by (simp add: NewCalls_append)
qed

text \<open>
  Claim C4, amended. On every tick of a post-process display whose render target,
  renderer and virtual window are valid, and at which the newly calculated draw size is
  the current one or is a valid texture size, the virtual window is rendered into
  \<open>WidgetRenderTarget\<close> by exactly one \<^verbatim>\<open>DrawWindow\<close> with draw scale 1 at size
  \<open>CurrentWidgetDrawSize\<close>, which is then the calculated size. On a tick at which the
  calculated size differs from the current one and is invalid, the display hides itself
  and nothing is drawn.
\<close>

theorem TickRenderer_draws:
  assumes "WidgetRenderTarget s = Some RT" and "WidgetRenderer s = Some Rd"
    and "SlateWindow s = Some Win"
  shows "\<exists>s'. TickRenderer h (Some W) dt s = Some s'
     \<and> (CalculateWidgetDrawSize h W s = CurrentWidgetDrawSize s
          \<or> IsTextureSizeValid h (CalculateWidgetDrawSize h W s) \<longrightarrow>
            CurrentWidgetDrawSize s' = CalculateWidgetDrawSize h W s
          \<and> map_option RenderTarget_Addr (WidgetRenderTarget s') = Some (RenderTarget_Addr RT)
          \<and> map_option Window_Addr (SlateWindow s') = Some (Window_Addr Win)
          \<and> DrawCalls (NewCalls (PostProcess_Calls s) (PostProcess_Calls s'))
              = [DrawWindow (Some (RenderTarget_Addr RT)) (Window_Addr Win) 1
                   (CurrentWidgetDrawSize s') dt])
     \<and> (CalculateWidgetDrawSize h W s \<noteq> CurrentWidgetDrawSize s
          \<and> \<not> IsTextureSizeValid h (CalculateWidgetDrawSize h W s) \<longrightarrow>
            s' = PostProcess_Hide h (Some W) s
          \<and> DrawCalls (NewCalls (PostProcess_Calls s) (PostProcess_Calls s')) = [])"
proof (cases "CalculateWidgetDrawSize h W s = CurrentWidgetDrawSize s")
  case True
  have "WidgetRenderer s \<noteq> None \<longrightarrow> SlateWindow s \<noteq> None" using assms(3) by simp
  from TickRenderer_same_size [OF assms(1) True this, of dt] True assms
  show ?thesis by (simp add: NewCalls_append)
next
  case False
  show ?thesis
  proof (cases "IsTextureSizeValid h (CalculateWidgetDrawSize h W s)")
    case True
    from TickRenderer_resizes [OF assms(1,3) False True, of dt] False True assms(2)
    show ?thesis
      by (simp add: NewCalls_append DrawCalls_append)
  next
    case invalid: False
    obtain cs where "PostProcess_Calls (PostProcess_Hide h (Some W) s) = PostProcess_Calls s @ cs"
      "DrawCalls cs = []"
      using PostProcess_Hide_DrawCalls [of h "Some W" s] by blast
    with TickRenderer_hides [OF assms(1) False invalid, of dt] False invalid
    show ?thesis by (simp add: NewCalls_append)
  qed
qed

theorem TickRenderer_draws_witness:
  "TickRenderer ExampleHost (Some 5) (1 / 60) DisplayedPostProcess
     = Some (DisplayedPostProcess
               \<lparr>PostProcess_Calls := PostProcess_Calls DisplayedPostProcess
                   @ [DrawWindow (Some 40) 44 1 \<lparr>X = 1280, Y = 720\<rparr> (1 / 60)]\<rparr>)
   \<and> DrawCalls (NewCalls (PostProcess_Calls DisplayedPostProcess)
        (PostProcess_Calls (the (TickRenderer ExampleHost (Some 5) (1 / 60) DisplayedPostProcess))))
       = [DrawWindow (Some 40) 44 1 \<lparr>X = 1280, Y = 720\<rparr> (1 / 60)]"
proof -
  from TickRenderer_draws [OF DisplayedPostProcess_fields(1,3,2), of ExampleHost 5 "1 / 60"]
  obtain s' where s': "TickRenderer ExampleHost (Some 5) (1 / 60) DisplayedPostProcess = Some s'"
    and r: "CalculateWidgetDrawSize ExampleHost 5 DisplayedPostProcess
              = CurrentWidgetDrawSize DisplayedPostProcess
            \<or> IsTextureSizeValid ExampleHost (CalculateWidgetDrawSize ExampleHost 5 DisplayedPostProcess)
            \<longrightarrow> CurrentWidgetDrawSize s' = CalculateWidgetDrawSize ExampleHost 5 DisplayedPostProcess
              \<and> DrawCalls (NewCalls (PostProcess_Calls DisplayedPostProcess) (PostProcess_Calls s'))
              = [DrawWindow (Some (RenderTarget_Addr ExampleRenderTarget)) (Window_Addr ExampleWindow) 1
                   (CurrentWidgetDrawSize s') (1 / 60)]"
    by blast
  have same: "CalculateWidgetDrawSize ExampleHost 5 DisplayedPostProcess
              = CurrentWidgetDrawSize DisplayedPostProcess"
    unfolding CalculateWidgetDrawSize_Displayed DisplayedPostProcess_fields by simp
  with r have d: "DrawCalls (NewCalls (PostProcess_Calls DisplayedPostProcess) (PostProcess_Calls s'))
              = [DrawWindow (Some 40) 44 1 \<lparr>X = 1280, Y = 720\<rparr> (1 / 60)]"
    by (simp add: CalculateWidgetDrawSize_Displayed ExampleRenderTarget_def ExampleWindow_def)
  have "WidgetRenderer DisplayedPostProcess \<noteq> None \<longrightarrow> SlateWindow DisplayedPostProcess \<noteq> None"
    by (simp add: DisplayedPostProcess_fields)
  from TickRenderer_same_size [OF DisplayedPostProcess_fields(1) same this, of "1 / 60"] s' d
  show ?thesis
    by (simp add: DisplayedPostProcess_fields ExampleRenderTarget_def ExampleWindow_def ExampleRenderer_def)
qed

subsection \<open>C5: the post-process component\<close>

text \<open>
  Claim C5. \<open>CreatePostProcessComponent\<close> returns true exactly when the world and
  the post-process material are non-null, which is exactly when it leaves a component
  and a material instance. In that case the instance is created from
  \<open>PostProcessMaterial\<close> with its \<open>SlateUI\<close> texture parameter set to
  \<open>WidgetRenderTarget\<close>, \<open>TintColorAndOpacity\<close> to \<open>PostProcessTintColorAndOpacity\<close> and
  \<open>OpacityFromTexture\<close> to \<open>PostProcessOpacityFromTexture\<close>, and it is the single
  weighted blendable, of weight 1, of an enabled, unbound component. The same holds
  after \<open>PostProcess_Display\<close> with \<open>bRenderToTextureOnly\<close> false, where the texture
  parameter is the render target the display has just created.
\<close>

theorem CreatePostProcessComponent_spec:
  assumes "CreatePostProcessComponent h InWorld s = (bResult, s')"
    and "PostProcess_Display h2 InWorld2 InWidget False dpi t = Some (bOk, t')"
  shows "(bResult \<longleftrightarrow> InWorld \<noteq> None \<and> PostProcessMaterial s \<noteq> None)
       \<and> (bResult \<longleftrightarrow> PostProcessComponent s' \<noteq> None \<and> PostProcessMaterialInstance s' \<noteq> None)
       \<and> (\<forall>W M. InWorld = Some W \<and> PostProcessMaterial s = Some M \<longrightarrow>
            (\<exists>C MI. PostProcessComponent s' = Some C \<and> PostProcessMaterialInstance s' = Some MI
               \<and> Parent MI = M
               \<and> TextureParameterValues MI NAME_SlateUI
                   = Some (map_option RenderTarget_Addr (WidgetRenderTarget s))
               \<and> VectorParameterValues MI NAME_TintColorAndOpacity
                   = Some (PostProcessTintColorAndOpacity s)
               \<and> ScalarParameterValues MI NAME_OpacityFromTexture
                   = Some (PostProcessOpacityFromTexture s)
               \<and> WeightedBlendables C = [\<lparr>Weight = 1, Object = Some (MaterialInstance_Addr MI)\<rparr>]
               \<and> bEnabled C \<and> bUnbound C))
       \<and> (\<forall>W M. InWorld2 = Some W \<and> PostProcessMaterial t = Some M \<longrightarrow>
            (\<exists>C MI. PostProcessComponent t' = Some C \<and> PostProcessMaterialInstance t' = Some MI
               \<and> Parent MI = M
               \<and> TextureParameterValues MI NAME_SlateUI
                   = Some (map_option RenderTarget_Addr (WidgetRenderTarget t'))
               \<and> VectorParameterValues MI NAME_TintColorAndOpacity
                   = Some (PostProcessTintColorAndOpacity t)
               \<and> ScalarParameterValues MI NAME_OpacityFromTexture
                   = Some (PostProcessOpacityFromTexture t)
               \<and> WeightedBlendables C = [\<lparr>Weight = 1, Object = Some (MaterialInstance_Addr MI)\<rparr>]
               \<and> bEnabled C \<and> bUnbound C))"
proof -
  have part1: "(bResult \<longleftrightarrow> InWorld \<noteq> None \<and> PostProcessMaterial s \<noteq> None)
       \<and> (bResult \<longleftrightarrow> PostProcessComponent s' \<noteq> None \<and> PostProcessMaterialInstance s' \<noteq> None)"
  proof (cases "InWorld = None \<or> PostProcessMaterial s = None")
    case True
    from CreatePostProcessComponent_not_created [OF True, of h] assms(1) show ?thesis
      using True by auto
  next
    case False
    then obtain W M where wm: "InWorld = Some W" "PostProcessMaterial s = Some M" by auto
    from CreatePostProcessComponent_created [OF wm(2), of h W] assms(1) wm show ?thesis
      by auto
  qed
  have part2: "\<exists>C MI. PostProcessComponent s' = Some C \<and> PostProcessMaterialInstance s' = Some MI
               \<and> Parent MI = M
               \<and> TextureParameterValues MI NAME_SlateUI
                   = Some (map_option RenderTarget_Addr (WidgetRenderTarget s))
               \<and> VectorParameterValues MI NAME_TintColorAndOpacity
                   = Some (PostProcessTintColorAndOpacity s)
               \<and> ScalarParameterValues MI NAME_OpacityFromTexture
                   = Some (PostProcessOpacityFromTexture s)
               \<and> WeightedBlendables C = [\<lparr>Weight = 1, Object = Some (MaterialInstance_Addr MI)\<rparr>]
               \<and> bEnabled C \<and> bUnbound C"
    if wm: "InWorld = Some W" "PostProcessMaterial s = Some M" for W M
    using CreatePostProcessComponent_created [OF wm(2), of h W] assms(1) wm(1) by auto
  have part3: "\<exists>C MI. PostProcessComponent t' = Some C \<and> PostProcessMaterialInstance t' = Some MI
               \<and> Parent MI = M
               \<and> TextureParameterValues MI NAME_SlateUI
                   = Some (map_option RenderTarget_Addr (WidgetRenderTarget t'))
               \<and> VectorParameterValues MI NAME_TintColorAndOpacity
                   = Some (PostProcessTintColorAndOpacity t)
               \<and> ScalarParameterValues MI NAME_OpacityFromTexture
                   = Some (PostProcessOpacityFromTexture t)
               \<and> WeightedBlendables C = [\<lparr>Weight = 1, Object = Some (MaterialInstance_Addr MI)\<rparr>]
               \<and> bEnabled C \<and> bUnbound C"
    if wm: "InWorld2 = Some W" "PostProcessMaterial t = Some M" for W M
  proof -
    from assms(2) obtain b1 t1 b2 where
      cr: "CreateRenderer h2 InWorld2 InWidget dpi (t\<lparr>bRenderToTextureOnly := False\<rparr>) = Some (b1, t1)"
      and cp: "CreatePostProcessComponent h2 InWorld2 t1 = (b2, t')"
      by (auto simp add: PostProcess_Display_def Let_def split: option.splits prod.splits if_splits
               dest: CreateRenderer_bRenderToTextureOnly)
    have cfg: "PostProcessMaterial t1 = Some M"
      "PostProcessTintColorAndOpacity t1 = PostProcessTintColorAndOpacity t"
      "PostProcessOpacityFromTexture t1 = PostProcessOpacityFromTexture t"
      using CreateRenderer_config [OF cr] wm(2) by simp_all
    from CreatePostProcessComponent_created [OF cfg(1), of h2 W] cp wm(1) cfg(2,3)
    show ?thesis by auto
  qed
  from part1 part2 part3 show ?thesis by blast
qed

theorem CreatePostProcessComponent_spec_witness:
  "PostProcess_Display ExampleHost (Some 5) (Some 47) False 1 ExamplePostProcess
     = Some (True, DisplayedPostProcess)
   \<and> fst (CreatePostProcessComponent ExampleHost (Some 5) ExamplePostProcess)
   \<and> PostProcessComponent (snd (CreatePostProcessComponent ExampleHost (Some 5) ExamplePostProcess))
       \<noteq> None
   \<and> PostProcessMaterialInstance (snd (CreatePostProcessComponent ExampleHost (Some 5) ExamplePostProcess))
       \<noteq> None
   \<and> \<not> fst (CreatePostProcessComponent ExampleHost None ExamplePostProcess)"
proof -
  have e1: "CreatePostProcessComponent ExampleHost (Some 5) ExamplePostProcess
              = (fst (CreatePostProcessComponent ExampleHost (Some 5) ExamplePostProcess),
                 snd (CreatePostProcessComponent ExampleHost (Some 5) ExamplePostProcess))"
    by simp
  have e0: "CreatePostProcessComponent ExampleHost None ExamplePostProcess
              = (fst (CreatePostProcessComponent ExampleHost None ExamplePostProcess),
                 snd (CreatePostProcessComponent ExampleHost None ExamplePostProcess))"
    by simp
  note e2 = DisplayedPostProcess_is_displayed
  have m: "PostProcessMaterial ExamplePostProcess \<noteq> None"
    by (simp add: Example_defs)
  note t1 = CreatePostProcessComponent_spec [OF e1 e2]
  note t0 = CreatePostProcessComponent_spec [OF e0 e2]
  from t1 have a: "fst (CreatePostProcessComponent ExampleHost (Some 5) ExamplePostProcess)
      = (Some (5::nat) \<noteq> None \<and> PostProcessMaterial ExamplePostProcess \<noteq> None)"
    by (rule conjunct1)
  from t1 have b: "fst (CreatePostProcessComponent ExampleHost (Some 5) ExamplePostProcess)
      = (PostProcessComponent (snd (CreatePostProcessComponent ExampleHost (Some 5) ExamplePostProcess))
           \<noteq> None
         \<and> PostProcessMaterialInstance
             (snd (CreatePostProcessComponent ExampleHost (Some 5) ExamplePostProcess)) \<noteq> None)"
    by (rule conjunct1 [OF conjunct2])
  from t0 have c: "fst (CreatePostProcessComponent ExampleHost None ExamplePostProcess)
      = ((None :: addr option) \<noteq> None \<and> PostProcessMaterial ExamplePostProcess \<noteq> None)"
    by (rule conjunct1)
  from a m have "fst (CreatePostProcessComponent ExampleHost (Some 5) ExamplePostProcess)"
    by blast
  moreover from this b have
    "PostProcessComponent (snd (CreatePostProcessComponent ExampleHost (Some 5) ExamplePostProcess))
           \<noteq> None
     \<and> PostProcessMaterialInstance
          (snd (CreatePostProcessComponent ExampleHost (Some 5) ExamplePostProcess)) \<noteq> None"
    by blast
  moreover from c have "\<not> fst (CreatePostProcessComponent ExampleHost None ExamplePostProcess)"
    by blast
  ultimately show ?thesis using e2 by blast
qed

subsection \<open>C6: one presentation at a time\<close>




subsection \<open>C7: the display follows the lifetime of its world\<close>

text \<open>
  Claim C7. In every state an object can reach: when the tracked world reads as null at
  a tick (the weak reference has become stale), \<open>Tick\<close> returns with
  \<open>CurrentDisplayType\<close> \<open>Inactive\<close> and no widget, and for a displayed object it is the
  call of \<open>Hide\<close>; \<open>OnLevelRemovedFromWorld\<close> with a null level and the tracked world is
  the call of \<open>Hide\<close>, and so is \<open>BeginDestroy\<close>; \<open>Hide\<close> leaves \<open>CurrentDisplayType\<close>
  \<open>Inactive\<close> and the created widget released.
\<close>

theorem lifecycle_hides:
  assumes "reachable s"
  shows "(World s = None \<longrightarrow>
           (\<exists>s'. Tick h dt s = Some s' \<and> CurrentDisplayType s' = Inactive \<and> Widget s' = None
                \<and> (IsDisplayed s \<longrightarrow> s' = Hide h s)))
   \<and> (World s = Some W \<longrightarrow> OnLevelRemovedFromWorld h None (Some W) s = Hide h s)
   \<and> BeginDestroy h s = Hide h s
   \<and> CurrentDisplayType (Hide h s) = Inactive
   \<and> Widget (Hide h s) = None
   \<and> \<not> IsDisplayed (Hide h s)"
proof -
  note inv = reachable_Invariant [OF assms]
  have w: "Widget (Hide h s) = None"
    using inv by (auto simp add: Hide_fields Invariant_def)
  have t: "\<exists>s'. Tick h dt s = Some s' \<and> CurrentDisplayType s' = Inactive \<and> Widget s' = None
                \<and> (IsDisplayed s \<longrightarrow> s' = Hide h s)"
    if n: "World s = None"
  proof (cases "CurrentDisplayType s = Inactive")
    case True
    with inv have "Widget s = None" by (auto simp add: Invariant_def)
    with True show ?thesis by (simp add: Tick_def IsDisplayed_def)
  next
    case False
    with n have "Tick h dt s = Some (Hide h s)" by (simp add: Tick_def)
    with w show ?thesis by (simp add: Hide_fields(1))
  qed
  have l: "OnLevelRemovedFromWorld h None (Some W) s = Hide h s" if "World s = Some W"
    using that by (simp add: OnLevelRemovedFromWorld_def)
  from t l w show ?thesis
    by (simp add: BeginDestroy_def Hide_fields(1) IsDisplayed_def)
qed

theorem lifecycle_hides_witness:
  "reachable WorldDestroyedWidget
   \<and> IsDisplayed WorldDestroyedWidget
   \<and> World WorldDestroyedWidget = None
   \<and> Tick ExampleHost (1 / 60) WorldDestroyedWidget = Some (Hide ExampleHost WorldDestroyedWidget)
   \<and> CurrentDisplayType (Hide ExampleHost WorldDestroyedWidget) = Inactive
   \<and> Widget (Hide ExampleHost WorldDestroyedWidget) = None
   \<and> reachable DisplayedWidget
   \<and> Widget DisplayedWidget = Some 47
   \<and> OnLevelRemovedFromWorld ExampleHost None (Some 5) DisplayedWidget
       = Hide ExampleHost DisplayedWidget
   \<and> Widget (Hide ExampleHost DisplayedWidget) = None"
proof -
  have d: "IsDisplayed WorldDestroyedWidget" "World WorldDestroyedWidget = None"
    by (simp_all add: WorldDestroyedWidget_def DisplayedWidget_def IsDisplayed_def)
  have e: "World DisplayedWidget = Some 5" "Widget DisplayedWidget = Some 47"
    by (simp_all add: DisplayedWidget_def)
  from lifecycle_hides [OF reachable_WorldDestroyedWidget, where h = ExampleHost and dt = "1 / 60"] d
  have 1: "Tick ExampleHost (1 / 60) WorldDestroyedWidget = Some (Hide ExampleHost WorldDestroyedWidget)"
    "CurrentDisplayType (Hide ExampleHost WorldDestroyedWidget) = Inactive"
    "Widget (Hide ExampleHost WorldDestroyedWidget) = None"
    by auto
  from lifecycle_hides [OF reachable_DisplayedWidget, where W = 5 and h = ExampleHost] e
  have 2: "OnLevelRemovedFromWorld ExampleHost None (Some 5) DisplayedWidget
       = Hide ExampleHost DisplayedWidget"
     "Widget (Hide ExampleHost DisplayedWidget) = None"
    by auto
  from 1 2 d e reachable_WorldDestroyedWidget reachable_DisplayedWidget show ?thesis by simp
qed

subsection \<open>C8: Display rejected\<close>

text \<open>
  Claim C8, as stated, fails where the widget is already displayed: \<open>Display\<close> returns
  false and changes no path, but \<open>CurrentDisplayType\<close> is then the active display type,
  here \<open>PostProcess\<close>, and not \<open>Inactive\<close>.
\<close>

theorem Display_when_displayed_keeps_display_type:
  "Display ExampleHost (Some 5) ExampleWidget = Some (True, DisplayedWidget)
   \<and> IsDisplayed DisplayedWidget
   \<and> Display ExampleHost (Some 5) DisplayedWidget = Some (False, DisplayedWidget)
   \<and> CurrentDisplayType DisplayedWidget = PostProcess
   \<and> CurrentDisplayType DisplayedWidget \<noteq> Inactive"
proof -
  have g: "\<not> DisplayGuard ExampleHost (Some 5) DisplayedWidget"
    by (simp add: DisplayGuard_def DisplayedWidget_def)
  have "DisplayedWidget\<lparr>bDisplayRequested := True, World := Some 5\<rparr> = DisplayedWidget"
    by (simp add: DisplayedWidget_def)
  with Display_guard_fails [OF g] Display_Example show ?thesis
    by (simp add: IsDisplayed_def DisplayedWidget_def)
qed

text \<open>
  Claim C8, amended. Whenever \<open>InWorld\<close> is null, \<open>WidgetClass\<close> is unset,
  \<open>ShouldDisplay\<close> is false (server build, null RHI, archetype or class-default object,
  dedicated server, or display type \<open>Inactive\<close> for the world) or the widget is already
  displayed, \<open>Display\<close> returns false and leaves \<open>CurrentDisplayType\<close> (so \<open>Inactive\<close>
  where it was \<open>Inactive\<close>), the widget and both display paths as they were. Every
  call of \<open>Display\<close> that returns, whatever it returns, leaves \<open>bDisplayRequested\<close>
  true and \<open>InWorld\<close> as the tracked world.
\<close>

theorem Display_rejects:
  assumes "InWorld = None \<or> WidgetClass s = None \<or> \<not> ShouldDisplay h InWorld s \<or> IsDisplayed s"
    and "Display h2 InWorld2 t = Some (b, t')"
  shows "(\<exists>s'. Display h InWorld s = Some (False, s')
            \<and> CurrentDisplayType s' = CurrentDisplayType s
            \<and> (CurrentDisplayType s = Inactive \<longrightarrow> CurrentDisplayType s' = Inactive)
            \<and> Widget s' = Widget s
            \<and> ViewportDisplayType s' = ViewportDisplayType s
            \<and> PostProcessDisplayType s' = PostProcessDisplayType s
            \<and> Widget_Calls s' = Widget_Calls s
            \<and> bDisplayRequested s' \<and> World s' = InWorld)
       \<and> bDisplayRequested t' \<and> World t' = InWorld2
       \<and> (ShouldDisplay h InWorld s \<longleftrightarrow>
            \<not> UE_SERVER h \<and> \<not> GUsingNullRHI h
          \<and> RF_ArchetypeObject \<notin> ObjectFlags s \<and> RF_ClassDefaultObject \<notin> ObjectFlags s
          \<and> \<not> IsRunningDedicatedServer h
          \<and> GetDisplayType h InWorld s \<noteq> Inactive)"
proof -
  from assms(1) have g: "\<not> DisplayGuard h InWorld s"
    by (auto simp add: DisplayGuard_def IsDisplayed_def)
  have 1: "\<exists>s'. Display h InWorld s = Some (False, s')
            \<and> CurrentDisplayType s' = CurrentDisplayType s
            \<and> (CurrentDisplayType s = Inactive \<longrightarrow> CurrentDisplayType s' = Inactive)
            \<and> Widget s' = Widget s
            \<and> ViewportDisplayType s' = ViewportDisplayType s
            \<and> PostProcessDisplayType s' = PostProcessDisplayType s
            \<and> Widget_Calls s' = Widget_Calls s
            \<and> bDisplayRequested s' \<and> World s' = InWorld"
    by (simp add: Display_guard_fails [OF g])
  have 2: "bDisplayRequested t' \<and> World t' = InWorld2"
  proof (cases "DisplayGuard h2 InWorld2 t")
    case False
    from Display_guard_fails [OF False] assms(2) show ?thesis by auto
  next
    case True
    from assms(2) obtain s3 where iw: "InitWidget h2 (DisplayRequested h2 InWorld2 t) = Some s3"
      by (auto simp add: Display_guard_holds [OF True] split: option.splits)
    from InitWidget_fields [OF iw]
    have f: "bDisplayRequested s3" "World s3 = InWorld2"
      by (simp_all add: DisplayRequested_def)
    from assms(2) iw obtain u where "t' = Registered b u" "bDisplayRequested u = bDisplayRequested s3"
      "World u = World s3"
      by (auto simp add: Display_guard_holds [OF True] split: option.splits if_splits)
    with f show ?thesis by simp
  qed
  have 3: "ShouldDisplay h InWorld s \<longleftrightarrow>
            \<not> UE_SERVER h \<and> \<not> GUsingNullRHI h
          \<and> RF_ArchetypeObject \<notin> ObjectFlags s \<and> RF_ClassDefaultObject \<notin> ObjectFlags s
          \<and> \<not> IsRunningDedicatedServer h
          \<and> GetDisplayType h InWorld s \<noteq> Inactive"
    by (auto simp add: ShouldDisplay_def HasAnyFlags_def)
  from 1 2 3 show ?thesis by blast
qed

theorem Display_rejects_witness:
  "Display ExampleHost None ExampleWidget
     = Some (False, ExampleWidget\<lparr>bDisplayRequested := True, World := None\<rparr>)
   \<and> CurrentDisplayType (ExampleWidget\<lparr>bDisplayRequested := True, World := None\<rparr>) = Inactive
   \<and> Display ExampleHost (Some 5) ExampleWidget = Some (True, DisplayedWidget)
   \<and> bDisplayRequested DisplayedWidget
   \<and> World DisplayedWidget = Some 5"
proof -
  have a: "(None :: addr option) = None \<or> WidgetClass ExampleWidget = None
           \<or> \<not> ShouldDisplay ExampleHost None ExampleWidget \<or> IsDisplayed ExampleWidget"
    by simp
  have g: "\<not> DisplayGuard ExampleHost None ExampleWidget"
    by (simp add: DisplayGuard_def)
  from Display_rejects [OF a Display_Example] Display_guard_fails [OF g]
  show ?thesis
    by (simp add: ExampleWidget_fields Display_Example)
qed

subsection \<open>C9: the size of the render target\<close>

text \<open>
  Claim C9. \<open>IsTextureSizeValid\<close> accepts a size exactly when both components are
  strictly positive and at most the maximum 2D texture dimension. Every
  \<^verbatim>\<open>InitCustomFormat\<close> call that \<open>CreateRenderer\<close> or \<open>TickRenderer\<close> issues is for a
  size it accepts; the render target \<open>CreateRenderer\<close> leaves has such a size, and the
  one \<open>TickRenderer\<close> leaves is the one it found or has such a size.
\<close>

theorem IsTextureSizeValid_guards:
  assumes "CreateRenderer h InWorld InWidget dpi s = Some (bOk, s')"
    and "TickRenderer h2 InWorld2 dt t = Some t'"
  shows "(IsTextureSizeValid h Size \<longleftrightarrow>
            0 < X Size \<and> 0 < Y Size
          \<and> X Size \<le> GetMax2DTextureDimension h \<and> Y Size \<le> GetMax2DTextureDimension h)
       \<and> (\<forall>Sz \<in> set (InitSizes (NewCalls (PostProcess_Calls s) (PostProcess_Calls s'))).
             IsTextureSizeValid h Sz)
       \<and> (\<forall>RT. WidgetRenderTarget s' = Some RT \<longrightarrow>
             IsTextureSizeValid h \<lparr>X = SizeX RT, Y = SizeY RT\<rparr>)
       \<and> (\<forall>Sz \<in> set (InitSizes (NewCalls (PostProcess_Calls t) (PostProcess_Calls t'))).
             IsTextureSizeValid h2 Sz)
       \<and> (\<forall>RT. WidgetRenderTarget t' = Some RT \<longrightarrow>
             WidgetRenderTarget t = Some RT \<or> IsTextureSizeValid h2 \<lparr>X = SizeX RT, Y = SizeY RT\<rparr>)"
proof -
  have create: "(\<forall>Sz \<in> set (InitSizes (NewCalls (PostProcess_Calls s) (PostProcess_Calls s'))).
             IsTextureSizeValid h Sz)
       \<and> (\<forall>RT. WidgetRenderTarget s' = Some RT \<longrightarrow>
             IsTextureSizeValid h \<lparr>X = SizeX RT, Y = SizeY RT\<rparr>)"
  proof (cases bOk)
    case True
    with CreateRenderer_succeeds [of h InWorld InWidget dpi s s'] assms(1)
    obtain W RT cs where
      "IsTextureSizeValid h (CalculateWidgetDrawSize h W s)"
      "CurrentWidgetDrawSize s' = CalculateWidgetDrawSize h W s"
      "WidgetRenderTarget s' = Some RT"
      "SizeX RT = X (CurrentWidgetDrawSize s')" "SizeY RT = Y (CurrentWidgetDrawSize s')"
      "PostProcess_Calls s' = PostProcess_Calls s @ cs"
      "InitSizes cs = [CurrentWidgetDrawSize s']"
      by auto
    then show ?thesis by (simp add: NewCalls_append)
  next
    case False
    with CreateRenderer_fails [of h InWorld InWidget dpi s s'] assms(1)
    have "s' = ReleaseRenderer h s" by simp
    with ReleaseRenderer_Calls [of h s] show ?thesis by (auto simp add: NewCalls_append)
  qed
  have tick: "\<forall>Sz \<in> set (InitSizes (NewCalls (PostProcess_Calls t) (PostProcess_Calls t'))).
             IsTextureSizeValid h2 Sz"
    using TickRenderer_InitSizes [OF assms(2)] by (auto simp add: NewCalls_append)
  from create tick TickRenderer_target [OF assms(2)] show ?thesis
    by (simp add: IsTextureSizeValid_iff)
qed

theorem IsTextureSizeValid_guards_witness:
  "CreateRenderer ExampleHost (Some 5) (Some 47) 1 ExamplePostProcess
     = Some (True, DisplayedPostProcess
               \<lparr>PostProcessComponent := None, PostProcessMaterialInstance := None,
                PostProcess_Calls := [RegisterVirtualWindow 44, InitCustomFormat 40 1280 720,
                                      UpdateResourceImmediate 40]\<rparr>)
   \<and> IsTextureSizeValid ExampleHost \<lparr>X = 1280, Y = 720\<rparr>
   \<and> IsTextureSizeValid ResizedHost \<lparr>X = 1920, Y = 1080\<rparr>
   \<and> \<not> IsTextureSizeValid ExampleHost \<lparr>X = 0, Y = 720\<rparr>
   \<and> \<not> IsTextureSizeValid ExampleHost \<lparr>X = 1280, Y = 16385\<rparr>"
proof -
  note e1 = CreateRenderer_Example
  note e2 = TickRenderer_Resized
  note t = IsTextureSizeValid_guards [OF e1 e2]
  have a: "IsTextureSizeValid ExampleHost \<lparr>X = 1280, Y = 720\<rparr>"
    using t [of "\<lparr>X = 0, Y = 0\<rparr>"]
    by (simp add: DisplayedPostProcess_fields ExampleRenderTarget_def)
  have b: "IsTextureSizeValid ResizedHost \<lparr>X = 1920, Y = 1080\<rparr>"
    using t [of "\<lparr>X = 0, Y = 0\<rparr>"]
    by (simp add: DisplayedPostProcess_fields ExampleRenderTarget_def)
  have c: "\<not> IsTextureSizeValid ExampleHost \<lparr>X = 0, Y = 720\<rparr>"
    using t [of "\<lparr>X = 0, Y = 720\<rparr>"] by simp
  have d: "\<not> IsTextureSizeValid ExampleHost \<lparr>X = 1280, Y = 16385\<rparr>"
    using t [of "\<lparr>X = 1280, Y = 16385\<rparr>"] by (simp add: ExampleHost_def)
  from e1 a b c d show ?thesis by simp
qed

subsection \<open>C10: Hide is idempotent\<close>

text \<open>
  Claim C10. After \<open>Hide\<close>, under any host, \<open>IsDisplayed\<close> is false,
  \<open>CurrentDisplayType\<close> is \<open>Inactive\<close>, \<open>bDisplayRequested\<close> is false and the tracked
  world is cleared; a second \<open>Hide\<close>, under any host, leaves the whole object,
  the calls it issued included, as the first left it.
\<close>

theorem Hide_idempotent:
  "\<not> IsDisplayed (Hide h s)
   \<and> CurrentDisplayType (Hide h s) = Inactive
   \<and> \<not> bDisplayRequested (Hide h s)
   \<and> World (Hide h s) = None
   \<and> Hide h' (Hide h s) = Hide h s"
proof -
  have 1: "CurrentDisplayType (Hide h s) = Inactive"
    by (simp add: Hide_def Let_def ReleaseWidget_def)
  have 2: "\<not> bDisplayRequested (Hide h s)"
    by (simp add: Hide_def Let_def ReleaseWidget_def)
  have 3: "World (Hide h s) = None"
    by (simp add: Hide_def Let_def)
  have "Hide h' t = t" if "CurrentDisplayType t = Inactive" "\<not> bDisplayRequested t" "World t = None" for t
    using that by (simp add: Hide_def Let_def)
  with 1 2 3 show ?thesis by (simp add: IsDisplayed_def)
qed


end
